(* ===== verification/Prelude.thy ===== *)
theory Prelude
  imports Complex_Main
begin

text \<open>
  Shared vocabulary of the development: the names of the model's basic types, the
  JavaScript runtime operations the repository calls (\<open>Math.round\<close>,
  \<open>Number.prototype.toString\<close>, \<open>a || b\<close> on numbers), their lemmas, and the
  generic list lemmas the component theories share. The theorem collections declared
  here are filled by the component theories and used by their proofs.
\<close>

named_theorems handler_defs "unfolding rules of the SessionPage handlers"
named_theorems heap_simps "rewrite rules of the object store of set results"

type_synonym ms = int \<comment> \<open>a \<open>Date.now()\<close> reading, milliseconds\<close>
type_synonym ref = nat \<comment> \<open>the address of a mutable JavaScript object\<close>

section \<open>JavaScript runtime operations\<close>

text \<open>
  \<open>Math.round(x)\<close> rounds half-way cases up, towards \<open>+\<infinity>\<close>:
  it is \<open>\<lfloor>x + 1/2\<rfloor>\<close>. The argument is a JavaScript number; every number the
  repository rounds is a quotient of integers, kept exact as a \<open>rat\<close>.
\<close>

definition js_round :: "rat \<Rightarrow> int" where
  "js_round x = \<lfloor>x + 1 / 2\<rfloor>"

lemma js_round_ms_minutes:
  "js_round (of_int d / 1000 / 60) = (d + 30000) div 60000"
proof -
  have "of_int d / 1000 / 60 + 1 / 2 = (of_int (d + 30000) :: rat) / of_int 60000"
    by (simp add: field_simps)
  then show ?thesis
    unfolding js_round_def by (simp only: floor_divide_of_int_eq)
qed

text \<open>\<open>Math.floor\<close> of the same quotient, and how the two roundings differ.\<close>

lemma js_floor_ms_minutes: "\<lfloor>(of_int d :: rat) / 1000 / 60\<rfloor> = d div 60000"
proof -
  have "(of_int d :: rat) / 1000 / 60 = of_int d / of_int 60000" by simp
  then show ?thesis by (simp only: floor_divide_of_int_eq)
qed

lemma round_floor_minutes:
  "(d + 30000) div 60000 = d div 60000 + (if d mod 60000 < 30000 then 0 else 1 :: int)"
proof -
  let ?r = "d mod 60000"
  have split: "(d + 30000) div 60000 = d div 60000 + (?r + 30000) div 60000"
    using div_add1_eq [of d 30000 "60000::int"] by simp
  have r: "0 \<le> ?r" "?r < 60000" by simp_all
  show ?thesis
  proof (cases "?r < 30000")
    case True
    then have "(?r + 30000) div 60000 = 0" using r by (simp add: div_pos_pos_trivial)
    with split True show ?thesis by simp
  next
    case False
    have "?r + 30000 = 60000 + (?r - 30000)" by simp
    moreover have "(?r - 30000) div 60000 = 0" using False r by (simp add: div_pos_pos_trivial)
    ultimately have "(?r + 30000) div 60000 = 1" by simp
    with split False show ?thesis by simp
  qed
qed

text \<open>
  \<open>n.toString()\<close> for an integer \<open>n\<close>: its decimal digits, with a minus sign when
  negative. \<open>decimal\<close> is the digit string of a natural number;
  \<open>parse_decimal\<close> reads one back (an accumulator loop over the digits).
\<close>

fun decimal :: "nat \<Rightarrow> string" where
  "decimal n = (if n < 10 then [char_of (48 + n)]
                else decimal (n div 10) @ [char_of (48 + n mod 10)])"

declare decimal.simps [simp del]

definition js_toString :: "int \<Rightarrow> string" where
  "js_toString n = (if n < 0 then CHR ''-'' # decimal (nat (- n)) else decimal (nat n))"

fun parse_decimal_acc :: "nat \<Rightarrow> string \<Rightarrow> nat" where
  "parse_decimal_acc acc [] = acc"
| "parse_decimal_acc acc (c # cs) = parse_decimal_acc (10 * acc + (of_char c - 48)) cs"

definition parse_decimal :: "string \<Rightarrow> nat" where
  "parse_decimal s = parse_decimal_acc 0 s"

lemma parse_decimal_acc_append:
  "parse_decimal_acc acc (xs @ ys) = parse_decimal_acc (parse_decimal_acc acc xs) ys"
  by (induction xs arbitrary: acc) auto

lemma of_char_digit: "(d::nat) < 10 \<Longrightarrow> of_char (char_of (48 + d) :: char) = 48 + d"
  by (simp add: of_char_of)

lemma parse_decimal_acc_decimal:
  "parse_decimal_acc acc (decimal n) = acc * 10 ^ length (decimal n) + n"
proof (induction n arbitrary: acc rule: decimal.induct)
  case (1 n)
  show ?case
  proof (cases "n < 10")
    case True
    then show ?thesis by (simp add: decimal.simps [of n] of_char_digit)
  next
    case False
    then have "parse_decimal_acc acc (decimal n)
        = 10 * parse_decimal_acc acc (decimal (n div 10)) + n mod 10"
      by (simp add: decimal.simps [of n] parse_decimal_acc_append of_char_digit)
    also have "\<dots> = acc * 10 ^ length (decimal n) + n"
      using "1.IH" [OF False, of acc] False
      by (simp add: decimal.simps [of n] algebra_simps)
    finally show ?thesis .
  qed
qed

lemma parse_decimal_decimal [simp]: "parse_decimal (decimal n) = n"
  by (simp add: parse_decimal_def parse_decimal_acc_decimal)

lemma decimal_inj: "decimal m = decimal n \<longleftrightarrow> m = n"
  by (metis parse_decimal_decimal)

lemma js_toString_nonneg: "0 \<le> n \<Longrightarrow> js_toString n = decimal (nat n)"
  by (simp add: js_toString_def)

text \<open>
  \<open>x || d\<close> for an optional number \<open>x\<close>: \<open>undefined\<close> and \<open>0\<close> are falsy, so
  both give the default.
\<close>

definition js_or_num :: "int option \<Rightarrow> int \<Rightarrow> int" where
  "js_or_num x d = (case x of None \<Rightarrow> d | Some v \<Rightarrow> if v = 0 then d else v)"

lemma js_or_num_pos: "0 < d \<Longrightarrow> (\<forall>v. x = Some v \<longrightarrow> 0 \<le> v) \<Longrightarrow> 0 < js_or_num x d"
  by (auto simp: js_or_num_def split: option.splits)

section \<open>Generic list lemmas\<close>

text \<open>Reading a list of addresses through a store that was updated or extended elsewhere.\<close>

lemma map_nth_list_update_notin:
  "r \<notin> set rs \<Longrightarrow> map ((!) (h[r := v])) rs = map ((!) h) rs"
  by (induction rs) (auto simp: nth_list_update_neq)

lemma take_last_snoc: "xs \<noteq> [] \<Longrightarrow> take (length xs - 1) xs @ [xs ! (length xs - 1)] = xs"
  by (metis append_butlast_last_id butlast_conv_take last_conv_nth)

lemma map_nth_append_bounded:
  "\<forall>r \<in> set rs. r < length h \<Longrightarrow> map ((!) (h @ vs)) rs = map ((!) h) rs"
  by (induction rs) (auto simp: nth_append_left)

end
