(* ===== verification/Types.thy ===== *)
theory Types
  imports Prelude
begin

text \<open>
  The data model of \<open>types.ts\<close>: one \<^theory_text>\<open>datatype\<close> per enumeration and
  one \<^theory_text>\<open>record\<close> per interface, with the source's fields in the source's order.
  Field names shared by several interfaces carry a prefix naming the interface
  (\<open>e_\<close> Exercise, \<open>re_\<close> RoutineExercise, \<open>r_\<close> Routine, \<open>log_\<close> WorkoutLog);
  the others keep their TypeScript names. A JavaScript \<open>number\<close> that counts things
  built by \<open>Array.from({length: n})\<close> is a \<open>nat\<close>; other numbers are \<open>int\<close>, and
  \<open>totalDurationSeconds\<close>, a quotient of milliseconds by 1000, is an exact \<open>rat\<close>.
  An optional field (\<open>defaultReps?\<close>) and \<open>number | null\<close> are \<open>option\<close>s.
\<close>

datatype muscle_group =
    Ankle | Calf | Hamstrings | Hips | Thoracic | Shoulder | Neck | Wrists
  | LowerBack | UpperBack | Glutes | FullBody

datatype exercise_type = Reps | Time

record exercise =
  e_id :: string
  e_name :: string
  description :: string
  detailedDescription :: string
  muscleGroup :: muscle_group
  defaultReps :: "int option"
  defaultDurationSeconds :: "int option"
  defaultSets :: nat
  thumbnailUrl :: string
  e_type :: exercise_type

record routine_exercise =
  re_exerciseId :: string
  re_sets :: nat
  re_repsOrDuration :: int
  restSeconds :: int

record routine =
  r_id :: string
  r_name :: string
  r_exercises :: "routine_exercise list"
  r_isPremium :: bool
  createdAt :: ms

record workout_set_result =
  setNumber :: nat
  completed :: bool
  repsOrDuration :: int
  target :: int

text \<open>
  \<open>WorkoutExerciseLog.sets\<close> holds the set objects themselves. While a session runs
  they are shared with the page's working list, so the log is parametric in what it
  holds: \<open>ref workout_exercise_log\<close> while the session runs (addresses into the
  object store of \<^theory_text>\<open>SetHeap\<close>), \<open>workout_set_result workout_exercise_log\<close>
  once serialised into a \<open>WorkoutLog\<close>.
\<close>

record 's workout_exercise_log =
  exerciseId :: string
  exerciseName :: string
  sets :: "'s list"

record workout_log =
  log_id :: string
  routineId :: string
  routineName :: string
  startTime :: ms
  endTime :: ms
  totalDurationSeconds :: rat
  exercises :: "workout_set_result workout_exercise_log list"

record user_stats =
  totalWorkouts :: int
  totalMinutes :: int
  streakDays :: int
  lastWorkoutDate :: "ms option"
  isPremium :: bool

end
