(* ===== verification/SetHeap.thy ===== *)
theory SetHeap
  imports Types
begin

text \<open>
  The objects of type \<open>WorkoutSetResult\<close> are shared and mutated in place by the
  SessionPage (\<open>newSets[index].completed = \<dots>\<close> writes into the object that both the
  working list and a committed exercise log point to). They live in an explicit store:
  a list of set results, an object's address being its position. Allocation appends,
  a field write updates one position, and a list of addresses is read back through the
  store with \<open>deref\<close>. This theory holds the store and its rewrite rules.
\<close>

type_synonym set_heap = "workout_set_result list"

definition present :: "set_heap \<Rightarrow> ref list \<Rightarrow> bool" where
  "present h rs \<longleftrightarrow> (\<forall>r \<in> set rs. r < length h)"

definition deref :: "set_heap \<Rightarrow> ref list \<Rightarrow> workout_set_result list" where
  "deref h rs = map ((!) h) rs"

definition alloc_list :: "workout_set_result list \<Rightarrow> set_heap \<Rightarrow> ref list \<times> set_heap" where
  "alloc_list vs h = ([length h ..< length h + length vs], h @ vs)"

definition modify :: "ref \<Rightarrow> (workout_set_result \<Rightarrow> workout_set_result) \<Rightarrow> set_heap \<Rightarrow> set_heap" where
  "modify r f h = h[r := f (h ! r)]"

text \<open>Serialising a committed exercise log reads its set objects through the store.\<close>

definition deref_log :: "set_heap \<Rightarrow> ref workout_exercise_log \<Rightarrow> workout_set_result workout_exercise_log" where
  "deref_log h l = \<lparr>exerciseId = exerciseId l, exerciseName = exerciseName l, sets = deref h (sets l)\<rparr>"

section \<open>Rules of the store\<close>

lemma present_simps [simp]:
  "present h []"
  "present h (r # rs) \<longleftrightarrow> r < length h \<and> present h rs"
  "present h (rs @ qs) \<longleftrightarrow> present h rs \<and> present h qs"
  by (auto simp: present_def)

lemma deref_simps [simp]:
  "deref h [] = []"
  "deref h (r # rs) = h ! r # deref h rs"
  "deref h (rs @ qs) = deref h rs @ deref h qs"
  "length (deref h rs) = length rs"
  by (simp_all add: deref_def)

lemma nth_deref [simp]: "i < length rs \<Longrightarrow> deref h rs ! i = h ! (rs ! i)"
  by (simp add: deref_def)

lemma length_modify [simp, heap_simps]: "length (modify r f h) = length h"
  by (simp add: modify_def)

lemma present_modify [simp, heap_simps]: "present (modify r f h) rs = present h rs"
  by (simp add: present_def)

lemma modify_nth_same [heap_simps]: "r < length h \<Longrightarrow> modify r f h ! r = f (h ! r)"
  by (simp add: modify_def)

lemma modify_nth_other [heap_simps]: "q \<noteq> r \<Longrightarrow> modify r f h ! q = h ! q"
  by (simp add: modify_def)

lemma modify_modify_same [heap_simps]:
  "modify r f (modify r g h) = modify r (f \<circ> g) h"
  by (cases "r < length h") (simp_all add: modify_def list_update_beyond)

lemma deref_modify_notin [heap_simps]:
  "r \<notin> set rs \<Longrightarrow> deref (modify r f h) rs = deref h rs"
  by (simp add: deref_def modify_def map_nth_list_update_notin)

text \<open>
  Writing the object at position \<open>i\<close> of a list of distinct present addresses changes
  exactly position \<open>i\<close> of the list read back: with distinct addresses, an in-place
  write is a functional list update.
\<close>

lemma deref_modify_distinct [heap_simps]:
  assumes "distinct rs" "present h rs" "i < length rs"
  shows "deref (modify (rs ! i) f h) rs = (deref h rs)[i := f (h ! (rs ! i))]"
proof (rule nth_equalityI)
  show "length (deref (modify (rs ! i) f h) rs) = length ((deref h rs)[i := f (h ! (rs ! i))])"
    by simp
next
  fix j assume j: "j < length (deref (modify (rs ! i) f h) rs)"
  have ri: "rs ! i < length h" using assms by (simp add: present_def)
  show "deref (modify (rs ! i) f h) rs ! j = (deref h rs)[i := f (h ! (rs ! i))] ! j"
  proof (cases "j = i")
    case True
    with j ri show ?thesis by (simp add: modify_nth_same)
  next
    case False
    with assms j have "rs ! j \<noteq> rs ! i" by (simp add: nth_eq_iff_index_eq)
    with j False show ?thesis by (simp add: modify_nth_other)
  qed
qed

lemma alloc_list_fresh [heap_simps]:
  "fst (alloc_list vs h) = [length h ..< length h + length vs]"
  "snd (alloc_list vs h) = h @ vs"
  by (simp_all add: alloc_list_def)

lemma deref_alloc_list_new [simp, heap_simps]:
  "deref (h @ vs) [length h ..< length h + length vs] = vs"
  by (rule nth_equalityI) (simp_all add: deref_def)

lemma deref_append_old [simp, heap_simps]:
  "present h rs \<Longrightarrow> deref (h @ vs) rs = deref h rs"
  by (simp add: deref_def present_def map_nth_append_bounded)

lemma present_append [simp, heap_simps]: "present h rs \<Longrightarrow> present (h @ vs) rs"
  by (auto simp: present_def)

lemma present_fresh [simp, heap_simps]: "present (h @ vs) [length h ..< length h + length vs]"
  by (simp add: present_def)

lemma fresh_not_present: "present h rs \<Longrightarrow> length h \<notin> set rs"
  by (auto simp: present_def)

lemma deref_log_simps [simp]:
  "exerciseId (deref_log h l) = exerciseId l"
  "exerciseName (deref_log h l) = exerciseName l"
  "sets (deref_log h l) = deref h (sets l)"
  by (simp_all add: deref_log_def)

end
