(* ===== verification/Session.thy ===== *)
theory Session
  imports SetHeap
begin

text \<open>
  The workout session engine: the \<open>SessionPage\<close> component of \<open>App.tsx\<close>
  (lines 405--701). Its React state is the record \<open>session\<close>; every handler is a
  function from the state to the next state, and the two effects (loading the sets of the
  current exercise, the rest-timer tick) are functions run where React runs them. The set
  objects live in the store of \<^theory_text>\<open>SetHeap\<close>, so the in-place writes of
  \<open>handleToggleSet\<close> and \<open>handleUpdateValue\<close> reach every log that shares the
  object. A handler that reads a property of \<open>undefined\<close> (an index out of range)
  throws a \<open>TypeError\<close>: that is the value \<open>Inl\<close> of the result.
\<close>

section \<open>State\<close>

datatype js_error =
    UndefinedRoutineExercise nat \<comment> \<open>\<open>routine.exercises[i]\<close> is undefined\<close>
  | UndefinedSet nat \<comment> \<open>\<open>newSets[i]\<close> is undefined\<close>

record session =
  routine :: routine
  exerciseIndex :: nat
  s_startTime :: ms
  workoutData :: "ref workout_exercise_log list"
  currentSets :: "ref list"
  showRestTimer :: bool
  restTime :: int
  showSummary :: bool
  heap :: set_heap

text \<open>The state right after mounting (lines 413--421): \<open>useState\<close> initial values.\<close>

definition initialSession :: "routine \<Rightarrow> ms \<Rightarrow> session" where
  "initialSession r now =
     \<lparr>routine = r, exerciseIndex = 0, s_startTime = now, workoutData = [], currentSets = [],
      showRestTimer = False, restTime = 0, showSummary = False, heap = []\<rparr>"

section \<open>Effects and rendering\<close>

text \<open>The planned sets of a routine exercise (lines 436--441).\<close>

definition initialSets :: "routine_exercise \<Rightarrow> workout_set_result list" where
  "initialSets re =
     map (\<lambda>i. \<lparr>setNumber = i + 1, completed = False,
               repsOrDuration = re_repsOrDuration re, target = re_repsOrDuration re\<rparr>)
         [0 ..< re_sets re]"

text \<open>
  The effect that loads the sets of the current exercise (lines 432--444). It runs after
  every render in which \<open>exerciseIndex\<close> changed, and allocates fresh set objects.
\<close>

definition loadSets :: "session \<Rightarrow> session" where
  "loadSets s =
     (if exerciseIndex s < length (r_exercises (routine s)) then
        (let (rs, h) = alloc_list (initialSets (r_exercises (routine s) ! exerciseIndex s)) (heap s)
         in s\<lparr>currentSets := rs, heap := h\<rparr>)
      else s)"

text \<open>
  Rendering reads \<open>routine.exercises[exerciseIndex].exerciseId\<close> (lines 564--565), which
  throws when the index is out of range.
\<close>

definition render :: "session \<Rightarrow> js_error + session" where
  "render s =
     (if exerciseIndex s < length (r_exercises (routine s)) then Inr s
      else Inl (UndefinedRoutineExercise (exerciseIndex s)))"

text \<open>
  Starting a session: mount, first render, then the effect. An empty routine makes the
  first render throw.
\<close>

definition sessionStart :: "routine \<Rightarrow> ms \<Rightarrow> js_error + session" where
  "sessionStart r now =
     (case render (initialSession r now) of
        Inl e \<Rightarrow> Inl e
      | Inr s \<Rightarrow> Inr (loadSets s))"

text \<open>\<open>setExerciseIndex\<close>, the re-render it causes, and the effect it triggers.\<close>

definition setExerciseIndex :: "nat \<Rightarrow> session \<Rightarrow> js_error + session" where
  "setExerciseIndex k s =
     (case render (s\<lparr>exerciseIndex := k\<rparr>) of
        Inl e \<Rightarrow> Inl e
      | Inr s' \<Rightarrow> Inr (loadSets s'))"

section \<open>Handlers\<close>

text \<open>\<open>handleToggleSet\<close> (lines 459--472).\<close>

definition handleToggleSet :: "nat \<Rightarrow> session \<Rightarrow> js_error + session" where
  "handleToggleSet index s =
     (if index < length (currentSets s) then
        (let r = currentSets s ! index;
             h = modify r (\<lambda>x. x\<lparr>completed := \<not> completed x\<rparr>) (heap s);
             s1 = s\<lparr>heap := h\<rparr>
         in if completed (h ! r) then
              (if exerciseIndex s < length (r_exercises (routine s)) then
                 (let routineEx = r_exercises (routine s) ! exerciseIndex s
                  in Inr (if 0 < restSeconds routineEx
                          then s1\<lparr>restTime := restSeconds routineEx, showRestTimer := True\<rparr>
                          else s1))
               else Inl (UndefinedRoutineExercise (exerciseIndex s)))
            else Inr s1)
      else Inl (UndefinedSet index))"

text \<open>\<open>handleUpdateValue\<close> (lines 474--478).\<close>

definition handleUpdateValue :: "nat \<Rightarrow> int \<Rightarrow> session \<Rightarrow> js_error + session" where
  "handleUpdateValue index delta s =
     (if index < length (currentSets s) then
        Inr (s\<lparr>heap := modify (currentSets s ! index)
                 (\<lambda>x. x\<lparr>repsOrDuration := max 0 (repsOrDuration x + delta)\<rparr>) (heap s)\<rparr>)
      else Inl (UndefinedSet index))"

text \<open>\<open>handleAddSet\<close> (lines 480--488): a new object copying the last set's values.\<close>

definition handleAddSet :: "session \<Rightarrow> session" where
  "handleAddSet s =
     (let cs = currentSets s;
          lastSet = (if cs = [] then None else Some (heap s ! last cs));
          v = \<lparr>setNumber = length cs + 1, completed = False,
               repsOrDuration = (case lastSet of Some l \<Rightarrow> repsOrDuration l | None \<Rightarrow> 10),
               target = (case lastSet of Some l \<Rightarrow> target l | None \<Rightarrow> 10)\<rparr>;
          (rs, h) = alloc_list [v] (heap s)
      in s\<lparr>currentSets := cs @ rs, heap := h\<rparr>)"

text \<open>\<open>handleRemoveSet\<close> (lines 490--494): \<open>slice(0, -1)\<close> is \<open>butlast\<close>.\<close>

definition handleRemoveSet :: "session \<Rightarrow> session" where
  "handleRemoveSet s =
     (if 1 < length (currentSets s) then s\<lparr>currentSets := butlast (currentSets s)\<rparr> else s)"

text \<open>\<open>exercise?.name || "Unknown"\<close>: an absent exercise or an empty name gives \<open>Unknown\<close>.\<close>

definition nameOrUnknown :: "exercise option \<Rightarrow> string" where
  "nameOrUnknown ex =
     (case ex of None \<Rightarrow> ''Unknown'' | Some e \<Rightarrow> if e_name e = [] then ''Unknown'' else e_name e)"

definition findExercise :: "exercise list \<Rightarrow> string \<Rightarrow> exercise option" where
  "findExercise library i = find (\<lambda>e. e_id e = i) library"

text \<open>
  The log object that \<open>saveCurrentExerciseData\<close> (lines 497--504) and
  \<open>handleFinishWorkout\<close> (lines 539--545) build for the current exercise, read at a
  valid index. It holds the working list of set objects itself (\<open>sets: currentSets\<close>),
  not a copy.
\<close>

definition currentExerciseLog :: "exercise list \<Rightarrow> session \<Rightarrow> ref workout_exercise_log" where
  "currentExerciseLog library s =
     (let routineEx = r_exercises (routine s) ! exerciseIndex s
      in \<lparr>exerciseId = re_exerciseId routineEx,
          exerciseName = nameOrUnknown (findExercise library (re_exerciseId routineEx)),
          sets = currentSets s\<rparr>)"

text \<open>
  \<open>saveCurrentExerciseData\<close> (lines 496--515): overwrite the entry at the current index
  if there is one (\<open>newData[exerciseIndex]\<close> is an object, so truthy, exactly when
  the index is in range), append otherwise.
\<close>

definition saveCurrentExerciseData :: "exercise list \<Rightarrow> session \<Rightarrow> js_error + session" where
  "saveCurrentExerciseData library s =
     (if exerciseIndex s < length (r_exercises (routine s)) then
        (let exerciseLog = currentExerciseLog library s;
             newData = (if exerciseIndex s < length (workoutData s)
                        then (workoutData s)[exerciseIndex s := exerciseLog]
                        else workoutData s @ [exerciseLog])
         in Inr (s\<lparr>workoutData := newData\<rparr>))
      else Inl (UndefinedRoutineExercise (exerciseIndex s)))"

text \<open>
  \<open>handleNextExercise\<close> (lines 517--524). The guard
  \<open>exerciseIndex < routine.exercises.length - 1\<close> is \<open>Suc exerciseIndex < length\<close>
  (both are false on an empty routine).
\<close>

definition handleNextExercise :: "exercise list \<Rightarrow> session \<Rightarrow> js_error + session" where
  "handleNextExercise library s =
     (case saveCurrentExerciseData library s of
        Inl e \<Rightarrow> Inl e
      | Inr s1 \<Rightarrow>
          if Suc (exerciseIndex s) < length (r_exercises (routine s))
          then setExerciseIndex (Suc (exerciseIndex s)) s1
          else Inr (s1\<lparr>showSummary := True\<rparr>))"

text \<open>\<open>handlePrevExercise\<close> (lines 526--531).\<close>

definition handlePrevExercise :: "exercise list \<Rightarrow> session \<Rightarrow> js_error + session" where
  "handlePrevExercise library s =
     (case saveCurrentExerciseData library s of
        Inl e \<Rightarrow> Inl e
      | Inr s1 \<Rightarrow>
          if 0 < exerciseIndex s then setExerciseIndex (exerciseIndex s - 1) s1 else Inr s1)"

text \<open>
  \<open>handleFinishWorkout\<close> (lines 533--556): the log handed to \<open>Storage.saveLog\<close>.
  It is serialised there at once (\<open>JSON.stringify\<close>), so its set objects are read
  through the store as they are now. The two \<open>Date.now()\<close> calls of the handler are
  taken to read the same instant \<open>now\<close>.
\<close>

definition handleFinishWorkout :: "exercise list \<Rightarrow> ms \<Rightarrow> session \<Rightarrow> js_error + workout_log" where
  "handleFinishWorkout library now s =
     (let finalData =
        (if exerciseIndex s < length (workoutData s) then Inr (workoutData s)
         else if exerciseIndex s < length (r_exercises (routine s))
         then Inr (workoutData s @ [currentExerciseLog library s])
         else Inl (UndefinedRoutineExercise (exerciseIndex s)))
      in case finalData of
           Inl e \<Rightarrow> Inl e
         | Inr fd \<Rightarrow>
             Inr \<lparr>log_id = js_toString now, routineId = r_id (routine s),
                  routineName = r_name (routine s), startTime = s_startTime s, endTime = now,
                  totalDurationSeconds = of_int (now - s_startTime s) / 1000,
                  exercises = map (deref_log (heap s)) fd\<rparr>)"

text \<open>
  The rest timer (lines 447--455 and the overlay buttons, lines 579--580): the interval
  fires only while the overlay is shown and time remains; \<open>+10s\<close> adds ten seconds;
  \<open>Skip\<close> hides the overlay. The summary is opened by the header's Finish button
  (line 617) and closed by its Cancel button (line 606).
\<close>

definition restTick :: "session \<Rightarrow> session" where
  "restTick s = (if showRestTimer s \<and> 0 < restTime s then s\<lparr>restTime := restTime s - 1\<rparr> else s)"

definition addRestTime :: "session \<Rightarrow> session" where
  "addRestTime s = s\<lparr>restTime := restTime s + 10\<rparr>"

definition skipRest :: "session \<Rightarrow> session" where
  "skipRest s = s\<lparr>showRestTimer := False\<rparr>"

definition openSummary :: "session \<Rightarrow> session" where
  "openSummary s = s\<lparr>showSummary := True\<rparr>"

definition cancelSummary :: "session \<Rightarrow> session" where
  "cancelSummary s = s\<lparr>showSummary := False\<rparr>"

declare handleToggleSet_def [handler_defs] handleUpdateValue_def [handler_defs]
  handleAddSet_def [handler_defs] handleRemoveSet_def [handler_defs]
  saveCurrentExerciseData_def [handler_defs] restTick_def [handler_defs]
  addRestTime_def [handler_defs] skipRest_def [handler_defs]
  openSummary_def [handler_defs] cancelSummary_def [handler_defs]

section \<open>The session as a state machine\<close>

text \<open>
  One constructor per user action or timer firing that changes the page's state. Leaving
  the page (the X button) and finishing are not steps: they end the session.
\<close>

datatype event =
    ToggleSet nat | UpdateValue nat int | AddSet | RemoveSet
  | NextExercise | PrevExercise | OpenSummary | CancelSummary
  | Tick | AddRestTime | SkipRest

fun session_step :: "exercise list \<Rightarrow> session \<Rightarrow> event \<Rightarrow> js_error + session" where
  "session_step library s (ToggleSet i) = handleToggleSet i s"
| "session_step library s (UpdateValue i d) = handleUpdateValue i d s"
| "session_step library s AddSet = Inr (handleAddSet s)"
| "session_step library s RemoveSet = Inr (handleRemoveSet s)"
| "session_step library s NextExercise = handleNextExercise library s"
| "session_step library s PrevExercise = handlePrevExercise library s"
| "session_step library s OpenSummary = Inr (openSummary s)"
| "session_step library s CancelSummary = Inr (cancelSummary s)"
| "session_step library s Tick = Inr (restTick s)"
| "session_step library s AddRestTime = Inr (addRestTime s)"
| "session_step library s SkipRest = Inr (skipRest s)"

text \<open>
  The events the rendered page offers (lines 570--699). The rest overlay and the summary
  cover the whole page (\<open>absolute inset-0 z-50\<close>), so while one is shown only its own
  buttons can be pressed; the summary is drawn over the rest overlay. The \<open>-\<close>/\<open>+\<close>
  buttons exist only for sets not completed (lines 649--655), Remove only for more than
  one set (line 677), Previous is disabled on the first exercise (line 691). The interval
  fires while the overlay is shown and time remains.
\<close>

definition ui_enabled :: "session \<Rightarrow> event \<Rightarrow> bool" where
  "ui_enabled s e =
     (let overlay = showRestTimer s \<or> showSummary s; cs = currentSets s in
      case e of
        ToggleSet i \<Rightarrow> \<not> overlay \<and> i < length cs
      | UpdateValue i d \<Rightarrow> \<not> overlay \<and> i < length cs \<and> \<not> completed (heap s ! (cs ! i)) \<and> (d = -1 \<or> d = 1)
      | AddSet \<Rightarrow> \<not> overlay
      | RemoveSet \<Rightarrow> \<not> overlay \<and> 1 < length cs
      | NextExercise \<Rightarrow> \<not> overlay
      | PrevExercise \<Rightarrow> \<not> overlay \<and> exerciseIndex s \<noteq> 0
      | OpenSummary \<Rightarrow> \<not> overlay
      | CancelSummary \<Rightarrow> showSummary s
      | Tick \<Rightarrow> showRestTimer s \<and> 0 < restTime s
      | AddRestTime \<Rightarrow> showRestTimer s \<and> \<not> showSummary s
      | SkipRest \<Rightarrow> showRestTimer s \<and> \<not> showSummary s)"

fun session_run :: "exercise list \<Rightarrow> session \<Rightarrow> event list \<Rightarrow> js_error + session" where
  "session_run library s [] = Inr s"
| "session_run library s (e # es) =
     (case session_step library s e of Inl err \<Rightarrow> Inl err | Inr s' \<Rightarrow> session_run library s' es)"

definition startAndRun :: "exercise list \<Rightarrow> routine \<Rightarrow> ms \<Rightarrow> event list \<Rightarrow> js_error + session" where
  "startAndRun library r now es =
     (case sessionStart r now of Inl e \<Rightarrow> Inl e | Inr s \<Rightarrow> session_run library s es)"

section \<open>What the summary shows\<close>

text \<open>
  The summary modal (lines 593--601) shows the elapsed minutes,
  \<open>Math.floor((Date.now() - startTime) / 60000)\<close>, and as "exercises completed"
  \<open>workoutData.length + 1\<close>.
\<close>

definition summaryTotalMinutes :: "ms \<Rightarrow> session \<Rightarrow> int" where
  "summaryTotalMinutes now s = (now - s_startTime s) div 60000"

definition summaryExercisesCompleted :: "session \<Rightarrow> nat" where
  "summaryExercisesCompleted s = length (workoutData s) + 1"

end
