(* ===== verification/SessionInv.thy ===== *)
theory SessionInv
  imports Session
begin

text \<open>
  The invariant of the session engine and its proof: the routine is well formed, the
  exercise index is in range and at most the number of committed logs, entry \<open>j\<close> of
  \<open>workoutData\<close> is the log of exercise \<open>j\<close>, the working list of sets is non-empty,
  distinct and allocated, every performed value is non-negative and the rest time is
  non-negative. Each handler keeps it (one lemma per handler, with the handler's result
  rewritten first), hence every step, every run, and every reachable state.
\<close>

section \<open>The session invariant\<close>

text \<open>
  A routine the session can run: at least one exercise (else the first render throws),
  every exercise with at least one planned set and a non-negative target. Every routine
  the app builds or ships has this shape (theories \<^theory_text>\<open>Catalog\<close> and
  \<^theory_text>\<open>Routines\<close>).
\<close>

definition wf_routine :: "routine \<Rightarrow> bool" where
  "wf_routine r \<longleftrightarrow> r_exercises r \<noteq> [] \<and>
     (\<forall>re \<in> set (r_exercises r). 0 < re_sets re \<and> 0 \<le> re_repsOrDuration re)"

definition nonneg_heap :: "set_heap \<Rightarrow> bool" where
  "nonneg_heap h \<longleftrightarrow> (\<forall>v \<in> set h. 0 \<le> repsOrDuration v)"

text \<open>
  Entry \<open>j\<close> of \<open>workoutData\<close> is the log of exercise \<open>j\<close> of the routine: the
  list, appended to and overwritten by index, behaves as the map keyed by exercise index
  that the design describes.
\<close>

definition logs_match :: "routine \<Rightarrow> ref workout_exercise_log list \<Rightarrow> bool" where
  "logs_match r wd \<longleftrightarrow> length wd \<le> length (r_exercises r) \<and>
     (\<forall>j < length wd. exerciseId (wd ! j) = re_exerciseId (r_exercises r ! j))"

definition session_inv :: "session \<Rightarrow> bool" where
  "session_inv s \<longleftrightarrow>
     wf_routine (routine s) \<and>
     exerciseIndex s < length (r_exercises (routine s)) \<and>
     exerciseIndex s \<le> length (workoutData s) \<and>
     logs_match (routine s) (workoutData s) \<and>
     currentSets s \<noteq> [] \<and> distinct (currentSets s) \<and> present (heap s) (currentSets s) \<and>
     (\<forall>l \<in> set (workoutData s). present (heap s) (sets l)) \<and>
     nonneg_heap (heap s) \<and>
     0 \<le> restTime s"

subsection \<open>Rewriting the effects\<close>

lemma length_initialSets [simp]: "length (initialSets re) = re_sets re"
  by (simp add: initialSets_def)

lemma nth_initialSets [simp]:
  "i < re_sets re \<Longrightarrow> initialSets re ! i =
     \<lparr>setNumber = i + 1, completed = False, repsOrDuration = re_repsOrDuration re,
      target = re_repsOrDuration re\<rparr>"
  by (simp add: initialSets_def)

lemma nonneg_initialSets:
  "0 \<le> re_repsOrDuration re \<Longrightarrow> v \<in> set (initialSets re) \<Longrightarrow> 0 \<le> repsOrDuration v"
  by (auto simp: initialSets_def)

lemma loadSets_eq:
  assumes "exerciseIndex s < length (r_exercises (routine s))"
  shows "loadSets s =
    s\<lparr>currentSets := [length (heap s) ..< length (heap s) + re_sets (r_exercises (routine s) ! exerciseIndex s)],
      heap := heap s @ initialSets (r_exercises (routine s) ! exerciseIndex s)\<rparr>"
  using assms by (simp add: loadSets_def alloc_list_def)

lemma setExerciseIndex_eq:
  "k < length (r_exercises (routine s)) \<Longrightarrow>
   setExerciseIndex k s = Inr (loadSets (s\<lparr>exerciseIndex := k\<rparr>))"
  by (simp add: setExerciseIndex_def render_def)

lemma nonneg_heap_append:
  "nonneg_heap h \<Longrightarrow> (\<forall>v \<in> set vs. 0 \<le> repsOrDuration v) \<Longrightarrow> nonneg_heap (h @ vs)"
  by (auto simp: nonneg_heap_def)

lemma nonneg_heap_modify:
  assumes "nonneg_heap h" "r < length h" "0 \<le> repsOrDuration (f (h ! r))"
  shows "nonneg_heap (modify r f h)"
proof -
  have "set (modify r f h) \<subseteq> insert (f (h ! r)) (set h)"
    by (simp add: modify_def set_update_subset_insert)
  with assms show ?thesis by (auto simp: nonneg_heap_def)
qed

lemma nonneg_heap_nth: "nonneg_heap h \<Longrightarrow> r < length h \<Longrightarrow> 0 \<le> repsOrDuration (h ! r)"
  by (simp add: nonneg_heap_def)

subsection \<open>Every step keeps the invariant\<close>


lemma session_inv_modify:
  assumes "session_inv s" "r < length (heap s)" "0 \<le> repsOrDuration (f (heap s ! r))"
  shows "session_inv (s\<lparr>heap := modify r f (heap s)\<rparr>)"
  using assms by (simp add: session_inv_def nonneg_heap_modify)

lemma session_inv_flags:
  "session_inv s \<Longrightarrow> 0 \<le> t \<Longrightarrow> session_inv (s\<lparr>restTime := t\<rparr>)"
  "session_inv (s\<lparr>showRestTimer := b\<rparr>) = session_inv s"
  "session_inv (s\<lparr>showSummary := b\<rparr>) = session_inv s"
  by (simp_all add: session_inv_def)

lemma session_inv_current_present:
  "session_inv s \<Longrightarrow> i < length (currentSets s) \<Longrightarrow> currentSets s ! i < length (heap s)"
  by (simp add: session_inv_def present_def)

lemma handleToggleSet_eq:
  assumes "session_inv s" "i < length (currentSets s)"
  shows "handleToggleSet i s =
    (let r = currentSets s ! i;
         s1 = s\<lparr>heap := modify r (\<lambda>x. x\<lparr>completed := \<not> completed x\<rparr>) (heap s)\<rparr>;
         routineEx = r_exercises (routine s) ! exerciseIndex s
     in Inr (if \<not> completed (heap s ! r) \<and> 0 < restSeconds routineEx
             then s1\<lparr>restTime := restSeconds routineEx, showRestTimer := True\<rparr> else s1))"
  using assms session_inv_current_present [OF assms]
  by (simp add: handleToggleSet_def modify_nth_same Let_def session_inv_def)

lemma handleToggleSet_inv:
  assumes "session_inv s" "handleToggleSet i s = Inr s'"
  shows "session_inv s'"
proof -
  have i: "i < length (currentSets s)"
    using assms(2) by (auto simp: handleToggleSet_def split: if_splits)
  let ?r = "currentSets s ! i"
  let ?s1 = "s\<lparr>heap := modify ?r (\<lambda>x. x\<lparr>completed := \<not> completed x\<rparr>) (heap s)\<rparr>"
  have r: "?r < length (heap s)" using session_inv_current_present [OF assms(1) i] .
  have nn: "0 \<le> repsOrDuration (heap s ! ?r)"
    using assms(1) r by (simp add: session_inv_def nonneg_heap_nth)
  have s1: "session_inv ?s1"
    using session_inv_modify [OF assms(1) r] nn by simp
  show ?thesis
    using assms(2) handleToggleSet_eq [OF assms(1) i] s1
    by (auto simp: Let_def session_inv_flags split: if_splits)
qed

lemma handleUpdateValue_inv:
  assumes "session_inv s" "handleUpdateValue i d s = Inr s'"
  shows "session_inv s'"
proof -
  have i: "i < length (currentSets s)" and s': "s' = s\<lparr>heap := modify (currentSets s ! i)
                 (\<lambda>x. x\<lparr>repsOrDuration := max 0 (repsOrDuration x + d)\<rparr>) (heap s)\<rparr>"
    using assms(2) by (auto simp: handleUpdateValue_def split: if_splits)
  show ?thesis
    unfolding s' by (rule session_inv_modify [OF assms(1) session_inv_current_present [OF assms(1) i]]) simp
qed

lemma handleAddSet_eq:
  assumes "currentSets s \<noteq> []"
  shows "handleAddSet s =
    s\<lparr>currentSets := currentSets s @ [length (heap s)],
      heap := heap s @ [\<lparr>setNumber = length (currentSets s) + 1, completed = False,
                         repsOrDuration = repsOrDuration (heap s ! last (currentSets s)),
                         target = target (heap s ! last (currentSets s))\<rparr>]\<rparr>"
  using assms by (simp add: handleAddSet_def alloc_list_def Let_def)

lemma handleAddSet_inv:
  assumes "session_inv s"
  shows "session_inv (handleAddSet s)"
proof -
  have ne: "currentSets s \<noteq> []" and pr: "present (heap s) (currentSets s)"
    using assms by (simp_all add: session_inv_def)
  then have "last (currentSets s) < length (heap s)" by (simp add: present_def)
  then have "0 \<le> repsOrDuration (heap s ! last (currentSets s))"
    using assms by (simp add: session_inv_def nonneg_heap_nth)
  moreover have "length (heap s) \<notin> set (currentSets s)"
    using pr by (rule fresh_not_present)
  ultimately show ?thesis
    using assms ne by (auto simp: handleAddSet_eq session_inv_def nonneg_heap_append)
qed

lemma handleRemoveSet_inv:
  assumes "session_inv s"
  shows "session_inv (handleRemoveSet s)"
proof (cases "1 < length (currentSets s)")
  case True
  then have "butlast (currentSets s) \<noteq> []" by (cases "currentSets s" rule: rev_cases) auto
  with True assms show ?thesis
    by (auto simp: handleRemoveSet_def session_inv_def present_def distinct_butlast dest: in_set_butlastD)
next
  case False
  with assms show ?thesis by (simp add: handleRemoveSet_def)
qed


lemma saveCurrentExerciseData_eq:
  assumes "exerciseIndex s < length (r_exercises (routine s))"
  shows "saveCurrentExerciseData library s =
    Inr (s\<lparr>workoutData := (if exerciseIndex s < length (workoutData s)
           then (workoutData s)[exerciseIndex s := currentExerciseLog library s]
           else workoutData s @ [currentExerciseLog library s])\<rparr>)"
  using assms by (simp add: saveCurrentExerciseData_def Let_def)

lemma exerciseId_currentExerciseLog [simp]:
  "exerciseId (currentExerciseLog library s) = re_exerciseId (r_exercises (routine s) ! exerciseIndex s)"
  "sets (currentExerciseLog library s) = currentSets s"
  by (simp_all add: currentExerciseLog_def Let_def)

lemma logs_match_commit:
  assumes "logs_match r wd" "k < length (r_exercises r)" "k \<le> length wd"
    "exerciseId l = re_exerciseId (r_exercises r ! k)"
  shows "logs_match r (if k < length wd then wd[k := l] else wd @ [l])"
  using assms by (auto simp: logs_match_def nth_list_update nth_append less_Suc_eq)

lemma saveCurrentExerciseData_inv:
  assumes "session_inv s" "saveCurrentExerciseData library s = Inr s1"
  shows "session_inv s1" and "exerciseIndex s < length (workoutData s1)"
    and "s1 = s\<lparr>workoutData := workoutData s1\<rparr>"
proof -
  have idx: "exerciseIndex s < length (r_exercises (routine s))"
    and le: "exerciseIndex s \<le> length (workoutData s)"
    using assms(1) by (simp_all add: session_inv_def)
  have s1: "s1 = s\<lparr>workoutData := (if exerciseIndex s < length (workoutData s)
           then (workoutData s)[exerciseIndex s := currentExerciseLog library s]
           else workoutData s @ [currentExerciseLog library s])\<rparr>"
    using assms(2) saveCurrentExerciseData_eq [OF idx] by simp
  have lm: "logs_match (routine s) (workoutData s1)"
    unfolding s1 using assms(1) idx le
    by (simp add: session_inv_def logs_match_commit)
  have pr: "\<forall>l \<in> set (workoutData s1). present (heap s) (sets l)"
    unfolding s1 using assms(1)
    by (auto simp: session_inv_def dest: set_update_subset_insert [THEN subsetD])
  show "exerciseIndex s < length (workoutData s1)"
    unfolding s1 using le by auto
  then show "session_inv s1"
    using assms(1) lm pr unfolding session_inv_def by (simp add: s1)
  show "s1 = s\<lparr>workoutData := workoutData s1\<rparr>"
    by (simp add: s1)
qed

lemma setExerciseIndex_inv:
  assumes "session_inv s" "k < length (r_exercises (routine s))" "k \<le> length (workoutData s)"
  shows "setExerciseIndex k s = Inr (loadSets (s\<lparr>exerciseIndex := k\<rparr>))"
    and "session_inv (loadSets (s\<lparr>exerciseIndex := k\<rparr>))"
proof -
  show "setExerciseIndex k s = Inr (loadSets (s\<lparr>exerciseIndex := k\<rparr>))"
    using assms(2) by (rule setExerciseIndex_eq)
  let ?re = "r_exercises (routine s) ! k"
  have wf: "0 < re_sets ?re" "0 \<le> re_repsOrDuration ?re"
    using assms(1,2) by (auto simp: session_inv_def wf_routine_def)
  have "nonneg_heap (heap s @ initialSets ?re)"
    using assms(1) wf(2) by (simp add: session_inv_def nonneg_heap_append nonneg_initialSets)
  then show "session_inv (loadSets (s\<lparr>exerciseIndex := k\<rparr>))"
    using assms wf(1) by (auto simp: loadSets_eq session_inv_def present_def intro: trans_less_add1)
qed


lemma handleNextExercise_inv:
  assumes "session_inv s" "handleNextExercise library s = Inr s'"
  shows "session_inv s'"
proof -
  obtain s1 where save: "saveCurrentExerciseData library s = Inr s1"
    using assms(2) by (cases "saveCurrentExerciseData library s") (auto simp: handleNextExercise_def)
  note s1 = saveCurrentExerciseData_inv [OF assms(1) save]
  have same: "routine s1 = routine s" "exerciseIndex s1 = exerciseIndex s"
    by (subst s1(3); simp)+
  show ?thesis
  proof (cases "Suc (exerciseIndex s) < length (r_exercises (routine s))")
    case True
    then have "s' = loadSets (s1\<lparr>exerciseIndex := Suc (exerciseIndex s)\<rparr>)"
      using assms(2) save setExerciseIndex_eq [of "Suc (exerciseIndex s)" s1] same
      by (simp add: handleNextExercise_def)
    with True s1 same show ?thesis
      by (simp add: setExerciseIndex_inv(2))
  next
    case False
    then have "s' = s1\<lparr>showSummary := True\<rparr>"
      using assms(2) save by (simp add: handleNextExercise_def)
    with s1(1) show ?thesis by (simp add: session_inv_flags)
  qed
qed

lemma handlePrevExercise_inv:
  assumes "session_inv s" "handlePrevExercise library s = Inr s'"
  shows "session_inv s'"
proof -
  obtain s1 where save: "saveCurrentExerciseData library s = Inr s1"
    using assms(2) by (cases "saveCurrentExerciseData library s") (auto simp: handlePrevExercise_def)
  note s1 = saveCurrentExerciseData_inv [OF assms(1) save]
  have same: "routine s1 = routine s" "exerciseIndex s1 = exerciseIndex s"
    by (subst s1(3); simp)+
  have idx: "exerciseIndex s < length (r_exercises (routine s))"
    using assms(1) by (simp add: session_inv_def)
  show ?thesis
  proof (cases "0 < exerciseIndex s")
    case True
    then have "s' = loadSets (s1\<lparr>exerciseIndex := exerciseIndex s - 1\<rparr>)"
      using assms(2) save setExerciseIndex_eq [of "exerciseIndex s - 1" s1] same idx
      by (simp add: handlePrevExercise_def)
    with idx s1 same show ?thesis
      by (simp add: setExerciseIndex_inv(2))
  next
    case False
    with assms(2) save s1(1) show ?thesis by (simp add: handlePrevExercise_def)
  qed
qed

lemma timer_summary_inv:
  assumes "session_inv s"
  shows "session_inv (restTick s)" "session_inv (addRestTime s)" "session_inv (skipRest s)"
    "session_inv (openSummary s)" "session_inv (cancelSummary s)"
  using assms by (simp_all add: session_inv_def restTick_def addRestTime_def skipRest_def
                                openSummary_def cancelSummary_def)

lemma session_step_inv:
  "session_inv s \<Longrightarrow> session_step library s e = Inr s' \<Longrightarrow> session_inv s'"
proof (cases e)
  case (ToggleSet i)
  then show "session_inv s \<Longrightarrow> session_step library s e = Inr s' \<Longrightarrow> session_inv s'"
    by (simp add: handleToggleSet_inv)
next
  case (UpdateValue i d)
  then show "session_inv s \<Longrightarrow> session_step library s e = Inr s' \<Longrightarrow> session_inv s'"
    by (simp add: handleUpdateValue_inv)
next
  case NextExercise
  then show "session_inv s \<Longrightarrow> session_step library s e = Inr s' \<Longrightarrow> session_inv s'"
    by (simp add: handleNextExercise_inv)
next
  case PrevExercise
  then show "session_inv s \<Longrightarrow> session_step library s e = Inr s' \<Longrightarrow> session_inv s'"
    by (simp add: handlePrevExercise_inv)
qed (auto simp: handleAddSet_inv handleRemoveSet_inv timer_summary_inv)

lemma session_run_inv:
  "session_inv s \<Longrightarrow> session_run library s es = Inr s' \<Longrightarrow> session_inv s'"
proof (induction es arbitrary: s)
  case Nil
  then show ?case by simp
next
  case (Cons e es)
  then obtain s1 where "session_step library s e = Inr s1" "session_run library s1 es = Inr s'"
    by (cases "session_step library s e") auto
  with Cons show ?case by (blast intro: session_step_inv)
qed

lemma sessionStart_eq:
  "r_exercises r \<noteq> [] \<Longrightarrow> sessionStart r now = Inr (loadSets (initialSession r now))"
  by (simp add: sessionStart_def render_def initialSession_def)

lemma sessionStart_inv:
  assumes "wf_routine r"
  shows "session_inv (loadSets (initialSession r now))"
proof -
  have ne: "r_exercises r \<noteq> []" and re: "0 < re_sets (hd (r_exercises r))" "0 \<le> re_repsOrDuration (hd (r_exercises r))"
    using assms by (auto simp: wf_routine_def)
  then have "nonneg_heap (initialSets (r_exercises r ! 0))"
    by (auto simp: nonneg_heap_def hd_conv_nth dest: nonneg_initialSets [rotated])
  with assms ne re show ?thesis
    by (auto simp: loadSets_eq initialSession_def session_inv_def logs_match_def present_def hd_conv_nth)
qed

inductive reachable :: "exercise list \<Rightarrow> session \<Rightarrow> bool" for library where
  start: "wf_routine r \<Longrightarrow> sessionStart r now = Inr s \<Longrightarrow> reachable library s"
| step: "reachable library s \<Longrightarrow> session_step library s e = Inr s' \<Longrightarrow> reachable library s'"

text \<open>
  C2. Every state reachable from the start of a session on a well-formed routine, by any
  sequence of handled events, satisfies the session invariant.
\<close>

theorem reachable_inv: "reachable library s \<Longrightarrow> session_inv s"
proof (induction rule: reachable.induct)
  case (start r now s)
  then show ?case
    by (metis sessionStart_eq sessionStart_inv sum.inject(2) wf_routine_def)
next
  case (step s e s')
  then show ?case by (blast intro: session_step_inv)
qed

end
