(* ===== verification/Catalog.thy ===== *)
theory Catalog
  imports Types
begin

text \<open>
  The static catalog of \<open>constants.ts\<close>: the exercise library, the premade routines,
  the initial statistics, and the localisation functions. \<open>createdAt: Date.now()\<close> of
  the premade routines is read once when the module loads: the parameter
  \<open>loadTime\<close>. The localisation functions take a translation table as a parameter;
  the Portuguese tables of lines 131--181 are the module's instances.
\<close>

definition EXERCISE_LIBRARY :: "exercise list" where
  "EXERCISE_LIBRARY = [
    \<lparr>e_id = ''e1'', e_name = ''Deep Squat Hold'',
     description = ''Improves hip mobility and ankle dorsiflexion.'',
     detailedDescription = ''Sink into a deep squat, keeping heels flat on the ground. Keep chest up and use elbows to push knees out.'',
     muscleGroup = Hips, defaultReps = None, defaultDurationSeconds = Some 45, defaultSets = 3,
     thumbnailUrl = ''https://picsum.photos/id/73/400/400'', e_type = Time\<rparr>,
    \<lparr>e_id = ''e2'', e_name = ''Cat-Cow Stretch'',
     description = ''Mobilizes the spine and relieves tension.'',
     detailedDescription = ''Start on all fours. Inhale as you drop your belly (Cow), exhale as you arch your back (Cat).'',
     muscleGroup = Thoracic, defaultReps = Some 10, defaultDurationSeconds = None, defaultSets = 3,
     thumbnailUrl = ''https://picsum.photos/id/102/400/400'', e_type = Reps\<rparr>,
    \<lparr>e_id = ''e3'', e_name = ''90/90 Hip Switch'',
     description = ''Internal and external rotation of the hips.'',
     detailedDescription = ''Sit with legs at 90 degree angles. Rotate hips to switch leg positions without using hands if possible.'',
     muscleGroup = Hips, defaultReps = Some 8, defaultDurationSeconds = None, defaultSets = 3,
     thumbnailUrl = ''https://picsum.photos/id/160/400/400'', e_type = Reps\<rparr>,
    \<lparr>e_id = ''e4'', e_name = ''Doorway Pec Stretch'',
     description = ''Opens up the chest and shoulders.'',
     detailedDescription = ''Place forearms on a doorframe at 90 degrees. Lean forward gently until a stretch is felt in the chest.'',
     muscleGroup = Shoulder, defaultReps = None, defaultDurationSeconds = Some 30, defaultSets = 2,
     thumbnailUrl = ''https://picsum.photos/id/211/400/400'', e_type = Time\<rparr>,
    \<lparr>e_id = ''e5'', e_name = ''Ankle Dorsiflexion'',
     description = ''Increases ankle range of motion.'',
     detailedDescription = ''Kneel near a wall. Push knee forward over toe towards wall, keeping heel down.'',
     muscleGroup = Ankle, defaultReps = None, defaultDurationSeconds = Some 40, defaultSets = 3,
     thumbnailUrl = ''https://picsum.photos/id/338/400/400'', e_type = Time\<rparr>,
    \<lparr>e_id = ''e6'', e_name = ''World's Greatest Stretch'',
     description = ''Targets hips, thoracic spine, and hamstrings.'',
     detailedDescription = ''Lunge forward, place opposite hand on floor, and rotate top arm to ceiling.'',
     muscleGroup = FullBody, defaultReps = Some 5, defaultDurationSeconds = None, defaultSets = 3,
     thumbnailUrl = ''https://picsum.photos/id/425/400/400'', e_type = Reps\<rparr>,
    \<lparr>e_id = ''e7'', e_name = ''Wrist Flexor Stretch'',
     description = ''Relieves forearm tension.'',
     detailedDescription = ''Extend arm with palm facing up. Pull fingers back gently with other hand.'',
     muscleGroup = Wrists, defaultReps = None, defaultDurationSeconds = Some 30, defaultSets = 2,
     thumbnailUrl = ''https://picsum.photos/id/531/400/400'', e_type = Time\<rparr>,
    \<lparr>e_id = ''e8'', e_name = ''Jefferson Curl'',
     description = ''Strengthens and lengthens the posterior chain.'',
     detailedDescription = ''Stand on a box. Slowly roll your spine down vertebrae by vertebrae, letting a light weight pull you down.'',
     muscleGroup = Hamstrings, defaultReps = Some 5, defaultDurationSeconds = None, defaultSets = 3,
     thumbnailUrl = ''https://picsum.photos/id/619/400/400'', e_type = Reps\<rparr>]"

definition PREMADE_ROUTINES :: "ms \<Rightarrow> routine list" where
  "PREMADE_ROUTINES loadTime = [
    \<lparr>r_id = ''pm1'', r_name = ''Daily Morning Mobility'',
     r_exercises = [
       \<lparr>re_exerciseId = ''e2'', re_sets = 2, re_repsOrDuration = 10, restSeconds = 30\<rparr>,
       \<lparr>re_exerciseId = ''e1'', re_sets = 2, re_repsOrDuration = 30, restSeconds = 30\<rparr>,
       \<lparr>re_exerciseId = ''e6'', re_sets = 2, re_repsOrDuration = 5, restSeconds = 45\<rparr>],
     r_isPremium = True, createdAt = loadTime\<rparr>,
    \<lparr>r_id = ''pm2'', r_name = ''Desk Worker Rescue'',
     r_exercises = [
       \<lparr>re_exerciseId = ''e4'', re_sets = 3, re_repsOrDuration = 30, restSeconds = 30\<rparr>,
       \<lparr>re_exerciseId = ''e7'', re_sets = 2, re_repsOrDuration = 30, restSeconds = 30\<rparr>,
       \<lparr>re_exerciseId = ''e2'', re_sets = 3, re_repsOrDuration = 12, restSeconds = 30\<rparr>,
       \<lparr>re_exerciseId = ''e3'', re_sets = 2, re_repsOrDuration = 8, restSeconds = 45\<rparr>],
     r_isPremium = True, createdAt = loadTime\<rparr>]"

definition INITIAL_STATS :: user_stats where
  "INITIAL_STATS = \<lparr>totalWorkouts = 0, totalMinutes = 0, streakDays = 0,
                    lastWorkoutDate = None, isPremium = False\<rparr>"

text \<open>
  A translation entry (\<open>EXERCISE_TRANSLATIONS.pt[id]\<close>, lines 131--174) overrides three
  fields of an exercise; a routine translation (lines 176--181) overrides its name.
  \<open>{ ...e, ...t }\<close> is the record with those fields replaced.
\<close>

record exercise_translation =
  tr_name :: string
  tr_description :: string
  tr_detailedDescription :: string

definition getLocalizedExercises :: "(string \<Rightarrow> exercise_translation option) \<Rightarrow> string \<Rightarrow> exercise list" where
  "getLocalizedExercises ptTable lang =
     (if lang \<noteq> ''pt'' then EXERCISE_LIBRARY
      else map (\<lambda>e. case ptTable (e_id e) of
                      Some t \<Rightarrow> e\<lparr>e_name := tr_name t, description := tr_description t,
                                 detailedDescription := tr_detailedDescription t\<rparr>
                    | None \<Rightarrow> e) EXERCISE_LIBRARY)"

definition getLocalizedPremadeRoutines :: "(string \<Rightarrow> string option) \<Rightarrow> ms \<Rightarrow> string \<Rightarrow> routine list" where
  "getLocalizedPremadeRoutines ptTable loadTime lang =
     (if lang \<noteq> ''pt'' then PREMADE_ROUTINES loadTime
      else map (\<lambda>r. case ptTable (r_id r) of Some n \<Rightarrow> r\<lparr>r_name := n\<rparr> | None \<Rightarrow> r)
               (PREMADE_ROUTINES loadTime))"

text \<open>
  The Portuguese tables \<open>EXERCISE_TRANSLATIONS.pt\<close> (lines 131--174) and
  \<open>PREMADE_TRANSLATIONS.pt\<close> (lines 176--181), keyed by id. A character outside ASCII
  is written as its code point (\<open>CHR 0xE3\<close> is \<open>a\<close> with a tilde); every one of
  them is below 256.
\<close>

definition EXERCISE_TRANSLATIONS_pt :: "string \<Rightarrow> exercise_translation option" where
  "EXERCISE_TRANSLATIONS_pt = map_of [
    (''e1'', \<lparr>tr_name = ''Agachamento Profundo Isom'' @ [CHR 0xE9] @ ''trico'',
       tr_description = ''Melhora mobilidade de quadril e tornozelo.'',
       tr_detailedDescription = ''Afunde em um agachamento profundo, mantendo os calcanhares no ch'' @ [CHR 0xE3] @ ''o. Mantenha o peito erguido e use os cotovelos para empurrar os joelhos para fora.''\<rparr>),
    (''e2'', \<lparr>tr_name = ''Postura Gato-Vaca'',
       tr_description = ''Mobiliza a coluna e alivia tens'' @ [CHR 0xE3] @ ''o.'',
       tr_detailedDescription = ''Comece em quatro apoios. Inspire ao deixar a barriga descer (Vaca), expire ao arquear as costas (Gato).''\<rparr>),
    (''e3'', \<lparr>tr_name = ''Rota'' @ [CHR 0xE7] @ [CHR 0xE3] @ ''o de Quadril 90/90'',
       tr_description = ''Rota'' @ [CHR 0xE7] @ [CHR 0xE3] @ ''o interna e externa dos quadris.'',
       tr_detailedDescription = ''Sente-se com as pernas em '' @ [CHR 0xE2] @ ''ngulos de 90 graus. Gire os quadris para trocar a posi'' @ [CHR 0xE7] @ [CHR 0xE3] @ ''o das pernas sem usar as m'' @ [CHR 0xE3] @ ''os, se poss'' @ [CHR 0xED] @ ''vel.''\<rparr>),
    (''e4'', \<lparr>tr_name = ''Alongamento de Peitoral'',
       tr_description = ''Abre o peito e ombros.'',
       tr_detailedDescription = ''Coloque os antebra'' @ [CHR 0xE7] @ ''os no batente da porta a 90 graus. Incline-se para frente suavemente at'' @ [CHR 0xE9] @ '' sentir o alongamento no peito.''\<rparr>),
    (''e5'', \<lparr>tr_name = ''Dorsiflex'' @ [CHR 0xE3] @ ''o de Tornozelo'',
       tr_description = ''Aumenta a amplitude de movimento do tornozelo.'',
       tr_detailedDescription = ''Ajoelhe-se perto de uma parede. Empurre o joelho para frente sobre o dedo do p'' @ [CHR 0xE9] @ '' em dire'' @ [CHR 0xE7] @ [CHR 0xE3] @ ''o '' @ [CHR 0xE0] @ '' parede, mantendo o calcanhar no ch'' @ [CHR 0xE3] @ ''o.''\<rparr>),
    (''e6'', \<lparr>tr_name = ''O Maior Alongamento do Mundo'',
       tr_description = ''Trabalha quadris, coluna tor'' @ [CHR 0xE1] @ ''cica e posteriores.'',
       tr_detailedDescription = ''Avance em afundo, coloque a m'' @ [CHR 0xE3] @ ''o oposta no ch'' @ [CHR 0xE3] @ ''o e gire o bra'' @ [CHR 0xE7] @ ''o de cima em dire'' @ [CHR 0xE7] @ [CHR 0xE3] @ ''o ao teto.''\<rparr>),
    (''e7'', \<lparr>tr_name = ''Alongamento Flexor de Punho'',
       tr_description = ''Alivia tens'' @ [CHR 0xE3] @ ''o no antebra'' @ [CHR 0xE7] @ ''o.'',
       tr_detailedDescription = ''Estenda o bra'' @ [CHR 0xE7] @ ''o com a palma para cima. Puxe os dedos para tr'' @ [CHR 0xE1] @ ''s suavemente com a outra m'' @ [CHR 0xE3] @ ''o.''\<rparr>),
    (''e8'', \<lparr>tr_name = ''Jefferson Curl'',
       tr_description = ''Fortalece e alonga a cadeia posterior.'',
       tr_detailedDescription = ''Fique em cima de uma caixa. Enrole lentamente a coluna v'' @ [CHR 0xE9] @ ''rtebra por v'' @ [CHR 0xE9] @ ''rtebra, deixando um peso leve pux'' @ [CHR 0xE1] @ ''-lo para baixo.''\<rparr>)]"

definition PREMADE_TRANSLATIONS_pt :: "string \<Rightarrow> string option" where
  "PREMADE_TRANSLATIONS_pt = map_of [(''pm1'', ''Mobilidade Matinal Di'' @ [CHR 0xE1] @ ''ria''), (''pm2'', ''Resgate do Trabalhador de Mesa'')]"

text \<open>
  The exported \<open>getLocalizedExercises(lang)\<close> and \<open>getLocalizedPremadeRoutines(lang)\<close>
  (lines 183--197) read those module tables; the App calls them once (App.tsx lines
  837--838).
\<close>

definition localizedExercises :: "string \<Rightarrow> exercise list" where
  "localizedExercises lang = getLocalizedExercises EXERCISE_TRANSLATIONS_pt lang"

definition localizedPremadeRoutines :: "ms \<Rightarrow> string \<Rightarrow> routine list" where
  "localizedPremadeRoutines loadTime lang = getLocalizedPremadeRoutines PREMADE_TRANSLATIONS_pt loadTime lang"

section \<open>Properties of the catalog\<close>

text \<open>Localisation only renames: ids, kinds and defaults are those of the library.\<close>

lemma getLocalizedExercises_keeps:
  "map e_id (getLocalizedExercises ptTable lang) = map e_id EXERCISE_LIBRARY"
  "map e_type (getLocalizedExercises ptTable lang) = map e_type EXERCISE_LIBRARY"
  "map defaultSets (getLocalizedExercises ptTable lang) = map defaultSets EXERCISE_LIBRARY"
  by (simp_all add: getLocalizedExercises_def comp_def split: option.splits)

lemma getLocalizedPremadeRoutines_keeps:
  "map r_exercises (getLocalizedPremadeRoutines ptTable loadTime lang) = map r_exercises (PREMADE_ROUTINES loadTime)"
  "map r_isPremium (getLocalizedPremadeRoutines ptTable loadTime lang) = map r_isPremium (PREMADE_ROUTINES loadTime)"
  by (simp_all add: getLocalizedPremadeRoutines_def comp_def split: option.splits)

text \<open>Every library exercise has at least one default set and non-negative defaults.\<close>

lemma library_defaults:
  "e \<in> set EXERCISE_LIBRARY \<Longrightarrow>
   0 < defaultSets e \<and> (\<forall>v. defaultReps e = Some v \<longrightarrow> 0 \<le> v) \<and>
   (\<forall>v. defaultDurationSeconds e = Some v \<longrightarrow> 0 \<le> v)"
  by (auto simp: EXERCISE_LIBRARY_def)

lemma localized_exercise_from_library:
  "e \<in> set (getLocalizedExercises ptTable lang) \<Longrightarrow>
   \<exists>e0 \<in> set EXERCISE_LIBRARY. e_id e = e_id e0 \<and> defaultSets e = defaultSets e0 \<and>
     defaultReps e = defaultReps e0 \<and> defaultDurationSeconds e = defaultDurationSeconds e0 \<and>
     e_type e = e_type e0"
  by (auto simp: getLocalizedExercises_def split: if_splits option.splits)

lemma localized_routine_from_premade:
  "r \<in> set (getLocalizedPremadeRoutines ptTable loadTime lang) \<Longrightarrow>
   \<exists>r0 \<in> set (PREMADE_ROUTINES loadTime). r_exercises r = r_exercises r0 \<and> r_isPremium r = r_isPremium r0"
  by (auto simp: getLocalizedPremadeRoutines_def split: if_splits option.splits)

text \<open>The premade routines are premium, non-empty, and use library exercises only.\<close>

lemma premade_routine_facts:
  "r0 \<in> set (PREMADE_ROUTINES t) \<Longrightarrow> r_isPremium r0 \<and> r_exercises r0 \<noteq> [] \<and>
   (\<forall>re \<in> set (r_exercises r0). 0 < re_sets re \<and> 0 \<le> re_repsOrDuration re \<and>
      re_exerciseId re \<in> set (map e_id EXERCISE_LIBRARY))"
  unfolding PREMADE_ROUTINES_def EXERCISE_LIBRARY_def by auto

end
