(* ===== verification/SessionProps.thy ===== *)
theory SessionProps
  imports SessionInv Catalog
begin

text \<open>
  The functional behaviour of the session engine: what each handler does on every branch,
  the run through a routine by repeated \<open>Next\<close>, the round trips of the set list, the
  rest timer's bounds, and what the saved log holds. The rewriting lemmas first, then one
  theorem per property.
\<close>

section \<open>Rewriting runs and handlers\<close>


lemma session_run_snoc:
  "session_run library s (es @ [e]) =
     (case session_run library s es of Inl err \<Rightarrow> Inl err | Inr s' \<Rightarrow> session_step library s' e)"
  by (induction es arbitrary: s) (auto split: sum.splits)

lemma startAndRun_snoc:
  "startAndRun library r now (es @ [e]) =
     (case startAndRun library r now es of Inl err \<Rightarrow> Inl err | Inr s \<Rightarrow> session_step library s e)"
  by (simp add: startAndRun_def session_run_snoc split: sum.splits)

lemma deref_loadSets:
  "exerciseIndex s < length (r_exercises (routine s)) \<Longrightarrow>
   deref (heap (loadSets s)) (currentSets (loadSets s)) = initialSets (r_exercises (routine s) ! exerciseIndex s)"
  using deref_alloc_list_new [of "heap s" "initialSets (r_exercises (routine s) ! exerciseIndex s)"]
  by (simp add: loadSets_eq)

lemma loadSets_frame [simp]:
  "routine (loadSets s) = routine s" "exerciseIndex (loadSets s) = exerciseIndex s"
  "workoutData (loadSets s) = workoutData s" "showSummary (loadSets s) = showSummary s"
  "showRestTimer (loadSets s) = showRestTimer s" "restTime (loadSets s) = restTime s"
  "s_startTime (loadSets s) = s_startTime s"
  by (simp_all add: loadSets_def split: prod.splits)

lemma handleNextExercise_eq:
  assumes "session_inv s"
  shows "handleNextExercise library s =
    (let s1 = s\<lparr>workoutData := (if exerciseIndex s < length (workoutData s)
               then (workoutData s)[exerciseIndex s := currentExerciseLog library s]
               else workoutData s @ [currentExerciseLog library s])\<rparr>
     in Inr (if Suc (exerciseIndex s) < length (r_exercises (routine s))
             then loadSets (s1\<lparr>exerciseIndex := Suc (exerciseIndex s)\<rparr>)
             else s1\<lparr>showSummary := True\<rparr>))"
proof -
  have idx: "exerciseIndex s < length (r_exercises (routine s))"
    using assms by (simp add: session_inv_def)
  show ?thesis
    by (simp add: handleNextExercise_def saveCurrentExerciseData_eq [OF idx] setExerciseIndex_eq Let_def)
qed

lemma advance_prefix:
  assumes "wf_routine r" "k < length (r_exercises r)"
  shows "\<exists>s. startAndRun library r now (replicate k NextExercise) = Inr s \<and> session_inv s \<and>
     routine s = r \<and> exerciseIndex s = k \<and> \<not> showSummary s \<and>
     deref (heap s) (currentSets s) = initialSets (r_exercises r ! k) \<and>
     map exerciseId (workoutData s) = take k (map re_exerciseId (r_exercises r))"
  using assms(2)
proof (induction k)
  case 0
  have ne: "r_exercises r \<noteq> []" using assms(1) by (simp add: wf_routine_def)
  show ?case
    using sessionStart_eq [OF ne, of now] sessionStart_inv [OF assms(1), of now]
      deref_loadSets [of "initialSession r now"] ne
    by (simp add: startAndRun_def initialSession_def)
next
  case (Suc k)
  then obtain s where s: "startAndRun library r now (replicate k NextExercise) = Inr s"
    and inv: "session_inv s" and rs: "routine s = r" and ix: "exerciseIndex s = k"
    and ns: "\<not> showSummary s" and wd: "map exerciseId (workoutData s) = take k (map re_exerciseId (r_exercises r))"
    by auto
  have len: "length (workoutData s) = k"
    using wd Suc.prems by (metis length_map length_take min_absorb2 less_imp_le_nat Suc_lessD)
  let ?s' = "loadSets (s\<lparr>workoutData := workoutData s @ [currentExerciseLog library s],
                          exerciseIndex := Suc k\<rparr>)"
  have step: "handleNextExercise library s = Inr ?s'"
    using Suc.prems by (simp add: handleNextExercise_eq [OF inv] ix len rs Let_def)
  have rep: "replicate (Suc k) NextExercise = replicate k NextExercise @ [NextExercise]"
    by (simp add: replicate_append_same)
  have run: "startAndRun library r now (replicate (Suc k) NextExercise) = Inr ?s'"
    unfolding rep using s step by (simp only: startAndRun_snoc sum.case session_step.simps)
  have "session_inv ?s'" using handleNextExercise_inv [OF inv step] .
  moreover have "deref (heap ?s') (currentSets ?s') = initialSets (r_exercises r ! Suc k)"
    using Suc.prems rs by (simp add: deref_loadSets)
  moreover have "map exerciseId (workoutData ?s') = take (Suc k) (map re_exerciseId (r_exercises r))"
    using Suc.prems wd rs ix by (simp add: take_Suc_conv_app_nth)
  ultimately show ?case using run rs ns by auto
qed


lemma advance_complete:
  assumes "wf_routine r"
  shows "\<exists>s. startAndRun library r now (replicate (length (r_exercises r)) NextExercise) = Inr s \<and>
     session_inv s \<and> routine s = r \<and> showSummary s \<and> exerciseIndex s = length (r_exercises r) - 1 \<and>
     map exerciseId (workoutData s) = map re_exerciseId (r_exercises r)"
proof -
  let ?n = "length (r_exercises r)"
  have ne: "r_exercises r \<noteq> []" using assms by (simp add: wf_routine_def)
  then have n: "?n - 1 < ?n" by simp
  obtain s where s: "startAndRun library r now (replicate (?n - 1) NextExercise) = Inr s"
    and inv: "session_inv s" and rs: "routine s = r" and ix: "exerciseIndex s = ?n - 1"
    and wd: "map exerciseId (workoutData s) = take (?n - 1) (map re_exerciseId (r_exercises r))"
    using advance_prefix [OF assms n, of library now] by blast
  have len: "length (workoutData s) = ?n - 1"
    using wd by (metis length_map length_take min_absorb2 diff_le_self)
  let ?s' = "s\<lparr>workoutData := workoutData s @ [currentExerciseLog library s], showSummary := True\<rparr>"
  have step: "handleNextExercise library s = Inr ?s'"
    using n by (simp add: handleNextExercise_eq [OF inv] ix len rs Let_def)
  have rep: "replicate ?n NextExercise = replicate (?n - 1) NextExercise @ [NextExercise]"
    using n by (metis Suc_pred' gr_implies_not0 not_gr_zero replicate_Suc replicate_append_same)
  have "startAndRun library r now (replicate ?n NextExercise) = Inr ?s'"
    unfolding rep using s step by (simp only: startAndRun_snoc sum.case session_step.simps)
  moreover have "map exerciseId (workoutData ?s') = map re_exerciseId (r_exercises r)"
    using ne wd rs ix take_last_snoc [of "map re_exerciseId (r_exercises r)"] by simp
  moreover have "session_inv ?s'" using handleNextExercise_inv [OF inv step] .
  ultimately show ?thesis using ix rs by auto
qed

section \<open>Running through a routine\<close>

text \<open>
  C1. From the start of a session on a well-formed routine of \<open>n\<close> exercises, \<open>k < n\<close>
  presses of Next lead to exercise \<open>k\<close>, still in progress, with its planned sets freshly
  loaded; the \<open>n\<close>-th press opens the summary at the last exercise, with one committed log
  per exercise, in the routine's order.
\<close>

theorem advance_through_routine:
  assumes "wf_routine r"
  shows "(\<forall>k < length (r_exercises r). \<exists>s.
            startAndRun library r now (replicate k NextExercise) = Inr s \<and>
            exerciseIndex s = k \<and> \<not> showSummary s \<and>
            deref (heap s) (currentSets s) = initialSets (r_exercises r ! k)) \<and>
         (\<exists>s. startAndRun library r now (replicate (length (r_exercises r)) NextExercise) = Inr s \<and>
            showSummary s \<and> exerciseIndex s = length (r_exercises r) - 1 \<and>
            map exerciseId (workoutData s) = map re_exerciseId (r_exercises r))"
proof (intro conjI allI impI)
  fix k assume "k < length (r_exercises r)"
  from advance_prefix [OF assms this, of library now] show "\<exists>s.
            startAndRun library r now (replicate k NextExercise) = Inr s \<and>
            exerciseIndex s = k \<and> \<not> showSummary s \<and>
            deref (heap s) (currentSets s) = initialSets (r_exercises r ! k)"
    by blast
next
  from advance_complete [OF assms, of library now] show "\<exists>s.
            startAndRun library r now (replicate (length (r_exercises r)) NextExercise) = Inr s \<and>
            showSummary s \<and> exerciseIndex s = length (r_exercises r) - 1 \<and>
            map exerciseId (workoutData s) = map re_exerciseId (r_exercises r)"
    by blast
qed

theorem advance_through_routine_witness:
  "wf_routine (PREMADE_ROUTINES 0 ! 0) \<and>
   (\<exists>s. startAndRun EXERCISE_LIBRARY (PREMADE_ROUTINES 0 ! 0) 0 [NextExercise] = Inr s \<and>
        exerciseIndex s = 1 \<and> \<not> showSummary s \<and>
        deref (heap s) (currentSets s) =
          [\<lparr>setNumber = 1, completed = False, repsOrDuration = 30, target = 30\<rparr>,
           \<lparr>setNumber = 2, completed = False, repsOrDuration = 30, target = 30\<rparr>]) \<and>
   (\<exists>s. startAndRun EXERCISE_LIBRARY (PREMADE_ROUTINES 0 ! 0) 0 [NextExercise, NextExercise, NextExercise] = Inr s \<and>
        showSummary s \<and> exerciseIndex s = 2 \<and> map exerciseId (workoutData s) = [''e2'', ''e1'', ''e6''])"
proof -
  have wf: "wf_routine (PREMADE_ROUTINES 0 ! 0)"
    by (simp add: wf_routine_def PREMADE_ROUTINES_def)
  note th = advance_through_routine [OF wf, of EXERCISE_LIBRARY 0]
  have one: "\<exists>s. startAndRun EXERCISE_LIBRARY (PREMADE_ROUTINES 0 ! 0) 0 [NextExercise] = Inr s \<and>
        exerciseIndex s = 1 \<and> \<not> showSummary s \<and>
        deref (heap s) (currentSets s) =
          [\<lparr>setNumber = 1, completed = False, repsOrDuration = 30, target = 30\<rparr>,
           \<lparr>setNumber = 2, completed = False, repsOrDuration = 30, target = 30\<rparr>]"
    using th [THEN conjunct1, rule_format, of 1]
    by (simp add: PREMADE_ROUTINES_def initialSets_def upt_rec One_nat_def numeral_2_eq_2)
  have all: "\<exists>s. startAndRun EXERCISE_LIBRARY (PREMADE_ROUTINES 0 ! 0) 0 [NextExercise, NextExercise, NextExercise] = Inr s \<and>
        showSummary s \<and> exerciseIndex s = 2 \<and> map exerciseId (workoutData s) = [''e2'', ''e1'', ''e6'']"
    using th [THEN conjunct2] by (simp add: PREMADE_ROUTINES_def numeral_2_eq_2)
  show ?thesis using wf one all by blast
qed


section \<open>The committed logs as a map\<close>


definition committed :: "session \<Rightarrow> nat \<Rightarrow> workout_set_result workout_exercise_log option" where
  "committed s j = (if j < length (workoutData s) then Some (deref_log (heap s) (workoutData s ! j)) else None)"

lemma saveCurrentExerciseData_committed:
  assumes "session_inv s" "saveCurrentExerciseData library s = Inr s'"
  shows "committed s' = (committed s)(exerciseIndex s \<mapsto> deref_log (heap s) (currentExerciseLog library s))"
    and "heap s' = heap s" "currentSets s' = currentSets s" "exerciseIndex s' = exerciseIndex s"
proof -
  have idx: "exerciseIndex s < length (r_exercises (routine s))" and le: "exerciseIndex s \<le> length (workoutData s)"
    using assms(1) by (simp_all add: session_inv_def)
  have s': "s' = s\<lparr>workoutData := (if exerciseIndex s < length (workoutData s)
           then (workoutData s)[exerciseIndex s := currentExerciseLog library s]
           else workoutData s @ [currentExerciseLog library s])\<rparr>"
    using assms(2) saveCurrentExerciseData_eq [OF idx] by simp
  show "committed s' = (committed s)(exerciseIndex s \<mapsto> deref_log (heap s) (currentExerciseLog library s))"
  proof
    fix j
    show "committed s' j = ((committed s)(exerciseIndex s \<mapsto> deref_log (heap s) (currentExerciseLog library s))) j"
      using le by (auto simp: s' committed_def nth_list_update nth_append less_Suc_eq)
  qed
  show "heap s' = heap s" "currentSets s' = currentSets s" "exerciseIndex s' = exerciseIndex s"
    by (simp_all add: s')
qed

lemma committed_loadSets:
  assumes "\<forall>l \<in> set (workoutData s). present (heap s) (sets l)"
  shows "committed (loadSets s) = committed s"
proof (cases "exerciseIndex s < length (r_exercises (routine s))")
  case True
  show ?thesis
  proof
    fix j
    show "committed (loadSets s) j = committed s j"
      using assms by (auto simp: loadSets_eq [OF True] committed_def deref_log_def)
  qed
next
  case False
  then show ?thesis by (simp add: loadSets_def)
qed

lemma committed_index_irrelevant [simp]: "committed (s\<lparr>exerciseIndex := k\<rparr>) = committed s"
  by (simp add: committed_def fun_eq_iff)

text \<open>
  C4. Committing the current exercise (saveCurrentExerciseData) always succeeds in an invariant state and refines the design's map update: read as a map from exercise index to log, workoutData becomes the old map with the current index bound to the current exercise's log; the working sets are unchanged.
\<close>

theorem commit_refines_map_update:
  assumes "session_inv s"
  shows "\<exists>s'. saveCurrentExerciseData library s = Inr s' \<and>
     committed s' = (committed s)(exerciseIndex s \<mapsto> deref_log (heap s) (currentExerciseLog library s)) \<and>
     deref (heap s') (currentSets s') = deref (heap s) (currentSets s) \<and> exerciseIndex s' = exerciseIndex s"
proof -
  have "exerciseIndex s < length (r_exercises (routine s))"
    using assms by (simp add: session_inv_def)
  then obtain s' where save: "saveCurrentExerciseData library s = Inr s'"
    using saveCurrentExerciseData_eq by blast
  then show ?thesis using saveCurrentExerciseData_committed [OF assms save] by simp
qed

lemma toggle_involutive [simp]:
  "(\<lambda>x. x\<lparr>completed := \<not> completed x\<rparr>) \<circ> (\<lambda>x. x\<lparr>completed := \<not> completed x\<rparr>) = (\<lambda>x. x)"
  by (simp add: comp_def)

lemma modify_id [simp]: "modify r (\<lambda>x. x) h = h"
  by (simp add: modify_def)

text \<open>
  C6. Toggling the same set twice restores every set object and the working list, but the rest overlay is left running with the exercise's rest time whenever that rest is positive: one of the two toggles completed the set.
\<close>

theorem toggle_twice:
  assumes "session_inv s" "i < length (currentSets s)"
  shows "\<exists>s1 s2. handleToggleSet i s = Inr s1 \<and> handleToggleSet i s1 = Inr s2 \<and>
     heap s2 = heap s \<and> currentSets s2 = currentSets s \<and> workoutData s2 = workoutData s \<and>
     exerciseIndex s2 = exerciseIndex s \<and>
     (if 0 < restSeconds (r_exercises (routine s) ! exerciseIndex s)
      then showRestTimer s2 \<and> restTime s2 = restSeconds (r_exercises (routine s) ! exerciseIndex s)
      else showRestTimer s2 = showRestTimer s \<and> restTime s2 = restTime s)"
proof -
  let ?r = "currentSets s ! i"
  let ?f = "\<lambda>x::workout_set_result. x\<lparr>completed := \<not> completed x\<rparr>"
  let ?re = "r_exercises (routine s) ! exerciseIndex s"
  have r: "?r < length (heap s)" by (rule session_inv_current_present [OF assms])
  obtain s1 where t1: "handleToggleSet i s = Inr s1"
    using handleToggleSet_eq [OF assms] by (simp add: Let_def)
  have inv1: "session_inv s1" using handleToggleSet_inv [OF assms(1) t1] .
  have s1: "heap s1 = modify ?r ?f (heap s)" "currentSets s1 = currentSets s" "routine s1 = routine s"
    "exerciseIndex s1 = exerciseIndex s" "workoutData s1 = workoutData s"
    "showRestTimer s1 = (showRestTimer s \<or> \<not> completed (heap s ! ?r) \<and> 0 < restSeconds ?re)"
    "restTime s1 = (if \<not> completed (heap s ! ?r) \<and> 0 < restSeconds ?re then restSeconds ?re else restTime s)"
    using t1 handleToggleSet_eq [OF assms] by (auto simp: Let_def split: if_splits)
  have i1: "i < length (currentSets s1)" using assms(2) s1(2) by simp
  obtain s2 where t2: "handleToggleSet i s1 = Inr s2"
    using handleToggleSet_eq [OF inv1 i1] by (simp add: Let_def)
  have c1: "completed (heap s1 ! ?r) = (\<not> completed (heap s ! ?r))"
    using r by (simp add: s1(1) modify_nth_same)
  have "heap s2 = modify ?r ?f (heap s1)" "currentSets s2 = currentSets s" "workoutData s2 = workoutData s"
    "exerciseIndex s2 = exerciseIndex s"
    "showRestTimer s2 = (showRestTimer s1 \<or> completed (heap s ! ?r) \<and> 0 < restSeconds ?re)"
    "restTime s2 = (if completed (heap s ! ?r) \<and> 0 < restSeconds ?re then restSeconds ?re else restTime s1)"
    using t2 handleToggleSet_eq [OF inv1 i1] c1 s1 by (auto simp: Let_def split: if_splits)
  then show ?thesis
    using t1 t2 s1 by (auto simp: modify_modify_same)
qed


text \<open>
  C7. handleUpdateValue sets the performed value of set i to max 0 (value + delta) and changes no other set, so the value is never negative whatever the delta.
\<close>

theorem update_value_clamps:
  assumes "session_inv s" "i < length (currentSets s)"
  shows "\<exists>s'. handleUpdateValue i d s = Inr s' \<and>
     deref (heap s') (currentSets s') =
       (deref (heap s) (currentSets s))[i := (heap s ! (currentSets s ! i))
          \<lparr>repsOrDuration := max 0 (repsOrDuration (heap s ! (currentSets s ! i)) + d)\<rparr>] \<and>
     0 \<le> repsOrDuration (deref (heap s') (currentSets s') ! i)"
proof -
  have d: "distinct (currentSets s)" "present (heap s) (currentSets s)"
    using assms(1) by (simp_all add: session_inv_def)
  show ?thesis
    using assms(2) deref_modify_distinct [OF d assms(2)]
    by (simp add: handleUpdateValue_def)
qed

text \<open>
  C11. Pressing Previous on the first exercise only commits it: the state is the old one with workoutData updated, and the committed map binds index 0 to the current sets.
\<close>

theorem prev_at_first_exercise:
  assumes "session_inv s" "exerciseIndex s = 0"
  shows "\<exists>s'. handlePrevExercise library s = Inr s' \<and> s' = s\<lparr>workoutData := workoutData s'\<rparr> \<and>
     committed s' = (committed s)(0 \<mapsto> deref_log (heap s) (currentExerciseLog library s))"
proof -
  have idx: "exerciseIndex s < length (r_exercises (routine s))"
    using assms(1) by (simp add: session_inv_def)
  obtain s' where save: "saveCurrentExerciseData library s = Inr s'"
    using saveCurrentExerciseData_eq [OF idx] by simp
  have "handlePrevExercise library s = Inr s'"
    using save assms(2) by (simp add: handlePrevExercise_def)
  then show ?thesis
    using saveCurrentExerciseData_committed [OF assms(1) save] saveCurrentExerciseData_inv(3) [OF assms(1) save]
      assms(2) by auto
qed

lemma saveCurrentExerciseData_frame:
  assumes "session_inv s" "saveCurrentExerciseData library s = Inr s1"
  shows "routine s1 = routine s" "exerciseIndex s1 = exerciseIndex s" "heap s1 = heap s"
    "currentSets s1 = currentSets s" "showSummary s1 = showSummary s"
    "showRestTimer s1 = showRestTimer s" "restTime s1 = restTime s" "s_startTime s1 = s_startTime s"
  by (subst saveCurrentExerciseData_inv(3) [OF assms]; simp)+

lemma handlePrevExercise_eq:
  assumes "session_inv s" "0 < exerciseIndex s" "saveCurrentExerciseData library s = Inr s1"
  shows "handlePrevExercise library s = Inr (loadSets (s1\<lparr>exerciseIndex := exerciseIndex s - 1\<rparr>))"
proof -
  have "exerciseIndex s < length (r_exercises (routine s))"
    using assms(1) by (simp add: session_inv_def)
  moreover have "routine s1 = routine s"
    by (rule saveCurrentExerciseData_frame(1) [OF assms(1,3)])
  ultimately show ?thesis
    using assms(2,3) by (simp add: handlePrevExercise_def setExerciseIndex_eq)
qed

text \<open>
  C12. Pressing Previous on a later exercise commits it, moves back one exercise and reloads that exercise's planned sets, not the committed progress; the committed log of the previous exercise is kept.
\<close>

theorem prev_reloads_planned_sets:
  assumes "session_inv s" "0 < exerciseIndex s"
  shows "\<exists>s'. handlePrevExercise library s = Inr s' \<and> exerciseIndex s' = exerciseIndex s - 1 \<and>
     deref (heap s') (currentSets s') = initialSets (r_exercises (routine s) ! (exerciseIndex s - 1)) \<and>
     committed s' (exerciseIndex s - 1) = committed s (exerciseIndex s - 1)"
proof -
  have idx: "exerciseIndex s < length (r_exercises (routine s))"
    using assms(1) by (simp add: session_inv_def)
  obtain s1 where save: "saveCurrentExerciseData library s = Inr s1"
    using saveCurrentExerciseData_eq [OF idx] by simp
  note c = saveCurrentExerciseData_committed [OF assms(1) save]
  have s1: "s1 = s\<lparr>workoutData := workoutData s1\<rparr>"
    by (rule saveCurrentExerciseData_inv(3) [OF assms(1) save])
  let ?s' = "loadSets (s1\<lparr>exerciseIndex := exerciseIndex s - 1\<rparr>)"
  have "exerciseIndex s - 1 < length (r_exercises (routine s))" using idx by simp
  then have "deref (heap ?s') (currentSets ?s') = initialSets (r_exercises (routine s) ! (exerciseIndex s - 1))"
    using deref_loadSets [of "s1\<lparr>exerciseIndex := exerciseIndex s - 1\<rparr>"]
      saveCurrentExerciseData_frame(1) [OF assms(1) save] by simp
  moreover have "committed ?s' (exerciseIndex s - 1) = committed s1 (exerciseIndex s - 1)"
    using saveCurrentExerciseData_inv(1) [OF assms(1) save]
    by (simp add: committed_loadSets session_inv_def)
  moreover have "exerciseIndex s - 1 \<noteq> exerciseIndex s" using assms(2) by simp
  then have "committed s1 (exerciseIndex s - 1) = committed s (exerciseIndex s - 1)"
    using c(1) by simp
  ultimately show ?thesis
    using handlePrevExercise_eq [OF assms save] by (auto simp: loadSets_frame)
qed


text \<open>
  C5. handleToggleSet flips the completed flag of exactly set i; it starts the rest overlay with restSeconds of the current exercise exactly when the set goes from not completed to completed and that rest is positive, and otherwise leaves the rest state alone; the committed logs and position are untouched.
\<close>

theorem toggle_starts_rest:
  assumes "session_inv s" "handleToggleSet i s = Inr s'"
  shows "deref (heap s') (currentSets s') =
      (deref (heap s) (currentSets s))[i := (heap s ! (currentSets s ! i))
         \<lparr>completed := \<not> completed (heap s ! (currentSets s ! i))\<rparr>] \<and>
    workoutData s' = workoutData s \<and> exerciseIndex s' = exerciseIndex s \<and> showSummary s' = showSummary s \<and>
    (showRestTimer s', restTime s') =
      (if \<not> completed (heap s ! (currentSets s ! i)) \<and> 0 < restSeconds (r_exercises (routine s) ! exerciseIndex s)
       then (True, restSeconds (r_exercises (routine s) ! exerciseIndex s))
       else (showRestTimer s, restTime s))"
proof -
  have i: "i < length (currentSets s)"
    using assms(2) by (auto simp: handleToggleSet_def split: if_splits)
  have d: "distinct (currentSets s)" "present (heap s) (currentSets s)"
    using assms(1) by (simp_all add: session_inv_def)
  show ?thesis
    using assms(2) handleToggleSet_eq [OF assms(1) i] deref_modify_distinct [OF d i]
    by (auto simp: Let_def split: if_splits)
qed

text \<open>
  C8. Adding a set and then removing one restores the working list of sets, their values, and the values of every committed log.
\<close>

theorem add_then_remove_set:
  assumes "session_inv s"
  shows "currentSets (handleRemoveSet (handleAddSet s)) = currentSets s \<and>
    deref (heap (handleRemoveSet (handleAddSet s))) (currentSets s) = deref (heap s) (currentSets s) \<and>
    map (deref_log (heap (handleRemoveSet (handleAddSet s)))) (workoutData s) =
      map (deref_log (heap s)) (workoutData s)"
proof -
  have ne: "currentSets s \<noteq> []" and pr: "present (heap s) (currentSets s)"
    and wd: "\<forall>l \<in> set (workoutData s). present (heap s) (sets l)"
    using assms by (simp_all add: session_inv_def)
  then show ?thesis
    by (simp add: handleAddSet_eq handleRemoveSet_def deref_log_def)
qed

text \<open>
  C9. Removing sets k times from a non-empty working list leaves max 1 (length - k) sets: the list never becomes empty.
\<close>

theorem remove_set_never_empties:
  assumes "currentSets s \<noteq> []"
  shows "length (currentSets ((handleRemoveSet ^^ k) s)) = max 1 (length (currentSets s) - k)"
proof (induction k)
  case 0
  then show ?case using assms by (simp add: Suc_leI)
next
  case (Suc k)
  then show ?case by (simp add: handleRemoveSet_def)
qed

lemma restTick_frame [simp]:
  "restTime (restTick s) = (if showRestTimer s \<and> 0 < restTime s then restTime s - 1 else restTime s)"
  "showRestTimer (restTick s) = showRestTimer s"
  by (simp_all add: restTick_def)

lemma restTick_funpow_shown [simp]: "showRestTimer ((restTick ^^ k) s) = showRestTimer s"
  by (induction k) simp_all

text \<open>
  C10. With a non-negative rest time, k timer ticks leave max 0 (restTime - k) seconds when the overlay is shown and the time unchanged otherwise; after restTime ticks the countdown has stopped (a further tick changes nothing).
\<close>

theorem rest_countdown:
  assumes "0 \<le> restTime s"
  shows "restTime ((restTick ^^ k) s) = (if showRestTimer s then max 0 (restTime s - int k) else restTime s) \<and>
    restTick ((restTick ^^ nat (restTime s)) s) = (restTick ^^ nat (restTime s)) s"
proof -
  have count: "restTime ((restTick ^^ k) s) = (if showRestTimer s then max 0 (restTime s - int k) else restTime s)" for k
  proof (induction k)
    case 0
    then show ?case using assms by simp
  next
    case (Suc k)
    then show ?case by auto
  qed
  have "restTime ((restTick ^^ nat (restTime s)) s) = 0 \<or> \<not> showRestTimer s"
    using count [of "nat (restTime s)"] assms by simp
  then have "restTick ((restTick ^^ nat (restTime s)) s) = (restTick ^^ nat (restTime s)) s"
    by (auto simp: restTick_def)
  with count show ?thesis by blast
qed

lemma handlePrevExercise_ok:
  assumes "session_inv s"
  shows "\<exists>s'. handlePrevExercise library s = Inr s'"
proof -
  have idx: "exerciseIndex s < length (r_exercises (routine s))"
    using assms by (simp add: session_inv_def)
  obtain s1 where save: "saveCurrentExerciseData library s = Inr s1"
    using saveCurrentExerciseData_eq [OF idx] by simp
  show ?thesis
  proof (cases "0 < exerciseIndex s")
    case True
    then show ?thesis using handlePrevExercise_eq [OF assms True save] by blast
  next
    case False
    then show ?thesis using save by (simp add: handlePrevExercise_def)
  qed
qed

text \<open>In an invariant state every offered event is handled without a TypeError.\<close>

lemma enabled_step_ok:
  assumes "session_inv s" "ui_enabled s e"
  shows "\<exists>s'. session_step library s e = Inr s'"
proof (cases e)
  case (ToggleSet i)
  then show ?thesis using assms(2) handleToggleSet_eq [OF assms(1), of i] by (simp add: ui_enabled_def Let_def)
next
  case (UpdateValue i d)
  then show ?thesis using assms(2) by (simp add: ui_enabled_def Let_def handleUpdateValue_def)
next
  case NextExercise
  then show ?thesis using handleNextExercise_eq [OF assms(1)] by (simp add: Let_def)
next
  case PrevExercise
  then show ?thesis using handlePrevExercise_ok [OF assms(1)] by simp
qed simp_all

text \<open>
  C3. In every state satisfying the session invariant, every event the rendered page offers is handled without a TypeError, and finishing the workout yields a log.
\<close>

theorem enabled_events_never_throw:
  assumes "session_inv s"
  shows "(\<forall>e. ui_enabled s e \<longrightarrow> (\<exists>s'. session_step library s e = Inr s')) \<and>
    (\<exists>wl. handleFinishWorkout library now s = Inr wl)"
proof (intro conjI allI impI)
  fix e assume "ui_enabled s e"
  with assms show "\<exists>s'. session_step library s e = Inr s'" by (rule enabled_step_ok)
next
  have "exerciseIndex s < length (r_exercises (routine s))"
    using assms by (simp add: session_inv_def)
  then show "\<exists>wl. handleFinishWorkout library now s = Inr wl"
    by (simp add: handleFinishWorkout_def)
qed

text \<open>
  C16. After running through a routine of n exercises with Next, the summary shows n + 1 exercises completed.
\<close>

theorem summary_overcounts_exercises:
  assumes "wf_routine r"
  shows "\<exists>s. startAndRun library r now (replicate (length (r_exercises r)) NextExercise) = Inr s \<and>
    showSummary s \<and> summaryExercisesCompleted s = length (r_exercises r) + 1"
proof -
  obtain s where "startAndRun library r now (replicate (length (r_exercises r)) NextExercise) = Inr s"
    and "showSummary s" and "map exerciseId (workoutData s) = map re_exerciseId (r_exercises r)"
    using advance_complete [OF assms, of library now] by blast
  then show ?thesis
    by (metis length_map summaryExercisesCompleted_def)
qed


section \<open>What the saved log holds\<close>


lemma handleFinishWorkout_eq:
  assumes "exerciseIndex s < length (r_exercises (routine s))"
  shows "handleFinishWorkout library now s =
    Inr \<lparr>log_id = js_toString now, routineId = r_id (routine s),
         routineName = r_name (routine s), startTime = s_startTime s, endTime = now,
         totalDurationSeconds = of_int (now - s_startTime s) / 1000,
         exercises = map (deref_log (heap s))
           (if exerciseIndex s < length (workoutData s) then workoutData s
            else workoutData s @ [currentExerciseLog library s])\<rparr>"
  using assms by (simp add: handleFinishWorkout_def)

lemmas run_defs = startAndRun_def sessionStart_def render_def initialSession_def loadSets_def alloc_list_def
  initialSets_def handleNextExercise_def handlePrevExercise_def setExerciseIndex_def
  saveCurrentExerciseData_def currentExerciseLog_def findExercise_def nameOrUnknown_def
  handleToggleSet_def modify_def skipRest_def openSummary_def cancelSummary_def handleAddSet_def
  Let_def upt_rec deref_log_def deref_def

text \<open>
  Toggling a set changes only the object at that set's address and keeps the list,
  the committed logs, the index, the routine and the start instant.
\<close>

lemma handleToggleSet_frame:
  assumes "session_inv s" "handleToggleSet i s = Inr s'"
  shows "i < length (currentSets s)"
    "heap s' = modify (currentSets s ! i) (\<lambda>x. x\<lparr>completed := \<not> completed x\<rparr>) (heap s)"
    "workoutData s' = workoutData s" "currentSets s' = currentSets s"
    "exerciseIndex s' = exerciseIndex s" "routine s' = routine s" "s_startTime s' = s_startTime s"
proof -
  show i: "i < length (currentSets s)"
    using assms(2) by (auto simp: handleToggleSet_def split: if_splits)
  note eq = handleToggleSet_eq [OF assms(1) i]
  show "heap s' = modify (currentSets s ! i) (\<lambda>x. x\<lparr>completed := \<not> completed x\<rparr>) (heap s)"
    "workoutData s' = workoutData s" "currentSets s' = currentSets s"
    "exerciseIndex s' = exerciseIndex s" "routine s' = routine s" "s_startTime s' = s_startTime s"
    using assms(2) eq by (auto simp: Let_def split: if_splits)
qed

text \<open>A toggle flips the displayed set it was pressed on.\<close>

lemma toggle_flips_displayed:
  assumes "session_inv s" "handleToggleSet i s = Inr s'"
  shows "completed (deref (heap s') (currentSets s') ! i) = (\<not> completed (deref (heap s) (currentSets s) ! i))"
proof -
  note fr = handleToggleSet_frame [OF assms]
  have "distinct (currentSets s)" "present (heap s) (currentSets s)"
    using assms(1) by (simp_all add: session_inv_def)
  then show ?thesis
    using fr deref_modify_distinct [of "currentSets s" "heap s" i] by simp
qed

text \<open>
  After Previous, the working sets are fresh objects, appended to the store after every
  object a committed log refers to, and the revisited exercise has a committed log.
\<close>

lemma revisit_fresh:
  assumes "session_inv s" "0 < exerciseIndex s" "handlePrevExercise library s = Inr s1"
  shows "exerciseIndex s1 < length (workoutData s1)"
    "\<forall>l \<in> set (workoutData s1). \<forall>r \<in> set (currentSets s1). r \<notin> set (sets l)"
proof -
  have idx: "exerciseIndex s < length (r_exercises (routine s))"
    using assms(1) by (simp add: session_inv_def)
  obtain s0 where save: "saveCurrentExerciseData library s = Inr s0"
    using saveCurrentExerciseData_eq [OF idx] by simp
  note c = saveCurrentExerciseData_inv [OF assms(1) save]
  have fr: "routine s0 = routine s" "exerciseIndex s0 = exerciseIndex s"
    by (subst c(3); simp)+
  have k: "exerciseIndex s - 1 < length (r_exercises (routine s0))" using idx fr by simp
  have s1: "s1 = loadSets (s0\<lparr>exerciseIndex := exerciseIndex s - 1\<rparr>)"
    using handlePrevExercise_eq [OF assms(1,2) save] assms(3) by simp
  then have cs: "set (currentSets s1) \<subseteq> {length (heap s0)..}" and wd: "workoutData s1 = workoutData s0"
      and ix: "exerciseIndex s1 = exerciseIndex s - 1"
    using loadSets_eq [of "s0\<lparr>exerciseIndex := exerciseIndex s - 1\<rparr>"] k by auto
  show "exerciseIndex s1 < length (workoutData s1)" using c(2) ix wd by simp
  have "\<forall>l \<in> set (workoutData s0). present (heap s0) (sets l)"
    using c(1) by (simp add: session_inv_def)
  then show "\<forall>l \<in> set (workoutData s1). \<forall>r \<in> set (currentSets s1). r \<notin> set (sets l)"
    using cs wd by (fastforce simp: present_def)
qed

text \<open>
  C14. After moving back to an exercise, completing (or un-completing) one of its sets
  changes the set the page shows, but not the log that finishing saves: the log takes the
  entry committed before the revisit, whose set objects the page no longer shows.
\<close>

theorem finish_after_revisit_drops_edits:
  assumes "session_inv s" "0 < exerciseIndex s" "handlePrevExercise library s = Inr s1"
    "handleToggleSet i s1 = Inr s2"
  shows "completed (deref (heap s2) (currentSets s2) ! i) = (\<not> completed (deref (heap s1) (currentSets s1) ! i)) \<and>
    handleFinishWorkout library now s2 = handleFinishWorkout library now s1"
proof -
  have inv1: "session_inv s1" using handlePrevExercise_inv [OF assms(1,3)] .
  note fr = handleToggleSet_frame [OF inv1 assms(4)]
  note rv = revisit_fresh [OF assms(1-3)]
  have r: "\<forall>l \<in> set (workoutData s1). currentSets s1 ! i \<notin> set (sets l)"
    using rv(2) fr(1) by auto
  have "map (deref_log (heap s2)) (workoutData s1) = map (deref_log (heap s1)) (workoutData s1)"
    using r fr(2) by (simp add: deref_log_def deref_modify_notin)
  then have "handleFinishWorkout library now s2 = handleFinishWorkout library now s1"
    using rv(1) fr by (simp add: handleFinishWorkout_def)
  then show ?thesis using toggle_flips_displayed [OF inv1 assms(4)] by simp
qed

text \<open>
  C15. Committing stores the working set objects themselves, not a copy: after a commit,
  a toggle of a working set changes the committed log as read through the store, while a
  set added afterwards does not join the committed log.
\<close>

theorem committed_sets_alias_working_sets:
  assumes "session_inv s" "saveCurrentExerciseData library s = Inr s1" "handleToggleSet i s1 = Inr s2"
  shows "sets (workoutData s1 ! exerciseIndex s) = currentSets s \<and>
    completed (deref (heap s2) (sets (workoutData s2 ! exerciseIndex s)) ! i) =
      (\<not> completed (deref (heap s1) (sets (workoutData s1 ! exerciseIndex s)) ! i)) \<and>
    sets (workoutData (handleAddSet s2) ! exerciseIndex s) = currentSets s \<and>
    length (currentSets (handleAddSet s2)) = Suc (length (currentSets s))"
proof -
  note c = saveCurrentExerciseData_inv [OF assms(1,2)]
  have idx: "exerciseIndex s < length (r_exercises (routine s))"
    and le: "exerciseIndex s \<le> length (workoutData s)"
    using assms(1) by (simp_all add: session_inv_def)
  have s1: "s1 = s\<lparr>workoutData := (if exerciseIndex s < length (workoutData s)
           then (workoutData s)[exerciseIndex s := currentExerciseLog library s]
           else workoutData s @ [currentExerciseLog library s])\<rparr>"
    using assms(2) saveCurrentExerciseData_eq [OF idx] by simp
  have al: "sets (workoutData s1 ! exerciseIndex s) = currentSets s"
    using le by (auto simp: s1 nth_append)
  note fr = handleToggleSet_frame [OF c(1) assms(3)]
  have cs: "currentSets s1 = currentSets s" by (simp add: s1)
  have ne: "currentSets s2 \<noteq> []" using fr(4) c(1) by (simp add: session_inv_def)
  show ?thesis
    using al cs fr toggle_flips_displayed [OF c(1) assms(3)] handleAddSet_eq [OF ne] by simp
qed

section \<open>Witnesses on the premade routine pm1\<close>


definition pm1_session :: session where
  "pm1_session = loadSets (initialSession (PREMADE_ROUTINES 0 ! 0) 0)"

lemma pm1_session_eq:
  "pm1_session = \<lparr>routine = PREMADE_ROUTINES 0 ! 0, exerciseIndex = 0, s_startTime = 0, workoutData = [],
     currentSets = [0, 1], showRestTimer = False, restTime = 0, showSummary = False,
     heap = [\<lparr>setNumber = 1, completed = False, repsOrDuration = 10, target = 10\<rparr>,
             \<lparr>setNumber = 2, completed = False, repsOrDuration = 10, target = 10\<rparr>]\<rparr>"
  by (simp add: pm1_session_def run_defs PREMADE_ROUTINES_def)

lemma pm1_session_inv: "session_inv pm1_session"
  unfolding pm1_session_def by (rule sessionStart_inv) (simp add: wf_routine_def PREMADE_ROUTINES_def)

theorem reachable_inv_witness: "reachable EXERCISE_LIBRARY pm1_session \<and> session_inv pm1_session"
proof -
  have r: "reachable EXERCISE_LIBRARY pm1_session"
    unfolding pm1_session_def
    by (rule reachable.start [where r = "PREMADE_ROUTINES 0 ! 0" and now = 0])
       (simp_all add: wf_routine_def PREMADE_ROUTINES_def sessionStart_def render_def initialSession_def)
  then show ?thesis using reachable_inv [OF r] by simp
qed

theorem enabled_events_never_throw_witness:
  "session_inv pm1_session \<and> ui_enabled pm1_session (ToggleSet 1) \<and>
   (\<exists>s'. session_step EXERCISE_LIBRARY pm1_session (ToggleSet 1) = Inr s') \<and>
   (\<exists>wl. handleFinishWorkout EXERCISE_LIBRARY 1000 pm1_session = Inr wl)"
proof -
  have en: "ui_enabled pm1_session (ToggleSet 1)" by (simp add: pm1_session_eq ui_enabled_def)
  note th = enabled_events_never_throw [OF pm1_session_inv, of EXERCISE_LIBRARY 1000]
  show ?thesis using pm1_session_inv en th by blast
qed

theorem update_value_clamps_witness:
  "session_inv pm1_session \<and> 0 < length (currentSets pm1_session) \<and>
   (\<exists>s'. handleUpdateValue 0 (-1000) pm1_session = Inr s' \<and>
         repsOrDuration (deref (heap s') (currentSets s') ! 0) = 0)"
proof -
  have i: "0 < length (currentSets pm1_session)" by (simp add: pm1_session_eq)
  obtain s' where "handleUpdateValue 0 (-1000) pm1_session = Inr s'" and
    "deref (heap s') (currentSets s') =
       (deref (heap pm1_session) (currentSets pm1_session))[0 := (heap pm1_session ! (currentSets pm1_session ! 0))
          \<lparr>repsOrDuration := max 0 (repsOrDuration (heap pm1_session ! (currentSets pm1_session ! 0)) + (-1000))\<rparr>]"
    using update_value_clamps [OF pm1_session_inv i, of "-1000"] by blast
  then show ?thesis using pm1_session_inv i by (auto simp: pm1_session_eq)
qed



theorem commit_refines_map_update_witness:
  "session_inv pm1_session \<and>
   (\<exists>s'. saveCurrentExerciseData EXERCISE_LIBRARY pm1_session = Inr s' \<and>
     committed s' 0 = Some \<lparr>exerciseId = ''e2'', exerciseName = ''Cat-Cow Stretch'',
        sets = [\<lparr>setNumber = 1, completed = False, repsOrDuration = 10, target = 10\<rparr>,
                \<lparr>setNumber = 2, completed = False, repsOrDuration = 10, target = 10\<rparr>]\<rparr>)"
proof -
  obtain s' where "saveCurrentExerciseData EXERCISE_LIBRARY pm1_session = Inr s'" and
    c: "committed s' = (committed pm1_session)(exerciseIndex pm1_session \<mapsto>
          deref_log (heap pm1_session) (currentExerciseLog EXERCISE_LIBRARY pm1_session))"
    using commit_refines_map_update [OF pm1_session_inv, of EXERCISE_LIBRARY] by blast
  moreover have "committed s' 0 = Some \<lparr>exerciseId = ''e2'', exerciseName = ''Cat-Cow Stretch'',
        sets = [\<lparr>setNumber = 1, completed = False, repsOrDuration = 10, target = 10\<rparr>,
                \<lparr>setNumber = 2, completed = False, repsOrDuration = 10, target = 10\<rparr>]\<rparr>"
    unfolding c by (simp add: pm1_session_eq run_defs PREMADE_ROUTINES_def EXERCISE_LIBRARY_def)
  ultimately show ?thesis using pm1_session_inv by blast
qed

theorem toggle_starts_rest_witness:
  "session_inv pm1_session \<and>
   (\<exists>s'. handleToggleSet 0 pm1_session = Inr s' \<and> showRestTimer s' \<and> restTime s' = 30 \<and>
         completed (deref (heap s') (currentSets s') ! 0))"
proof -
  obtain s' where t: "handleToggleSet 0 pm1_session = Inr s'"
    using handleToggleSet_eq [OF pm1_session_inv, of 0] by (simp add: pm1_session_eq Let_def)
  note th = toggle_starts_rest [OF pm1_session_inv t]
  have "showRestTimer s' \<and> restTime s' = 30 \<and> completed (deref (heap s') (currentSets s') ! 0)"
    using th by (simp add: pm1_session_eq PREMADE_ROUTINES_def)
  then show ?thesis using t pm1_session_inv by blast
qed

theorem toggle_twice_witness:
  "session_inv pm1_session \<and> 0 < length (currentSets pm1_session) \<and>
   (\<exists>s1 s2. handleToggleSet 0 pm1_session = Inr s1 \<and> handleToggleSet 0 s1 = Inr s2 \<and>
      heap s2 = heap pm1_session \<and> showRestTimer s2 \<and> restTime s2 = 30)"
proof -
  have i: "0 < length (currentSets pm1_session)" by (simp add: pm1_session_eq)
  obtain s1 s2 where t: "handleToggleSet 0 pm1_session = Inr s1" "handleToggleSet 0 s1 = Inr s2"
    "heap s2 = heap pm1_session"
    and r: "if 0 < restSeconds (r_exercises (routine pm1_session) ! exerciseIndex pm1_session)
      then showRestTimer s2 \<and> restTime s2 = restSeconds (r_exercises (routine pm1_session) ! exerciseIndex pm1_session)
      else showRestTimer s2 = showRestTimer pm1_session \<and> restTime s2 = restTime pm1_session"
    using toggle_twice [OF pm1_session_inv i] by blast
  have "restSeconds (r_exercises (routine pm1_session) ! exerciseIndex pm1_session) = 30"
    by (simp add: pm1_session_eq PREMADE_ROUTINES_def)
  with r have "showRestTimer s2 \<and> restTime s2 = 30" by simp
  with t pm1_session_inv i show ?thesis by blast
qed

theorem add_then_remove_set_witness:
  "session_inv pm1_session \<and>
   currentSets (handleRemoveSet (handleAddSet pm1_session)) = [0, 1] \<and>
   deref (heap (handleRemoveSet (handleAddSet pm1_session))) [0, 1] =
     [\<lparr>setNumber = 1, completed = False, repsOrDuration = 10, target = 10\<rparr>,
      \<lparr>setNumber = 2, completed = False, repsOrDuration = 10, target = 10\<rparr>]"
  using add_then_remove_set [OF pm1_session_inv] pm1_session_inv by (simp add: pm1_session_eq)

theorem remove_set_never_empties_witness:
  "currentSets pm1_session \<noteq> [] \<and> length (currentSets ((handleRemoveSet ^^ 5) pm1_session)) = 1"
  using remove_set_never_empties [of pm1_session 5] by (simp add: pm1_session_eq)

theorem rest_countdown_witness:
  "0 \<le> restTime (pm1_session\<lparr>showRestTimer := True, restTime := 30\<rparr>) \<and>
   restTime ((restTick ^^ 10) (pm1_session\<lparr>showRestTimer := True, restTime := 30\<rparr>)) = 20 \<and>
   restTime ((restTick ^^ 45) (pm1_session\<lparr>showRestTimer := True, restTime := 30\<rparr>)) = 0"
proof -
  let ?s = "pm1_session\<lparr>showRestTimer := True, restTime := 30\<rparr>"
  have nn: "0 \<le> restTime ?s" by simp
  show ?thesis
    using rest_countdown [OF nn, of 10] rest_countdown [OF nn, of 45] by simp
qed

theorem prev_at_first_exercise_witness:
  "session_inv pm1_session \<and> exerciseIndex pm1_session = 0 \<and>
   (\<exists>s'. handlePrevExercise EXERCISE_LIBRARY pm1_session = Inr s' \<and> exerciseIndex s' = 0 \<and>
     currentSets s' = currentSets pm1_session \<and> committed s' 0 \<noteq> None)"
proof -
  have z: "exerciseIndex pm1_session = 0" by (simp add: pm1_session_eq)
  obtain s' where p: "handlePrevExercise EXERCISE_LIBRARY pm1_session = Inr s'"
    and e: "s' = pm1_session\<lparr>workoutData := workoutData s'\<rparr>"
    and c: "committed s' = (committed pm1_session)(0 \<mapsto>
              deref_log (heap pm1_session) (currentExerciseLog EXERCISE_LIBRARY pm1_session))"
    using prev_at_first_exercise [OF pm1_session_inv z, of EXERCISE_LIBRARY] by blast
  have "exerciseIndex s' = 0" "currentSets s' = currentSets pm1_session"
    by (subst e; simp add: z)+
  then show ?thesis using p c z pm1_session_inv by simp
qed

theorem prev_reloads_planned_sets_witness:
  "\<exists>s. handleNextExercise EXERCISE_LIBRARY pm1_session = Inr s \<and> session_inv s \<and> 0 < exerciseIndex s \<and>
     (\<exists>s'. handlePrevExercise EXERCISE_LIBRARY s = Inr s' \<and> exerciseIndex s' = 0 \<and>
        deref (heap s') (currentSets s') =
          [\<lparr>setNumber = 1, completed = False, repsOrDuration = 10, target = 10\<rparr>,
           \<lparr>setNumber = 2, completed = False, repsOrDuration = 10, target = 10\<rparr>])"
proof -
  obtain s where n: "handleNextExercise EXERCISE_LIBRARY pm1_session = Inr s"
    using handleNextExercise_eq [OF pm1_session_inv] by (simp add: Let_def)
  have inv: "session_inv s" using handleNextExercise_inv [OF pm1_session_inv n] .
  have ix0: "exerciseIndex pm1_session = 0" "workoutData pm1_session = []"
    "routine pm1_session = PREMADE_ROUTINES 0 ! 0"
    by (simp_all add: pm1_session_eq)
  have len3: "length (r_exercises (PREMADE_ROUTINES 0 ! 0)) = 3" by (simp add: PREMADE_ROUTINES_def)
  have s_eq: "s = loadSets (pm1_session\<lparr>workoutData := [currentExerciseLog EXERCISE_LIBRARY pm1_session],
                                      exerciseIndex := 1\<rparr>)"
    using n handleNextExercise_eq [OF pm1_session_inv, of EXERCISE_LIBRARY] ix0 len3 by (simp add: Let_def)
  have facts: "exerciseIndex s = 1" "routine s = PREMADE_ROUTINES 0 ! 0"
    by (simp_all add: s_eq ix0)
  then have pos: "0 < exerciseIndex s" by simp
  show ?thesis
    using prev_reloads_planned_sets [OF inv pos, of EXERCISE_LIBRARY] n inv pos facts
    by (auto simp add: PREMADE_ROUTINES_def initialSets_def upt_rec)
qed

theorem summary_overcounts_exercises_witness:
  "wf_routine (PREMADE_ROUTINES 0 ! 0) \<and>
   (\<exists>s. startAndRun EXERCISE_LIBRARY (PREMADE_ROUTINES 0 ! 0) 0 [NextExercise, NextExercise, NextExercise] = Inr s \<and>
        showSummary s \<and> summaryExercisesCompleted s = 4)"
proof -
  have wf: "wf_routine (PREMADE_ROUTINES 0 ! 0)" by (simp add: wf_routine_def PREMADE_ROUTINES_def)
  show ?thesis
    using summary_overcounts_exercises [OF wf, of EXERCISE_LIBRARY 0] wf
    by (simp add: PREMADE_ROUTINES_def eval_nat_numeral)
qed

theorem finish_after_revisit_drops_edits_witness:
  "\<exists>s s1 s2. session_step EXERCISE_LIBRARY pm1_session NextExercise = Inr s \<and> session_inv s \<and>
     0 < exerciseIndex s \<and> handlePrevExercise EXERCISE_LIBRARY s = Inr s1 \<and> handleToggleSet 0 s1 = Inr s2 \<and>
     handleFinishWorkout EXERCISE_LIBRARY 5 s2 = handleFinishWorkout EXERCISE_LIBRARY 5 s1"
proof -
  obtain s where n: "session_step EXERCISE_LIBRARY pm1_session NextExercise = Inr s"
    using handleNextExercise_eq [OF pm1_session_inv, of EXERCISE_LIBRARY] by (simp add: Let_def)
  have inv: "session_inv s" using session_step_inv [OF pm1_session_inv n] .
  have i: "exerciseIndex s = 1"
    using n handleNextExercise_eq [OF pm1_session_inv, of EXERCISE_LIBRARY]
    by (auto simp: Let_def pm1_session_eq PREMADE_ROUTINES_def loadSets_def split: prod.splits if_splits)
  obtain s1 where p: "handlePrevExercise EXERCISE_LIBRARY s = Inr s1"
    using handlePrevExercise_ok [OF inv] by blast
  have inv1: "session_inv s1" using handlePrevExercise_inv [OF inv p] .
  then have c0: "0 < length (currentSets s1)" by (simp add: session_inv_def)
  obtain s2 where t: "handleToggleSet 0 s1 = Inr s2"
    using handleToggleSet_eq [OF inv1 c0] by (simp add: Let_def)
  show ?thesis
    using finish_after_revisit_drops_edits [OF inv _ p t, of 5] n inv i p t by simp
qed

theorem committed_sets_alias_working_sets_witness:
  "\<exists>s1 s2. session_inv pm1_session \<and> saveCurrentExerciseData EXERCISE_LIBRARY pm1_session = Inr s1 \<and>
     handleToggleSet 0 s1 = Inr s2 \<and> completed (deref (heap s2) (sets (workoutData s2 ! 0)) ! 0)"
proof -
  obtain s1 where save: "saveCurrentExerciseData EXERCISE_LIBRARY pm1_session = Inr s1"
    using saveCurrentExerciseData_eq pm1_session_inv by (simp add: session_inv_def)
  note c = saveCurrentExerciseData_inv [OF pm1_session_inv save]
  have c0: "0 < length (currentSets s1)" using c(1) by (simp add: session_inv_def)
  obtain s2 where t: "handleToggleSet 0 s1 = Inr s2"
    using handleToggleSet_eq [OF c(1) c0] by (simp add: Let_def)
  note th = committed_sets_alias_working_sets [OF pm1_session_inv save t]
  have ix: "exerciseIndex pm1_session = 0" by (simp add: pm1_session_eq)
  have "heap s1 = heap pm1_session" by (rule saveCurrentExerciseData_frame(3) [OF pm1_session_inv save])
  then have "\<not> completed (deref (heap s1) (sets (workoutData s1 ! 0)) ! 0)"
    using th ix by (simp add: pm1_session_eq)
  then show ?thesis using th ix pm1_session_inv save t by auto
qed

end
