(* ===== verification/SessionPhase.thy ===== *)
theory SessionPhase
  imports SessionProps
begin

text \<open>
  The session engine against the phase machine of its design. The design names three
  phases of a running session, \<open>InProgress\<close>, \<open>Resting\<close> and \<open>Reviewing\<close>, and which
  operation moves between them; \<open>Finished\<close> is the end of the session, not a state of
  the page. The page has no phase variable: its phase is read off the two overlay flags.
  The refinement runs over the states the page reaches through the buttons it offers
  (\<open>ui_reachable\<close>), in which the summary is never drawn over the rest overlay.
\<close>

datatype phase = InProgress | Resting | Reviewing

definition phase_of :: "session \<Rightarrow> phase" where
  "phase_of s = (if showSummary s then Reviewing else if showRestTimer s then Resting else InProgress)"

text \<open>The design's transitions, labelled with the operation that takes them.\<close>

inductive spec_step :: "phase \<Rightarrow> event \<Rightarrow> phase \<Rightarrow> bool" where
  toggle: "spec_step InProgress (ToggleSet i) InProgress"
| toggle_rest: "spec_step InProgress (ToggleSet i) Resting"
| adjust: "spec_step InProgress (UpdateValue i d) InProgress"
| add: "spec_step InProgress AddSet InProgress"
| remove: "spec_step InProgress RemoveSet InProgress"
| advance: "spec_step InProgress NextExercise InProgress"
| advance_last: "spec_step InProgress NextExercise Reviewing"
| retreat: "spec_step InProgress PrevExercise InProgress"
| finish_request: "spec_step InProgress OpenSummary Reviewing"
| cancel: "spec_step Reviewing CancelSummary InProgress"
| tick: "spec_step Resting Tick Resting"
| extend: "spec_step Resting AddRestTime Resting"
| skip: "spec_step Resting SkipRest InProgress"

inductive_simps spec_step_simps [simp]: "spec_step p e q"

text \<open>States reached from a session start through buttons the page offers.\<close>

inductive ui_reachable :: "exercise list \<Rightarrow> session \<Rightarrow> bool" for library where
  start: "wf_routine r \<Longrightarrow> sessionStart r now = Inr s \<Longrightarrow> ui_reachable library s"
| step: "ui_reachable library s \<Longrightarrow> ui_enabled s e \<Longrightarrow> session_step library s e = Inr s' \<Longrightarrow>
         ui_reachable library s'"

section \<open>The overlay flags under each handler\<close>

lemma handleUpdateValue_flags:
  "handleUpdateValue i d s = Inr s' \<Longrightarrow>
   showSummary s' = showSummary s \<and> showRestTimer s' = showRestTimer s"
  by (auto simp: handleUpdateValue_def split: if_splits)

lemma handleAddSet_flags [simp]:
  "showSummary (handleAddSet s) = showSummary s" "showRestTimer (handleAddSet s) = showRestTimer s"
  by (simp_all add: handleAddSet_def Let_def split: prod.splits)

lemma handleRemoveSet_flags [simp]:
  "showSummary (handleRemoveSet s) = showSummary s" "showRestTimer (handleRemoveSet s) = showRestTimer s"
  by (simp_all add: handleRemoveSet_def)

lemma handlePrevExercise_flags:
  assumes "session_inv s" "handlePrevExercise library s = Inr s'"
  shows "showSummary s' = showSummary s \<and> showRestTimer s' = showRestTimer s"
proof -
  have idx: "exerciseIndex s < length (r_exercises (routine s))"
    using assms(1) by (simp add: session_inv_def)
  obtain s1 where save: "saveCurrentExerciseData library s = Inr s1"
    using saveCurrentExerciseData_eq [OF idx] by blast
  note fr = saveCurrentExerciseData_frame [OF assms(1) save]
  show ?thesis
  proof (cases "0 < exerciseIndex s")
    case True
    then have "s' = loadSets (s1\<lparr>exerciseIndex := exerciseIndex s - 1\<rparr>)"
      using assms(2) handlePrevExercise_eq [OF assms(1) True save] by simp
    with fr show ?thesis by simp
  next
    case False
    then show ?thesis using assms(2) save fr by (simp add: handlePrevExercise_def)
  qed
qed

lemma handleNextExercise_flags:
  assumes "session_inv s" "handleNextExercise library s = Inr s'"
  shows "showRestTimer s' = showRestTimer s \<and> (showSummary s' = showSummary s \<or> showSummary s')"
  using assms(2) handleNextExercise_eq [OF assms(1), of library]
  by (auto simp: Let_def split: if_splits)

lemma handleToggleSet_flags:
  assumes "session_inv s" "i < length (currentSets s)" "handleToggleSet i s = Inr s'"
  shows "showSummary s' = showSummary s \<and> (showRestTimer s' = showRestTimer s \<or> showRestTimer s')"
  using assms(3) handleToggleSet_eq [OF assms(1,2)]
  by (auto simp: Let_def split: if_splits)

section \<open>Refinement of the phase machine\<close>

lemma enabled_step_phase:
  assumes inv: "session_inv s" and ex: "\<not> (showSummary s \<and> showRestTimer s)"
    and en: "ui_enabled s e" and st: "session_step library s e = Inr s'"
  shows "spec_step (phase_of s) e (phase_of s') \<and> \<not> (showSummary s' \<and> showRestTimer s')"
proof (cases e)
  case (ToggleSet i)
  with en have "\<not> showSummary s" "\<not> showRestTimer s" "i < length (currentSets s)"
    by (simp_all add: ui_enabled_def)
  with ToggleSet st handleToggleSet_flags [OF inv, of i s'] show ?thesis
    by (auto simp: phase_of_def)
next
  case (UpdateValue i d)
  with en st handleUpdateValue_flags [of i d s s'] show ?thesis
    by (simp add: ui_enabled_def phase_of_def Let_def)
next
  case NextExercise
  with en have "\<not> showSummary s" "\<not> showRestTimer s" by (simp_all add: ui_enabled_def)
  with NextExercise st handleNextExercise_flags [OF inv, of library s'] show ?thesis
    by (auto simp: phase_of_def)
next
  case PrevExercise
  with en st handlePrevExercise_flags [OF inv, of library s'] show ?thesis
    by (simp add: ui_enabled_def phase_of_def)
qed (use en st ex in \<open>auto simp: ui_enabled_def phase_of_def restTick_def addRestTime_def
       skipRest_def openSummary_def cancelSummary_def\<close>)

lemma ui_reachable_inv:
  "ui_reachable library s \<Longrightarrow> session_inv s \<and> \<not> (showSummary s \<and> showRestTimer s)"
proof (induction rule: ui_reachable.induct)
  case (start r now s)
  then have "r_exercises r \<noteq> []" by (simp add: wf_routine_def)
  with start(2) have "s = loadSets (initialSession r now)" by (simp add: sessionStart_eq)
  then show ?case
    using sessionStart_inv [OF start(1), of now] by (simp add: initialSession_def)
next
  case (step s e s')
  then show ?case using session_step_inv enabled_step_phase by blast
qed

text \<open>
  C30. The page refines the design's phase machine: in every state reached through the
  offered buttons, every offered button that is handled moves the page's phase along a
  transition of the design labelled with that operation.
\<close>

theorem phase_refinement:
  assumes "ui_reachable library s" "ui_enabled s e" "session_step library s e = Inr s'"
  shows "spec_step (phase_of s) e (phase_of s')"
  using ui_reachable_inv [OF assms(1)] enabled_step_phase assms(2,3) by blast

theorem phase_refinement_witness:
  "ui_reachable EXERCISE_LIBRARY pm1_session \<and> ui_enabled pm1_session (ToggleSet 0) \<and>
   (\<exists>s'. session_step EXERCISE_LIBRARY pm1_session (ToggleSet 0) = Inr s' \<and>
      spec_step InProgress (ToggleSet 0) (phase_of s'))"
proof -
  have r: "ui_reachable EXERCISE_LIBRARY pm1_session"
    unfolding pm1_session_def
    by (rule ui_reachable.start [where r = "PREMADE_ROUTINES 0 ! 0" and now = 0])
       (simp_all add: wf_routine_def PREMADE_ROUTINES_def sessionStart_def render_def initialSession_def)
  have en: "ui_enabled pm1_session (ToggleSet 0)" by (simp add: pm1_session_eq ui_enabled_def)
  have i: "0 < length (currentSets pm1_session)" by (simp add: pm1_session_eq)
  obtain s' where st: "session_step EXERCISE_LIBRARY pm1_session (ToggleSet 0) = Inr s'"
    using handleToggleSet_eq [OF pm1_session_inv i] by (simp add: Let_def)
  have ph: "phase_of pm1_session = InProgress" by (simp add: pm1_session_eq phase_of_def)
  show ?thesis using phase_refinement [OF r en st] ph r en st by auto
qed

end
