(* ===== verification/SessionNumbering.thy ===== *)
theory SessionNumbering
  imports SessionInv
begin

text \<open>
  The data model says a set's \<open>setNumber\<close> is its 1-based position in its list. The
  SessionPage keeps this without checking it: the planned sets are numbered on creation,
  an added set gets \<open>length + 1\<close>, removal drops the last one, and the in-place writes
  touch only \<open>completed\<close> and \<open>repsOrDuration\<close>. This theory states the numbering of
  the working list and of every committed log as an invariant of the store and proves it
  for every reachable state, alongside \<^term>\<open>session_inv\<close>.
\<close>

definition numbered :: "set_heap \<Rightarrow> ref list \<Rightarrow> bool" where
  "numbered h rs \<longleftrightarrow> (\<forall>i < length rs. setNumber (h ! (rs ! i)) = Suc i)"

definition numbering_inv :: "session \<Rightarrow> bool" where
  "numbering_inv s \<longleftrightarrow> numbered (heap s) (currentSets s) \<and>
     (\<forall>l \<in> set (workoutData s). sets l \<noteq> [] \<and> numbered (heap s) (sets l))"

section \<open>Numbering under the store operations\<close>

lemma present_nth: "present h rs \<Longrightarrow> i < length rs \<Longrightarrow> rs ! i < length h"
  by (simp add: present_def)

lemma numbered_modify:
  assumes "\<forall>x. setNumber (f x) = setNumber x" "present h rs"
  shows "numbered (modify r f h) rs = numbered h rs"
proof -
  have "setNumber (modify r f h ! q) = setNumber (h ! q)" if "q < length h" for q
    using that assms(1) by (cases "q = r") (simp_all add: modify_nth_same modify_nth_other)
  with assms(2) show ?thesis by (simp add: numbered_def present_nth)
qed

lemma numbered_append: "present h rs \<Longrightarrow> numbered (h @ vs) rs = numbered h rs"
  by (simp add: numbered_def present_nth nth_append)

lemma numbered_fresh:
  "numbered (h @ vs) [length h ..< length h + length vs] \<longleftrightarrow>
   (\<forall>i < length vs. setNumber (vs ! i) = Suc i)"
  by (simp add: numbered_def nth_append)

lemma numbered_butlast: "numbered h rs \<Longrightarrow> numbered h (butlast rs)"
  by (simp add: numbered_def nth_butlast)

lemma numbered_snoc:
  "numbered h rs \<Longrightarrow> setNumber (h ! r) = Suc (length rs) \<Longrightarrow> numbered h (rs @ [r])"
  by (auto simp: numbered_def nth_append less_Suc_eq)

section \<open>Numbering under the session's operations\<close>

lemma numbering_heap_write:
  assumes "numbering_inv s" "session_inv s" "\<forall>x. setNumber (f x) = setNumber x"
  shows "numbering_inv (s\<lparr>heap := modify r f (heap s)\<rparr>)"
  using assms by (simp add: numbering_inv_def session_inv_def numbered_modify)

lemma numbering_loadSets:
  assumes "numbering_inv s" "exerciseIndex s < length (r_exercises (routine s))"
    "\<forall>l \<in> set (workoutData s). present (heap s) (sets l)"
  shows "numbering_inv (loadSets s)"
proof -
  let ?vs = "initialSets (r_exercises (routine s) ! exerciseIndex s)"
  have "numbered (heap s @ ?vs)
      [length (heap s) ..< length (heap s) + re_sets (r_exercises (routine s) ! exerciseIndex s)]"
    using numbered_fresh [of "heap s" ?vs] by simp
  then show ?thesis
    using assms by (simp add: loadSets_eq numbering_inv_def numbered_append)
qed

lemma numbering_commit:
  assumes "numbering_inv s" "currentSets s \<noteq> []"
    "set wd \<subseteq> insert (currentExerciseLog library s) (set (workoutData s))"
  shows "numbering_inv (s\<lparr>workoutData := wd\<rparr>)"
  using assms by (auto simp: numbering_inv_def)

lemma commit_logs_subset:
  "set (if i < length wd then wd[i := x] else wd @ [x]) \<subseteq> insert x (set wd)"
  by (auto dest: set_update_subset_insert [THEN subsetD])

lemma numbering_save:
  assumes "session_inv s" "numbering_inv s" "saveCurrentExerciseData library s = Inr s1"
  shows "numbering_inv s1"
proof -
  have idx: "exerciseIndex s < length (r_exercises (routine s))" and ne: "currentSets s \<noteq> []"
    using assms(1) by (simp_all add: session_inv_def)
  have "s1 = s\<lparr>workoutData := (if exerciseIndex s < length (workoutData s)
           then (workoutData s)[exerciseIndex s := currentExerciseLog library s]
           else workoutData s @ [currentExerciseLog library s])\<rparr>"
    using assms(3) saveCurrentExerciseData_eq [OF idx] by simp
  then show ?thesis using numbering_commit [OF assms(2) ne commit_logs_subset] by simp
qed

lemma numbering_move:
  assumes "session_inv s1" "numbering_inv s1" "k < length (r_exercises (routine s1))"
  shows "numbering_inv (loadSets (s1\<lparr>exerciseIndex := k\<rparr>))"
  using assms by (intro numbering_loadSets) (simp_all add: numbering_inv_def session_inv_def)

lemma numbering_next:
  assumes "session_inv s" "numbering_inv s" "handleNextExercise library s = Inr s'"
  shows "numbering_inv s'"
proof -
  obtain s1 where save: "saveCurrentExerciseData library s = Inr s1"
    using assms(3) by (cases "saveCurrentExerciseData library s") (auto simp: handleNextExercise_def)
  note s1 = saveCurrentExerciseData_inv [OF assms(1) save]
  have n1: "numbering_inv s1" by (rule numbering_save [OF assms(1,2) save])
  have same: "routine s1 = routine s" by (subst s1(3); simp)
  show ?thesis
  proof (cases "Suc (exerciseIndex s) < length (r_exercises (routine s))")
    case True
    then have "s' = loadSets (s1\<lparr>exerciseIndex := Suc (exerciseIndex s)\<rparr>)"
      using assms(3) save setExerciseIndex_eq [of "Suc (exerciseIndex s)" s1] same
      by (simp add: handleNextExercise_def)
    with True s1(1) n1 same show ?thesis by (simp add: numbering_move)
  next
    case False
    then have "s' = s1\<lparr>showSummary := True\<rparr>"
      using assms(3) save by (simp add: handleNextExercise_def)
    with n1 show ?thesis by (simp add: numbering_inv_def)
  qed
qed

lemma numbering_prev:
  assumes "session_inv s" "numbering_inv s" "handlePrevExercise library s = Inr s'"
  shows "numbering_inv s'"
proof -
  obtain s1 where save: "saveCurrentExerciseData library s = Inr s1"
    using assms(3) by (cases "saveCurrentExerciseData library s") (auto simp: handlePrevExercise_def)
  note s1 = saveCurrentExerciseData_inv [OF assms(1) save]
  have n1: "numbering_inv s1" by (rule numbering_save [OF assms(1,2) save])
  have same: "routine s1 = routine s" by (subst s1(3); simp)
  have idx: "exerciseIndex s < length (r_exercises (routine s))"
    using assms(1) by (simp add: session_inv_def)
  show ?thesis
  proof (cases "0 < exerciseIndex s")
    case True
    then have "s' = loadSets (s1\<lparr>exerciseIndex := exerciseIndex s - 1\<rparr>)"
      using assms(3) save setExerciseIndex_eq [of "exerciseIndex s - 1" s1] same idx
      by (simp add: handlePrevExercise_def)
    with idx s1(1) n1 same show ?thesis by (simp add: numbering_move)
  next
    case False
    with assms(3) save n1 show ?thesis by (simp add: handlePrevExercise_def)
  qed
qed

lemma numbering_step:
  assumes "session_inv s" "numbering_inv s" "session_step library s e = Inr s'"
  shows "numbering_inv s'"
proof (cases e)
  case (ToggleSet i)
  with assms show ?thesis
    by (auto simp: handleToggleSet_def Let_def numbering_inv_def session_inv_def numbered_modify
             split: if_splits)
next
  case (UpdateValue i d)
  with assms show ?thesis
    by (auto simp: handleUpdateValue_def numbering_inv_def session_inv_def numbered_modify
             split: if_splits)
next
  case AddSet
  have ne: "currentSets s \<noteq> []" and pr: "present (heap s) (currentSets s)"
    and lp: "\<forall>l \<in> set (workoutData s). present (heap s) (sets l)"
    using assms(1) by (simp_all add: session_inv_def)
  have "numbered (heap s @ [v]) (currentSets s @ [length (heap s)])"
    if "setNumber v = Suc (length (currentSets s))" for v
    using assms(2) pr that by (intro numbered_snoc) (simp_all add: numbering_inv_def numbered_append)
  with AddSet assms(2,3) ne pr lp show ?thesis
    by (auto simp: handleAddSet_eq numbering_inv_def numbered_append)
next
  case RemoveSet
  with assms show ?thesis
    by (auto simp: handleRemoveSet_def numbering_inv_def numbered_butlast split: if_splits)
next
  case NextExercise
  with assms show ?thesis by (simp add: numbering_next)
next
  case PrevExercise
  with assms show ?thesis by (simp add: numbering_prev)
qed (use assms in \<open>auto simp: numbering_inv_def restTick_def addRestTime_def skipRest_def
       openSummary_def cancelSummary_def split: if_splits\<close>)

lemma reachable_numbering: "reachable library s \<Longrightarrow> session_inv s \<and> numbering_inv s"
proof (induction rule: reachable.induct)
  case (start r now s)
  then have ne: "r_exercises r \<noteq> []" by (simp add: wf_routine_def)
  with start(2) have s: "s = loadSets (initialSession r now)" by (simp add: sessionStart_eq)
  have "numbering_inv (loadSets (initialSession r now))"
    using ne by (intro numbering_loadSets) (simp_all add: initialSession_def numbering_inv_def numbered_def)
  then show ?case using s sessionStart_inv [OF start(1)] by simp
next
  case (step s e s')
  then show ?case using session_step_inv numbering_step by blast
qed

end
