(* ===== verification/SessionFinish.thy ===== *)
theory SessionFinish
  imports SessionPhase SessionNumbering
begin

text \<open>
  Finishing a session against the design. The design's \<open>finish()\<close> reads the committed
  map, first adding the current exercise's log when the current position has no entry,
  and lists the entries by ascending index. \<open>spec_finish_exercises\<close> is that
  definition over the map \<^term>\<open>committed\<close>; the code keeps a list and appends. This
  theory proves the two agree, that the produced log conforms to the data model's
  invariants, and that the page can always reach the point where a log is produced.
\<close>

section \<open>The design's finish\<close>

definition finishCommitted ::
  "exercise list \<Rightarrow> session \<Rightarrow> nat \<Rightarrow> workout_set_result workout_exercise_log option" where
  "finishCommitted library s =
     (if committed s (exerciseIndex s) = None
      then (committed s)(exerciseIndex s \<mapsto> deref_log (heap s) (currentExerciseLog library s))
      else committed s)"

definition spec_finish_exercises ::
  "exercise list \<Rightarrow> session \<Rightarrow> workout_set_result workout_exercise_log list" where
  "spec_finish_exercises library s =
     List.map_filter (finishCommitted library s) [0 ..< length (r_exercises (routine s))]"

text \<open>
  What the data model requires of a saved log (types.ts and the design's section 3): it
  belongs to the routine, has at least one exercise, its exercises are the routine's in
  order from the first, every exercise has at least one set, numbered from 1 by position,
  with non-negative performed values, and the duration is the span of its two instants.
\<close>

definition log_conforms :: "routine \<Rightarrow> workout_log \<Rightarrow> bool" where
  "log_conforms r wl \<longleftrightarrow> routineId wl = r_id r \<and> routineName wl = r_name r \<and> exercises wl \<noteq> [] \<and>
     map exerciseId (exercises wl) = take (length (exercises wl)) (map re_exerciseId (r_exercises r)) \<and>
     (\<forall>l \<in> set (exercises wl). sets l \<noteq> [] \<and> map setNumber (sets l) = [1 ..< Suc (length (sets l))] \<and>
        (\<forall>v \<in> set (sets l). 0 \<le> repsOrDuration v)) \<and>
     totalDurationSeconds wl = of_int (endTime wl - startTime wl) / 1000"

text \<open>
  A run of the page through buttons it offers: each event must be offered in the state it
  is pressed in, and handled; \<open>None\<close> otherwise.
\<close>

fun ui_run :: "exercise list \<Rightarrow> session \<Rightarrow> event list \<Rightarrow> session option" where
  "ui_run library s [] = Some s"
| "ui_run library s (e # es) =
     (if ui_enabled s e
      then (case session_step library s e of Inl _ \<Rightarrow> None | Inr s' \<Rightarrow> ui_run library s' es)
      else None)"

section \<open>Lemmas\<close>

lemma ids_prefix:
  "length xs \<le> length rs \<Longrightarrow> \<forall>j < length xs. exerciseId (xs ! j) = re_exerciseId (rs ! j) \<Longrightarrow>
   map exerciseId xs = take (length xs) (map re_exerciseId rs)"
  by (rule nth_equalityI) auto

lemma numbered_deref: "numbered h rs \<Longrightarrow> map setNumber (deref h rs) = [1 ..< Suc (length rs)]"
  by (rule nth_equalityI) (simp_all add: numbered_def del: upt_Suc)

lemma deref_Nil_iff [simp]: "deref h rs = [] \<longleftrightarrow> rs = []"
  by (simp add: deref_def)

lemma nonneg_deref:
  "nonneg_heap h \<Longrightarrow> present h rs \<Longrightarrow> v \<in> set (deref h rs) \<Longrightarrow> 0 \<le> repsOrDuration v"
  by (auto simp: deref_def present_def nonneg_heap_nth)

lemma finish_data_facts:
  fixes library :: "exercise list"
  assumes "session_inv s" "numbering_inv s"
  defines "fd \<equiv> (if exerciseIndex s < length (workoutData s) then workoutData s
                  else workoutData s @ [currentExerciseLog library s])"
  shows "fd \<noteq> []" "length fd \<le> length (r_exercises (routine s))"
    "\<forall>j < length fd. exerciseId (fd ! j) = re_exerciseId (r_exercises (routine s) ! j)"
    "\<forall>l \<in> set fd. sets l \<noteq> [] \<and> numbered (heap s) (sets l) \<and> present (heap s) (sets l)"
proof -
  have idx: "exerciseIndex s < length (r_exercises (routine s))"
    and le: "exerciseIndex s \<le> length (workoutData s)"
    and lm: "logs_match (routine s) (workoutData s)"
    and cs: "currentSets s \<noteq> []" "present (heap s) (currentSets s)"
    and lp: "\<forall>l \<in> set (workoutData s). present (heap s) (sets l)"
    using assms(1) by (simp_all add: session_inv_def)
  have num: "numbered (heap s) (currentSets s)"
    "\<forall>l \<in> set (workoutData s). sets l \<noteq> [] \<and> numbered (heap s) (sets l)"
    using assms(2) by (simp_all add: numbering_inv_def)
  show "fd \<noteq> []" using le by (auto simp: fd_def)
  show "length fd \<le> length (r_exercises (routine s))"
    using lm idx le by (auto simp: fd_def logs_match_def)
  show "\<forall>j < length fd. exerciseId (fd ! j) = re_exerciseId (r_exercises (routine s) ! j)"
    using lm le by (auto simp: fd_def logs_match_def nth_append less_Suc_eq)
  show "\<forall>l \<in> set fd. sets l \<noteq> [] \<and> numbered (heap s) (sets l) \<and> present (heap s) (sets l)"
    using num lp cs by (auto simp: fd_def)
qed

section \<open>Lemmas on the design's finish\<close>

lemma map_filter_upt_min:
  assumes "\<forall>j < n. f j = (if j < k then Some (g j) else None)"
  shows "List.map_filter f [0 ..< n] = map g [0 ..< min k n]"
  using assms by (induction n) (auto simp: map_filter_def min_def le_Suc_eq)

lemma map_filter_upt_prefix:
  "k \<le> n \<Longrightarrow> \<forall>j < n. f j = (if j < k then Some (g j) else None) \<Longrightarrow>
   List.map_filter f [0 ..< n] = map g [0 ..< k]"
  using map_filter_upt_min [of n f k g] by (simp add: min_def)

lemma map_nth_upt: "map (\<lambda>j. f (xs ! j)) [0 ..< length xs] = map f xs"
  by (rule nth_equalityI) simp_all

lemma spec_finish_exercises_eq:
  assumes "session_inv s"
  shows "spec_finish_exercises library s =
    map (deref_log (heap s))
      (if exerciseIndex s < length (workoutData s) then workoutData s
       else workoutData s @ [currentExerciseLog library s])"
proof -
  let ?i = "exerciseIndex s" and ?wd = "workoutData s" and ?n = "length (r_exercises (routine s))"
  have idx: "?i < ?n" and le: "?i \<le> length ?wd" and ln: "length ?wd \<le> ?n"
    using assms by (simp_all add: session_inv_def logs_match_def)
  show ?thesis
  proof (cases "?i < length ?wd")
    case True
    then have "finishCommitted library s = committed s"
      by (simp add: finishCommitted_def committed_def)
    then have "spec_finish_exercises library s = map (\<lambda>j. deref_log (heap s) (?wd ! j)) [0 ..< length ?wd]"
      unfolding spec_finish_exercises_def using ln
      by (intro map_filter_upt_prefix) (simp_all add: committed_def)
    with True show ?thesis by (simp add: map_nth_upt)
  next
    case False
    with le have i: "?i = length ?wd" by simp
    let ?xs = "?wd @ [currentExerciseLog library s]"
    have "\<forall>j < ?n. finishCommitted library s j =
            (if j < length ?xs then Some (deref_log (heap s) (?xs ! j)) else None)"
      using i by (auto simp: finishCommitted_def committed_def nth_append)
    moreover have "length ?xs \<le> ?n" using i idx by simp
    ultimately have "spec_finish_exercises library s = map (\<lambda>j. deref_log (heap s) (?xs ! j)) [0 ..< length ?xs]"
      unfolding spec_finish_exercises_def by (intro map_filter_upt_prefix)
    with False show ?thesis by (simp only: map_nth_upt if_False)
  qed
qed

section \<open>Properties\<close>

text \<open>
  C34. In every invariant state, finishing produces a log, and its exercise logs are
  exactly the design's: the committed map, completed with the current exercise when its
  position has no entry, read by ascending index.
\<close>

theorem finish_matches_spec:
  assumes "session_inv s"
  shows "\<exists>wl. handleFinishWorkout library now s = Inr wl \<and> exercises wl = spec_finish_exercises library s"
proof -
  have "exerciseIndex s < length (r_exercises (routine s))"
    using assms by (simp add: session_inv_def)
  then show ?thesis
    using handleFinishWorkout_eq [of s library now] spec_finish_exercises_eq [OF assms] by simp
qed

theorem finish_matches_spec_witness:
  "session_inv pm1_session \<and>
   (\<exists>wl. handleFinishWorkout EXERCISE_LIBRARY 1000 pm1_session = Inr wl \<and>
      exercises wl = spec_finish_exercises EXERCISE_LIBRARY pm1_session \<and> length (exercises wl) = 1)"
proof -
  obtain wl where f: "handleFinishWorkout EXERCISE_LIBRARY 1000 pm1_session = Inr wl"
    and e: "exercises wl = spec_finish_exercises EXERCISE_LIBRARY pm1_session"
    using finish_matches_spec [OF pm1_session_inv] by blast
  have "length (spec_finish_exercises EXERCISE_LIBRARY pm1_session) = 1"
    using spec_finish_exercises_eq [OF pm1_session_inv] by (simp add: pm1_session_eq)
  then show ?thesis using pm1_session_inv f e by auto
qed

text \<open>
  C35. Every log the page can save conforms to the data model: in every reachable state
  finishing yields a log whose exercises are a non-empty prefix of the routine's, each
  with at least one set, the sets numbered 1, 2, ... by position and with non-negative
  performed values, and whose duration is the span of its instants.
\<close>

theorem finish_log_conforms:
  assumes "reachable library s"
  shows "\<exists>wl. handleFinishWorkout library now s = Inr wl \<and> log_conforms (routine s) wl"
proof -
  have inv: "session_inv s" and num: "numbering_inv s"
    using reachable_numbering [OF assms] by simp_all
  let ?fd = "if exerciseIndex s < length (workoutData s) then workoutData s
             else workoutData s @ [currentExerciseLog library s]"
  have idx: "exerciseIndex s < length (r_exercises (routine s))" and nh: "nonneg_heap (heap s)"
    using inv by (simp_all add: session_inv_def)
  note fd = finish_data_facts [OF inv num, of library]
  have ids: "map exerciseId ?fd = take (length ?fd) (map re_exerciseId (r_exercises (routine s)))"
    using fd(2,3) by (rule ids_prefix)
  have sets_ok: "\<forall>l \<in> set (map (deref_log (heap s)) ?fd). sets l \<noteq> [] \<and>
      map setNumber (sets l) = [1 ..< Suc (length (sets l))] \<and> (\<forall>v \<in> set (sets l). 0 \<le> repsOrDuration v)"
  proof
    fix l assume "l \<in> set (map (deref_log (heap s)) ?fd)"
    then obtain l0 where l0: "l0 \<in> set ?fd" "l = deref_log (heap s) l0" by auto
    with fd(4) have "sets l0 \<noteq> []" "numbered (heap s) (sets l0)" and pr: "present (heap s) (sets l0)"
      by auto
    with l0(2) nonneg_deref [OF nh pr] show "sets l \<noteq> [] \<and>
      map setNumber (sets l) = [1 ..< Suc (length (sets l))] \<and> (\<forall>v \<in> set (sets l). 0 \<le> repsOrDuration v)"
      by (simp add: numbered_deref)
  qed
  show ?thesis
    using handleFinishWorkout_eq [OF idx, of library now] fd(1) ids sets_ok
    by (simp add: log_conforms_def comp_def)
qed

theorem finish_log_conforms_witness:
  "reachable EXERCISE_LIBRARY pm1_session \<and>
   (\<exists>wl. handleFinishWorkout EXERCISE_LIBRARY 1000 pm1_session = Inr wl \<and>
      log_conforms (routine pm1_session) wl)"
proof -
  have r: "reachable EXERCISE_LIBRARY pm1_session"
    unfolding pm1_session_def
    by (rule reachable.start [where r = "PREMADE_ROUTINES 0 ! 0" and now = 0])
       (simp_all add: wf_routine_def PREMADE_ROUTINES_def sessionStart_def render_def initialSession_def)
  show ?thesis using r finish_log_conforms [OF r, of 1000] by blast
qed

text \<open>
  C36. The user can always finish: from every state reached through offered buttons,
  at most two offered buttons (Skip on the rest overlay, then the header's Finish) open
  the summary, and there finishing produces a log.
\<close>

theorem can_always_finish:
  assumes "ui_reachable library s"
  shows "\<exists>es s'. length es \<le> 2 \<and> ui_run library s es = Some s' \<and> showSummary s' \<and>
           (\<exists>wl. handleFinishWorkout library now s' = Inr wl)"
proof -
  have inv: "session_inv s" and ex: "\<not> (showSummary s \<and> showRestTimer s)"
    using ui_reachable_inv [OF assms] by simp_all
  have fin: "\<exists>wl. handleFinishWorkout library now s' = Inr wl"
    if "session_inv s'" for s'
  proof -
    have "exerciseIndex s' < length (r_exercises (routine s'))"
      using that by (simp add: session_inv_def)
    then show ?thesis using handleFinishWorkout_eq by blast
  qed
  consider (rev) "showSummary s" | (rest) "\<not> showSummary s" "showRestTimer s"
    | (prog) "\<not> showSummary s" "\<not> showRestTimer s" by blast
  then show ?thesis
  proof cases
    case rev
    then show ?thesis using fin [OF inv] by (intro exI [of _ "[]"]) simp
  next
    case rest
    let ?s' = "openSummary (skipRest s)"
    have "ui_run library s [SkipRest, OpenSummary] = Some ?s'"
      using rest by (simp add: ui_enabled_def skipRest_def openSummary_def)
    moreover have "session_inv ?s'" using timer_summary_inv [OF timer_summary_inv(3) [OF inv]] by simp
    ultimately show ?thesis using fin by (intro exI [of _ "[SkipRest, OpenSummary]"]) (simp add: openSummary_def)
  next
    case prog
    have "ui_run library s [OpenSummary] = Some (openSummary s)"
      using prog by (simp add: ui_enabled_def)
    moreover have "session_inv (openSummary s)" using timer_summary_inv(4) [OF inv] .
    ultimately show ?thesis using fin by (intro exI [of _ "[OpenSummary]"]) (simp add: openSummary_def)
  qed
qed

theorem can_always_finish_witness:
  "ui_reachable EXERCISE_LIBRARY pm1_session \<and>
   (\<exists>es s'. length es \<le> 2 \<and> ui_run EXERCISE_LIBRARY pm1_session es = Some s' \<and> showSummary s' \<and>
      (\<exists>wl. handleFinishWorkout EXERCISE_LIBRARY 1000 s' = Inr wl))"
proof -
  have r: "ui_reachable EXERCISE_LIBRARY pm1_session"
    unfolding pm1_session_def
    by (rule ui_reachable.start [where r = "PREMADE_ROUTINES 0 ! 0" and now = 0])
       (simp_all add: wf_routine_def PREMADE_ROUTINES_def sessionStart_def render_def initialSession_def)
  show ?thesis using r can_always_finish [OF r, of 1000] by blast
qed

end
