(* ===== verification/Storage.thy ===== *)
theory Storage
  imports Catalog
begin

text \<open>
  The persistence gateway \<open>services/storageService.ts\<close>. \<open>localStorage\<close> holds three
  JSON blobs under the keys \<open>mobilify_routines\<close>, \<open>mobilify_logs\<close> and
  \<open>mobilify_stats\<close>; an absent key is \<open>None\<close>. Serialising and parsing back gives the
  same value for every record of the model (strings, finite numbers, booleans and
  \<open>null\<close> only), so a blob is kept as the value it encodes.

  \<open>getStats\<close> returns the module object \<open>INITIAL_STATS\<close> itself when nothing is
  stored, and \<open>saveLog\<close> mutates the object \<open>getStats\<close> returned. The module object
  is therefore part of the state (\<open>initialStatsObj\<close>, its current contents), and a
  stats value handed out is a reference: the shared module object or a private parsed
  copy.
\<close>

record local_storage =
  ls_routines :: "routine list option"
  ls_logs :: "workout_log list option"
  ls_stats :: "user_stats option"

record storage_state =
  ls :: local_storage
  initialStatsObj :: user_stats

datatype stats_ref = InitialStatsObj | StatsCopy user_stats

text \<open>The state when the app is first loaded on a device: nothing stored.\<close>

definition freshStorage :: storage_state where
  "freshStorage = \<lparr>ls = \<lparr>ls_routines = None, ls_logs = None, ls_stats = None\<rparr>,
                   initialStatsObj = INITIAL_STATS\<rparr>"

definition stats_val :: "storage_state \<Rightarrow> stats_ref \<Rightarrow> user_stats" where
  "stats_val st r = (case r of InitialStatsObj \<Rightarrow> initialStatsObj st | StatsCopy v \<Rightarrow> v)"

section \<open>Operations\<close>

text \<open>\<open>getRoutines\<close> and \<open>getLogs\<close> (lines 10--13 and 21--24): the parsed list, or empty.\<close>

definition getRoutines :: "storage_state \<Rightarrow> routine list" where
  "getRoutines st = (case ls_routines (ls st) of Some rs \<Rightarrow> rs | None \<Rightarrow> [])"

definition getLogs :: "storage_state \<Rightarrow> workout_log list" where
  "getLogs st = (case ls_logs (ls st) of Some ls' \<Rightarrow> ls' | None \<Rightarrow> [])"

text \<open>\<open>getStats\<close> (lines 45--48): a parsed copy, or the shared \<open>INITIAL_STATS\<close> object.\<close>

definition getStats :: "storage_state \<Rightarrow> stats_ref" where
  "getStats st = (case ls_stats (ls st) of Some v \<Rightarrow> StatsCopy v | None \<Rightarrow> InitialStatsObj)"

definition saveStats :: "user_stats \<Rightarrow> storage_state \<Rightarrow> storage_state" where
  "saveStats v st = st\<lparr>ls := (ls st)\<lparr>ls_stats := Some v\<rparr>\<rparr>"

text \<open>\<open>saveRoutine\<close> (lines 15--19): append to the stored list.\<close>

definition saveRoutine :: "routine \<Rightarrow> storage_state \<Rightarrow> storage_state" where
  "saveRoutine r st = st\<lparr>ls := (ls st)\<lparr>ls_routines := Some (getRoutines st @ [r])\<rparr>\<rparr>"

text \<open>
  The stats aggregator: the update \<open>saveLog\<close> makes to the stats object
  (lines 32--39). \<open>lastWorkoutDate\<close> is \<open>Date.now()\<close> when the log is saved, and the
  streak is incremented unconditionally.
\<close>

definition updateStatsForLog :: "workout_log \<Rightarrow> ms \<Rightarrow> user_stats \<Rightarrow> user_stats" where
  "updateStatsForLog wl now s =
     s\<lparr>totalWorkouts := totalWorkouts s + 1,
       totalMinutes := totalMinutes s + js_round (totalDurationSeconds wl / 60),
       lastWorkoutDate := Some now,
       streakDays := streakDays s + 1\<rparr>"

text \<open>
  \<open>saveLog\<close> (lines 26--43): append the log, then read the stats, mutate the object
  read (the module object itself when nothing was stored), and store it.
\<close>

definition saveLog :: "workout_log \<Rightarrow> ms \<Rightarrow> storage_state \<Rightarrow> storage_state" where
  "saveLog wl now st =
     (let st1 = st\<lparr>ls := (ls st)\<lparr>ls_logs := Some (getLogs st @ [wl])\<rparr>\<rparr>;
          h = getStats st1;
          v = updateStatsForLog wl now (stats_val st1 h);
          st2 = (case h of InitialStatsObj \<Rightarrow> st1\<lparr>initialStatsObj := v\<rparr> | StatsCopy _ \<Rightarrow> st1)
      in saveStats v st2)"

text \<open>The statistics a fresh \<open>getStats()\<close> call reads.\<close>

definition currentStats :: "storage_state \<Rightarrow> user_stats" where
  "currentStats st = stats_val st (getStats st)"

text \<open>\<open>seedDatabase\<close> (lines 54--56) has an empty body: it leaves the storage as it is.\<close>

definition seedDatabase :: "storage_state \<Rightarrow> storage_state" where
  "seedDatabase st = st"

section \<open>Lookups after updates\<close>

lemma getRoutines_saveRoutine [simp]: "getRoutines (saveRoutine r st) = getRoutines st @ [r]"
  by (simp add: getRoutines_def saveRoutine_def)

lemma getLogs_saveRoutine [simp]: "getLogs (saveRoutine r st) = getLogs st"
  by (simp add: getLogs_def saveRoutine_def)

lemma currentStats_saveRoutine [simp]: "currentStats (saveRoutine r st) = currentStats st"
  by (simp add: currentStats_def getStats_def stats_val_def saveRoutine_def split: option.splits)

lemma getLogs_saveLog [simp]: "getLogs (saveLog wl now st) = getLogs st @ [wl]"
  by (simp add: getLogs_def saveLog_def saveStats_def Let_def split: stats_ref.splits)

lemma getRoutines_saveLog [simp]: "getRoutines (saveLog wl now st) = getRoutines st"
  by (simp add: getRoutines_def saveLog_def saveStats_def Let_def split: stats_ref.splits)

lemma currentStats_saveLog [simp]:
  "currentStats (saveLog wl now st) = updateStatsForLog wl now (currentStats st)"
  by (simp add: currentStats_def saveLog_def saveStats_def getStats_def stats_val_def Let_def
           split: option.splits)

lemma currentStats_saveStats [simp]: "currentStats (saveStats v st) = v"
  by (simp add: currentStats_def saveStats_def getStats_def stats_val_def)

lemma ls_stats_saveLog: "ls_stats (ls (saveLog wl now st)) = Some (updateStatsForLog wl now (currentStats st))"
  by (simp add: currentStats_def saveLog_def saveStats_def getStats_def stats_val_def Let_def
           split: option.splits)

lemma initialStatsObj_saveLog:
  "initialStatsObj (saveLog wl now st) =
     (if ls_stats (ls st) = None then updateStatsForLog wl now (initialStatsObj st) else initialStatsObj st)"
  by (simp add: saveLog_def saveStats_def getStats_def stats_val_def Let_def split: option.splits)

lemma initialStatsObj_saveRoutine [simp]: "initialStatsObj (saveRoutine r st) = initialStatsObj st"
  by (simp add: saveRoutine_def)

lemma initialStatsObj_saveStats [simp]: "initialStatsObj (saveStats v st) = initialStatsObj st"
  by (simp add: saveStats_def)

lemma ls_stats_saveStats [simp]: "ls_stats (ls (saveStats v st)) = Some v"
  by (simp add: saveStats_def)

end
