(* ===== verification/Routines.thy ===== *)
theory Routines
  imports Storage
begin

text \<open>
  The routine builder (\<open>CreateRoutinePage\<close>, App.tsx lines 306--402) and the routine
  list of the training page (\<open>TrainingPage\<close>, lines 215--303). The builder's state is
  the routine name and the list of selected routine exercises; saving goes through the
  persistence gateway. The training page decides whether a routine may be started and
  whether the "create" tile is shown.
\<close>

section \<open>Routine builder\<close>

text \<open>
  \<open>handleAdd\<close> (lines 313--320): append a routine exercise with the exercise's default
  set count, its default duration (or 30) for a timed exercise and its default reps (or
  10) otherwise, and 30 seconds of rest.
\<close>

definition handleAdd :: "exercise \<Rightarrow> routine_exercise list \<Rightarrow> routine_exercise list" where
  "handleAdd ex prev =
     prev @ [\<lparr>re_exerciseId = e_id ex, re_sets = defaultSets ex,
              re_repsOrDuration = (if e_type ex = Time then js_or_num (defaultDurationSeconds ex) 30
                                   else js_or_num (defaultReps ex) 10),
              restSeconds = 30\<rparr>]"

text \<open>
  The selection after pressing the add button of the exercises \<open>picks\<close> in order
  (line 390, each press a \<open>setSelectedExercises(prev => \<dots>)\<close> update).
\<close>

definition selectExercises :: "exercise list \<Rightarrow> routine_exercise list" where
  "selectExercises picks = fold handleAdd picks []"

text \<open>
  \<open>handleSave\<close> (lines 322--333): nothing happens when the name or the selection is
  empty; otherwise a routine with id \<open>Date.now().toString()\<close> is appended. The two
  \<open>Date.now()\<close> calls are taken to read the same instant.
\<close>

definition newRoutine :: "string \<Rightarrow> routine_exercise list \<Rightarrow> ms \<Rightarrow> routine" where
  "newRoutine name selected now =
     \<lparr>r_id = js_toString now, r_name = name, r_exercises = selected, r_isPremium = False,
      createdAt = now\<rparr>"

definition handleSave :: "string \<Rightarrow> routine_exercise list \<Rightarrow> ms \<Rightarrow> storage_state \<Rightarrow> storage_state" where
  "handleSave name selected now st =
     (if name = [] \<or> selected = [] then st else saveRoutine (newRoutine name selected now) st)"

datatype library_filter = AllGroups | OnlyGroup muscle_group

text \<open>\<open>filteredLibrary\<close> (lines 335--337).\<close>

definition filteredLibrary :: "library_filter \<Rightarrow> exercise list \<Rightarrow> exercise list" where
  "filteredLibrary f library =
     (case f of AllGroups \<Rightarrow> library | OnlyGroup g \<Rightarrow> filter (\<lambda>e. muscleGroup e = g) library)"

section \<open>Training page\<close>

datatype start_result = PremiumAlert | StartSession routine

text \<open>\<open>handleStart\<close> (lines 225--231): a premium routine for a free user raises an alert.\<close>

definition handleStart :: "bool \<Rightarrow> routine \<Rightarrow> start_result" where
  "handleStart userIsPremium r =
     (if r_isPremium r \<and> \<not> userIsPremium then PremiumAlert else StartSession r)"

text \<open>
  The dashed "create new routine" tile (line 261) is shown below 3 saved routines for a
  free user and below 99 for a premium one. The header's "create" button (lines 238--243)
  is always shown.
\<close>

definition showCreateTile :: "bool \<Rightarrow> routine list \<Rightarrow> bool" where
  "showCreateTile userIsPremium routines = (length routines < (if userIsPremium then 99 else 3))"

section \<open>Lemmas\<close>

lemma handleSave_rejects:
  "name = [] \<or> selected = [] \<Longrightarrow> handleSave name selected now st = st"
  by (simp add: handleSave_def)

lemma handleSave_accepts:
  "name \<noteq> [] \<Longrightarrow> selected \<noteq> [] \<Longrightarrow>
   handleSave name selected now st = saveRoutine (newRoutine name selected now) st"
  by (simp add: handleSave_def)

lemma set_fold_handleAdd:
  "re \<in> set (fold handleAdd picks prev) \<Longrightarrow>
   re \<in> set prev \<or> (\<exists>ex \<in> set picks. re = last (handleAdd ex []))"
proof (induction picks arbitrary: prev)
  case Nil
  then show ?case by simp
next
  case (Cons ex picks)
  from Cons.IH [OF Cons.prems [simplified]] show ?case
    by (auto simp: handleAdd_def)
qed

lemma selectExercises_nonempty: "picks \<noteq> [] \<Longrightarrow> selectExercises picks \<noteq> []"
proof -
  have "length (fold handleAdd picks prev) = length prev + length picks" for prev
    by (induction picks arbitrary: prev) (simp_all add: handleAdd_def)
  then show "picks \<noteq> [] \<Longrightarrow> selectExercises picks \<noteq> []"
    by (metis add_0 length_0_conv list.size(3) selectExercises_def)
qed

end
