(* ===== verification/AppModel.thy ===== *)
theory AppModel
  imports Session Routines
begin

text \<open>
  The app root (\<open>App\<close>, App.tsx lines 827--853) and the pages that read or write the
  statistics. The root keeps the statistics in React state: it starts as the
  \<open>INITIAL_STATS\<close> object and is replaced once, on mount, by \<open>Storage.getStats()\<close>.
  Nothing re-reads it after a workout is saved. The profile page's premium toggle copies
  that state, flips the flag, stores the copy and keeps it. The state here is the storage
  and the reference the root holds; a finished session's log goes through
  \<open>Storage.saveLog\<close>.
\<close>

record app_state =
  store :: storage_state
  appStats :: stats_ref

text \<open>Mount (lines 828--833): \<open>useState(INITIAL_STATS)\<close>, then \<open>setStats(Storage.getStats())\<close>.\<close>

definition appMount :: "storage_state \<Rightarrow> app_state" where
  "appMount st = \<lparr>store = st, appStats = getStats st\<rparr>"

text \<open>The statistics the pages display (the root's state, read through its reference).\<close>

definition shownStats :: "app_state \<Rightarrow> user_stats" where
  "shownStats a = stats_val (store a) (appStats a)"

text \<open>
  Finishing a workout (SessionPage \<open>handleFinishWorkout\<close>, lines 533--559): build the log,
  hand it to \<open>Storage.saveLog\<close> (whose \<open>Date.now()\<close> reads the same instant), and
  navigate home. The root's statistics state is not updated.
\<close>

definition finishWorkout :: "exercise list \<Rightarrow> ms \<Rightarrow> session \<Rightarrow> app_state \<Rightarrow> js_error + app_state" where
  "finishWorkout library now s a =
     (case handleFinishWorkout library now s of
        Inl e \<Rightarrow> Inl e
      | Inr wl \<Rightarrow> Inr (a\<lparr>store := saveLog wl now (store a)\<rparr>))"

text \<open>\<open>togglePremium\<close> (ProfilePage, lines 708--712).\<close>

definition togglePremium :: "app_state \<Rightarrow> app_state" where
  "togglePremium a =
     (let newStats = (shownStats a)\<lparr>isPremium := \<not> isPremium (shownStats a)\<rparr>
      in \<lparr>store = saveStats newStats (store a), appStats = StatsCopy newStats\<rparr>)"

text \<open>Saving a new routine from the builder does not touch the root's statistics.\<close>

definition saveNewRoutine :: "string \<Rightarrow> routine_exercise list \<Rightarrow> ms \<Rightarrow> app_state \<Rightarrow> app_state" where
  "saveNewRoutine name selected now a = a\<lparr>store := handleSave name selected now (store a)\<rparr>"

section \<open>Lemmas\<close>

lemma appMount_shown [simp]: "shownStats (appMount st) = currentStats st"
  by (simp add: appMount_def shownStats_def currentStats_def)

lemma finishWorkout_eq:
  "handleFinishWorkout library now s = Inr wl \<Longrightarrow>
   finishWorkout library now s a = Inr (a\<lparr>store := saveLog wl now (store a)\<rparr>)"
  by (simp add: finishWorkout_def)

lemma togglePremium_store [simp]:
  "currentStats (store (togglePremium a)) = (shownStats a)\<lparr>isPremium := \<not> isPremium (shownStats a)\<rparr>"
  "shownStats (togglePremium a) = (shownStats a)\<lparr>isPremium := \<not> isPremium (shownStats a)\<rparr>"
  by (simp_all add: togglePremium_def Let_def shownStats_def stats_val_def)

end
