(* ===== verification/TipProvider.thy ===== *)
theory TipProvider
  imports Prelude
begin

text \<open>
  The tip provider \<open>services/geminiService.ts\<close>. The module creates a client when
  \<open>process.env.API_KEY\<close> is a non-empty string and the constructor does not throw;
  each function then builds a prompt, awaits the text-generation call, and falls back to
  a static text when there is no client, when the call rejects, or (for
  \<open>getAITip\<close>) when the answer is blank. The generation service is a parameter: a
  function from the prompt to the outcome of the awaited call. A JavaScript string is
  a list of characters; the Portuguese texts are written with their Latin-1 code points.
\<close>

section \<open>JavaScript string operations\<close>

text \<open>
  \<open>String.prototype.trim\<close> removes white space and line terminators from both
  ends. Among the characters of code point below 256 these are tab, line feed, vertical
  tab, form feed, carriage return, space and no-break space.
\<close>

definition js_whitespace :: "char \<Rightarrow> bool" where
  "js_whitespace c \<longleftrightarrow> of_char c \<in> {9, 10, 11, 12, 13, 32, 160 :: nat}"

definition js_trim :: "string \<Rightarrow> string" where
  "js_trim s = rev (dropWhile js_whitespace (rev (dropWhile js_whitespace s)))"

text \<open>\<open>x || d\<close> for a string or \<open>undefined\<close>: the empty string is falsy.\<close>

definition js_or_str :: "string option \<Rightarrow> string \<Rightarrow> string" where
  "js_or_str x d = (case x of Some v \<Rightarrow> if v = [] then d else v | None \<Rightarrow> d)"

section \<open>The module\<close>

text \<open>
  The awaited \<open>genAI.models.generateContent\<close> call: it rejects (or throws), or it
  resolves to a response whose \<open>text\<close> may be \<open>undefined\<close>.
\<close>

datatype gen_outcome = GenRejects | GenResolves "string option"

text \<open>Module initialisation (lines 3--11): is \<open>genAI\<close> a client after loading?\<close>

definition genAIInit :: "string option \<Rightarrow> bool \<Rightarrow> bool" where
  "genAIInit apiKey ctorThrows =
     (case apiKey of None \<Rightarrow> False | Some k \<Rightarrow> k \<noteq> [] \<and> \<not> ctorThrows)"

definition tipNoClient :: "string \<Rightarrow> string" where
  "tipNoClient lang =
     (if lang = ''pt''
      then ''Mantenha a consist'' @ [CHR 0xEA] @ ''ncia! Pequenos esfor'' @ [CHR 0xE7] @ ''os di'' @
           [CHR 0xE1] @ ''rios se somam.''
      else ''Stay consistent! Small daily efforts compound over time.'')"

definition tipPrompt :: "string \<Rightarrow> string \<Rightarrow> string" where
  "tipPrompt context lang =
     (if lang = ''pt''
      then ''Forne'' @ [CHR 0xE7] @ ''a uma frase curta e motivadora sobre treinamento de mobilidade relacionado a: ''
           @ context @ ''. Mantenha abaixo de 20 palavras. Responda em Portugu'' @ [CHR 0xEA] @ ''s do Brasil.''
      else ''Provide a single, short, motivating sentence about mobility training related to: ''
           @ context @ ''. Keep it under 20 words.'')"

definition tipBlank :: "string \<Rightarrow> string" where
  "tipBlank lang =
     (if lang = ''pt'' then ''Movimento '' @ [CHR 0xE9] @ '' vida. Continue se mexendo!''
      else ''Motion is lotion. Keep moving!'')"

definition tipError :: "string \<Rightarrow> string" where
  "tipError lang =
     (if lang = ''pt'' then ''Mobilidade '' @ [CHR 0xE9] @ '' a chave para a longevidade.''
      else ''Mobility is the key to longevity.'')"

text \<open>\<open>getAITip\<close> (lines 13--34), the value its promise resolves to.\<close>

definition getAITip :: "bool \<Rightarrow> (string \<Rightarrow> gen_outcome) \<Rightarrow> string \<Rightarrow> string \<Rightarrow> string" where
  "getAITip genAI gen context lang =
     (if \<not> genAI then tipNoClient lang
      else (case gen (tipPrompt context lang) of
              GenRejects \<Rightarrow> tipError lang
            | GenResolves text \<Rightarrow> js_or_str (map_option js_trim text) (tipBlank lang)))"

definition adviceNoClient :: "string \<Rightarrow> string" where
  "adviceNoClient lang =
     (if lang = ''pt''
      then ''Concentre-se em movimentos controlados e respira'' @ [CHR 0xE7, CHR 0xE3] @ ''o profunda.''
      else ''Focus on controlled movements and deep breathing for maximum benefit.'')"

definition advicePrompt :: "string \<Rightarrow> string \<Rightarrow> string" where
  "advicePrompt exerciseName lang =
     (if lang = ''pt''
      then ''Explique por que '' @ [CHR 0x27] @ exerciseName @ [CHR 0x27] @ '' '' @ [CHR 0xE9] @ '' ben'' @
           [CHR 0xE9] @ ''fico para o corpo em 2 frases. Foque na biomec'' @ [CHR 0xE2] @
           ''nica. Responda em Portugu'' @ [CHR 0xEA] @ ''s.''
      else ''Explain why '' @ [CHR 0x27] @ exerciseName @ [CHR 0x27] @
           '' is beneficial for the body in 2 sentences. Focus on biomechanics.'')"

definition adviceError :: "string \<Rightarrow> string" where
  "adviceError lang =
     (if lang = ''pt'' then ''Foque na forma e n'' @ [CHR 0xE3] @ ''o na intensidade.''
      else ''Focus on form over intensity.'')"

text \<open>\<open>getDetailedExerciseAdvice\<close> (lines 36--56): a blank answer gives \<open>""\<close>.\<close>

definition getDetailedExerciseAdvice :: "bool \<Rightarrow> (string \<Rightarrow> gen_outcome) \<Rightarrow> string \<Rightarrow> string \<Rightarrow> string" where
  "getDetailedExerciseAdvice genAI gen exerciseName lang =
     (if \<not> genAI then adviceNoClient lang
      else (case gen (advicePrompt exerciseName lang) of
              GenRejects \<Rightarrow> adviceError lang
            | GenResolves text \<Rightarrow> js_or_str (map_option js_trim text) ''''))"

section \<open>Lemmas on trimming\<close>

lemma dropWhile_hd_not:
  "dropWhile P xs \<noteq> [] \<Longrightarrow> \<not> P (hd (dropWhile P xs))"
  by (induction xs) auto

lemma js_trim_ends:
  assumes "js_trim s \<noteq> []"
  shows "\<not> js_whitespace (hd (js_trim s)) \<and> \<not> js_whitespace (last (js_trim s))"
proof -
  let ?a = "dropWhile js_whitespace s"
  let ?b = "dropWhile js_whitespace (rev ?a)"
  have b: "?b \<noteq> []" using assms by (simp add: js_trim_def)
  have "\<not> js_whitespace (last (rev ?b))"
    using dropWhile_hd_not [OF b] b by (simp add: last_rev)
  moreover have "rev ?b \<noteq> []" using b by simp
  moreover have "?a \<noteq> []" using b by (cases ?a) auto
  then have "\<not> js_whitespace (hd ?a)" by (rule dropWhile_hd_not)
  moreover have "hd (rev ?b) = hd ?a"
  proof -
    obtain ys where "rev ?a = ys @ ?b" and "\<forall>y \<in> set ys. js_whitespace y"
      by (metis takeWhile_dropWhile_id set_takeWhileD)
    then have "?a = rev ?b @ rev ys" by (metis rev_append rev_rev_ident)
    then show ?thesis using \<open>rev ?b \<noteq> []\<close> by (metis hd_append2)
  qed
  ultimately show ?thesis by (simp add: js_trim_def)
qed

lemma static_texts_trimmed:
  "\<not> js_whitespace (hd (tipNoClient lang)) \<and> \<not> js_whitespace (last (tipNoClient lang))"
  "\<not> js_whitespace (hd (tipBlank lang)) \<and> \<not> js_whitespace (last (tipBlank lang))"
  "\<not> js_whitespace (hd (tipError lang)) \<and> \<not> js_whitespace (last (tipError lang))"
  "tipNoClient lang \<noteq> []" "tipBlank lang \<noteq> []" "tipError lang \<noteq> []"
  "adviceNoClient lang \<noteq> []" "adviceError lang \<noteq> []"
  by (simp_all add: tipNoClient_def tipBlank_def tipError_def adviceNoClient_def adviceError_def
      js_whitespace_def)

lemma getAITip_nonempty: "getAITip genAI gen context lang \<noteq> []"
  by (auto simp: getAITip_def js_or_str_def static_texts_trimmed split: gen_outcome.splits option.splits)

text \<open>A string with no white space at its ends is its own trim; so trimming is idempotent.\<close>

lemma js_trim_fixed:
  assumes "x \<noteq> []" "\<not> js_whitespace (hd x)" "\<not> js_whitespace (last x)"
  shows "js_trim x = x"
proof -
  have "dropWhile js_whitespace x = x" using assms(1,2) by (cases x) simp_all
  moreover have "dropWhile js_whitespace (rev x) = rev x"
    using assms(1,3) by (cases "rev x") (simp_all add: hd_rev [symmetric])
  ultimately show ?thesis by (simp add: js_trim_def)
qed

lemma js_trim_idem: "js_trim (js_trim s) = js_trim s"
proof (cases "js_trim s = []")
  case True
  have "js_trim [] = []" by (simp add: js_trim_def)
  with True show ?thesis by simp
next
  case False
  then show ?thesis using js_trim_ends [OF False] js_trim_fixed [of "js_trim s"] by simp
qed

section \<open>Properties\<close>

text \<open>
  C28. \<open>getAITip\<close> never fails its caller and never yields an empty tip: without a client
  it is the no-client text, when the call rejects the error text, when the answer is
  missing or blank the blank-answer text, and otherwise the answer trimmed. Either way
  the tip is non-empty and already trimmed.
\<close>

theorem getAITip_total:
  "getAITip genAI gen context lang =
     (if \<not> genAI then tipNoClient lang
      else case gen (tipPrompt context lang) of
             GenRejects \<Rightarrow> tipError lang
           | GenResolves None \<Rightarrow> tipBlank lang
           | GenResolves (Some t) \<Rightarrow> if js_trim t = [] then tipBlank lang else js_trim t) \<and>
   getAITip genAI gen context lang \<noteq> [] \<and>
   js_trim (getAITip genAI gen context lang) = getAITip genAI gen context lang"
proof -
  have eq: "getAITip genAI gen context lang =
     (if \<not> genAI then tipNoClient lang
      else case gen (tipPrompt context lang) of
             GenRejects \<Rightarrow> tipError lang
           | GenResolves None \<Rightarrow> tipBlank lang
           | GenResolves (Some t) \<Rightarrow> if js_trim t = [] then tipBlank lang else js_trim t)"
    by (simp add: getAITip_def js_or_str_def split: gen_outcome.splits option.splits)
  have tr: "js_trim (getAITip genAI gen context lang) = getAITip genAI gen context lang"
    unfolding eq
    by (auto simp: static_texts_trimmed js_trim_idem intro: js_trim_fixed split: gen_outcome.splits option.splits)
  have ne: "getAITip genAI gen context lang \<noteq> []" by (rule getAITip_nonempty)
  show ?thesis by (intro conjI) (fact eq, fact ne, fact tr)
qed

text \<open>
  C29. \<open>getDetailedExerciseAdvice\<close> yields the empty string exactly when there is a
  client and the answer's text is missing or blank: unlike \<open>getAITip\<close> it has no
  fallback for a blank answer.
\<close>

theorem advice_empty_iff_blank_answer:
  "getDetailedExerciseAdvice genAI gen name lang = [] \<longleftrightarrow>
   genAI \<and> (gen (advicePrompt name lang) = GenResolves None \<or>
     (\<exists>t. gen (advicePrompt name lang) = GenResolves (Some t) \<and> js_trim t = []))"
  by (cases "gen (advicePrompt name lang)")
     (auto simp: getDetailedExerciseAdvice_def js_or_str_def static_texts_trimmed split: option.splits)

theorem advice_empty_iff_blank_answer_witness:
  "getDetailedExerciseAdvice True (\<lambda>p. GenResolves (Some '' '')) ''Cat-Cow Stretch'' ''en'' = []"
  using advice_empty_iff_blank_answer [of True "\<lambda>p. GenResolves (Some '' '')" "''Cat-Cow Stretch''" "''en''"]
  by (simp add: js_trim_def js_whitespace_def)

end
