(* ===== verification/Pages.thy ===== *)
theory Pages
  imports SessionProps AppModel TipProvider
begin

text \<open>
  The pages that display the statistics, the history and the routines: \<open>HomePage\<close>
  (App.tsx lines 114--212), \<open>TrainingPage\<close> (lines 215--303) and \<open>ProfilePage\<close>
  (lines 705--792). The home page keeps two pieces of React
  state, the recent logs and the coach tip. Its effect (lines 120--124) loads the five most
  recent logs, shows the loading text and starts \<open>getAITip\<close>; the tip replaces the loading
  text when its promise settles, which is always after the effect has run. The texts of
  \<open>services/localization\<close> (not among the sources) are parameters. The weekly chart and
  the profile's consistency chart are fixed data (lines 126--132 and 714--721).
\<close>

section \<open>Home page\<close>

record home_state =
  home_logs :: "workout_log list"
  aiTip :: string

text \<open>The state on mount (lines 115--116): no logs and the tip \<open>"..."\<close>.\<close>

definition homeInitial :: home_state where
  "homeInitial = \<lparr>home_logs = [], aiTip = ''...''\<rparr>"

text \<open>
  The effect's synchronous part (lines 121--122): \<open>getLogs().reverse().slice(0, 5)\<close>,
  newest first; \<open>reverse\<close> reverses the freshly parsed array, not the stored one.
\<close>

definition homeEffect :: "storage_state \<Rightarrow> string \<Rightarrow> home_state \<Rightarrow> home_state" where
  "homeEffect st loading h = h\<lparr>home_logs := take 5 (rev (getLogs st)), aiTip := loading\<rparr>"

text \<open>\<open>.then(setAiTip)\<close> (line 123): the settled tip replaces what is shown.\<close>

definition homeTipSettled :: "string \<Rightarrow> home_state \<Rightarrow> home_state" where
  "homeTipSettled tip h = h\<lparr>aiTip := tip\<rparr>"

text \<open>
  Mounting the page: the effect, then the settlement of \<open>getAITip("recovery and
  mobility", lang)\<close> under the client state \<open>genAI\<close> and the service \<open>gen\<close>.
\<close>

definition homeMount ::
  "bool \<Rightarrow> (string \<Rightarrow> gen_outcome) \<Rightarrow> string \<Rightarrow> string \<Rightarrow> storage_state \<Rightarrow> home_state" where
  "homeMount genAI gen lang loading st =
     homeTipSettled (getAITip genAI gen ''recovery and mobility'' lang) (homeEffect st loading homeInitial)"

text \<open>The weekly volume chart (lines 126--132): fixed minutes per weekday, whatever the logs.\<close>

definition weeklyData :: "(string \<times> int) list" where
  "weeklyData = [(''S'', 10), (''T'', 25), (''Q'', 0), (''Q'', 30), (''S'', 15), (''S'', 45), (''D'', 20)]"

text \<open>A row of the recent list shows \<open>Math.floor(log.totalDurationSeconds / 60)\<close> minutes (line 196).\<close>

definition recentRowMinutes :: "workout_log \<Rightarrow> int" where
  "recentRowMinutes wl = \<lfloor>totalDurationSeconds wl / 60\<rfloor>"

text \<open>The streak badge (line 147) shows the root's statistics.\<close>

definition homeStreak :: "app_state \<Rightarrow> int" where
  "homeStreak a = streakDays (shownStats a)"

text \<open>
  A row of the recent list (lines 186--201): the routine's name, the minutes, and the end
  instant (which \<open>toLocaleDateString\<close> formats).
\<close>

definition recentRow :: "workout_log \<Rightarrow> string \<times> int \<times> ms" where
  "recentRow wl = (routineName wl, recentRowMinutes wl, endTime wl)"

datatype recent_list = NoWorkoutsYet | RecentRows "(string \<times> int \<times> ms) list"

record home_view =
  hv_streak :: int
  hv_tip :: string
  hv_chart :: "(string \<times> int) list"
  hv_recent :: recent_list

text \<open>
  What the home page renders (lines 136--211) from the root's statistics and its own
  state: the streak badge, the coach tip, the weekly chart, and the recent list or the
  "no workouts" box when it is empty. The greeting, the date and the start button carry
  no state.
\<close>

definition homeView :: "app_state \<Rightarrow> home_state \<Rightarrow> home_view" where
  "homeView a h =
     \<lparr>hv_streak = homeStreak a, hv_tip = aiTip h, hv_chart = weeklyData,
      hv_recent = (if home_logs h = [] then NoWorkoutsYet else RecentRows (map recentRow (home_logs h)))\<rparr>"

section \<open>Profile page\<close>

text \<open>
  The consistency chart's data (lines 714--721): five fixed months and June, which shows
  \<open>stats.totalWorkouts || 1\<close>.
\<close>

definition consistencyData :: "user_stats \<Rightarrow> (string \<times> int) list" where
  "consistencyData stats =
     [(''Jan'', 12), (''Feb'', 19), (''Mar'', 3), (''Apr'', 5), (''May'', 2),
      (''Jun'', js_or_num (Some (totalWorkouts stats)) 1)]"

record profile_view =
  pv_premium :: bool
  pv_workouts :: int
  pv_minutes :: int
  pv_chart :: "(string \<times> int) list option"

text \<open>
  What the profile shows (lines 727--782): the membership, the two counters, and the chart
  only for a premium user (a locked card otherwise).
\<close>

definition profileView :: "user_stats \<Rightarrow> profile_view" where
  "profileView stats =
     \<lparr>pv_premium = isPremium stats, pv_workouts = totalWorkouts stats,
      pv_minutes = totalMinutes stats,
      pv_chart = (if isPremium stats then Some (consistencyData stats) else None)\<rparr>"

section \<open>Training page\<close>

text \<open>
  The training page (lines 215--303) loads the stored routines on mount (lines 221--223)
  and lists them, each with a Start button, then the premade routines: a lock icon for a
  premium one, a button labelled "start" for a premium user and "premium only" otherwise,
  disabled for a free user on a premium routine, and a veil over such a card.
\<close>

datatype start_label = StartRoutineLabel | PremiumOnlyLabel

record premade_row =
  pr_name :: string
  pr_lock :: bool
  pr_label :: start_label
  pr_disabled :: bool
  pr_veiled :: bool

definition premadeRow :: "bool \<Rightarrow> routine \<Rightarrow> premade_row" where
  "premadeRow userIsPremium r =
     \<lparr>pr_name = r_name r, pr_lock = r_isPremium r,
      pr_label = (if userIsPremium then StartRoutineLabel else PremiumOnlyLabel),
      pr_disabled = (\<not> userIsPremium \<and> r_isPremium r),
      pr_veiled = (\<not> userIsPremium \<and> r_isPremium r)\<rparr>"

text \<open>The user's routines as listed (lines 248--260): name and exercise count.\<close>

definition trainingRoutineRows :: "storage_state \<Rightarrow> (string \<times> nat) list" where
  "trainingRoutineRows st = map (\<lambda>r. (r_name r, length (r_exercises r))) (getRoutines st)"

record training_view =
  tv_routines :: "(string \<times> nat) list"
  tv_createTile :: bool
  tv_premade :: "premade_row list"

text \<open>
  What the training page renders (lines 232--300): the user's routines, the dashed
  create tile under its limit, and one card per premade routine of the context.
\<close>

definition trainingView :: "app_state \<Rightarrow> routine list \<Rightarrow> training_view" where
  "trainingView a premade =
     \<lparr>tv_routines = trainingRoutineRows (store a),
      tv_createTile = showCreateTile (isPremium (shownStats a)) (getRoutines (store a)),
      tv_premade = map (premadeRow (isPremium (shownStats a))) premade\<rparr>"

section \<open>Lemmas\<close>

lemma homeMount_fields [simp]:
  "home_logs (homeMount genAI gen lang loading st) = take 5 (rev (getLogs st))"
  "aiTip (homeMount genAI gen lang loading st) = getAITip genAI gen ''recovery and mobility'' lang"
  by (simp_all add: homeMount_def homeTipSettled_def homeEffect_def homeInitial_def)

lemma handleFinishWorkout_times:
  "handleFinishWorkout library now s = Inr wl \<Longrightarrow>
   totalDurationSeconds wl = of_int (now - s_startTime s) / 1000 \<and> endTime wl = now"
  by (auto simp: handleFinishWorkout_def Let_def split: if_splits)

lemma take_5_snoc_rev: "take 5 (rev (xs @ [x])) = x # take 4 (rev xs)"
  by (simp add: eval_nat_numeral)

section \<open>Properties\<close>

text \<open>
  C32. After a workout is finished, the home page it navigates to lists that workout
  first, with its name, its minutes and its end, followed by the four most recent earlier
  ones, and shows a non-empty coach tip once the tip's promise settles, whatever the text
  service does.
\<close>

theorem home_after_finish:
  assumes "handleFinishWorkout library now s = Inr wl"
  shows "\<exists>a'. finishWorkout library now s a = Inr a' \<and>
    hv_recent (homeView a' (homeMount genAI gen lang loading (store a'))) =
      RecentRows (map recentRow (wl # take 4 (rev (getLogs (store a))))) \<and>
    hv_tip (homeView a' (homeMount genAI gen lang loading (store a'))) \<noteq> []"
  using finishWorkout_eq [OF assms, of a] by (simp add: homeView_def take_5_snoc_rev getAITip_nonempty)

theorem home_after_finish_witness:
  "\<exists>wl. handleFinishWorkout EXERCISE_LIBRARY 90000 pm1_session = Inr wl \<and>
     (\<exists>a'. finishWorkout EXERCISE_LIBRARY 90000 pm1_session (appMount freshStorage) = Inr a' \<and>
        hv_recent (homeView a' (homeMount False (\<lambda>p. GenRejects) ''en'' ''Loading'' (store a'))) =
          RecentRows [(''Daily Morning Mobility'', 1, 90000)])"
proof -
  have idx: "exerciseIndex pm1_session < length (r_exercises (routine pm1_session))"
    by (simp add: pm1_session_eq PREMADE_ROUTINES_def)
  obtain wl where f: "handleFinishWorkout EXERCISE_LIBRARY 90000 pm1_session = Inr wl"
    using handleFinishWorkout_eq [OF idx] by blast
  have "getLogs (store (appMount freshStorage)) = []"
    by (simp add: appMount_def freshStorage_def getLogs_def)
  moreover have "routineName wl = r_name (routine pm1_session)"
    using f handleFinishWorkout_eq [OF idx, of EXERCISE_LIBRARY 90000] by auto
  then have "recentRow wl = (''Daily Morning Mobility'', 1, 90000)"
    using handleFinishWorkout_times [OF f]
    by (simp add: recentRow_def recentRowMinutes_def pm1_session_eq PREMADE_ROUTINES_def floor_eq_iff)
  ultimately show ?thesis
    using home_after_finish [OF f, of "appMount freshStorage" False "\<lambda>p. GenRejects" "''en''" "''Loading''"] f by auto
qed

text \<open>
  C33. The places that show a finished workout's length in minutes disagree with the
  statistics: the recent list shows the duration rounded down, and the summary, drawn at
  any instant before the finish, shows no more than that; while saving the log adds the
  duration rounded to the nearest minute to the statistics, one more than the recent list
  shows exactly when the seconds past the last whole minute are 30 or more.
\<close>

theorem minutes_displays:
  assumes "handleFinishWorkout library now s = Inr wl" "t \<le> now"
  shows "summaryTotalMinutes t s \<le> recentRowMinutes wl \<and>
    recentRowMinutes wl = (now - s_startTime s) div 60000 \<and>
    totalMinutes (updateStatsForLog wl t' v) =
      totalMinutes v + recentRowMinutes wl + (if (now - s_startTime s) mod 60000 < 30000 then 0 else 1)"
proof -
  have d: "totalDurationSeconds wl = of_int (now - s_startTime s) / 1000"
    using handleFinishWorkout_times [OF assms(1)] by simp
  have row: "recentRowMinutes wl = (now - s_startTime s) div 60000"
    unfolding recentRowMinutes_def d by (simp only: js_floor_ms_minutes)
  have "summaryTotalMinutes t s \<le> (now - s_startTime s) div 60000"
    unfolding summaryTotalMinutes_def using assms(2) by (simp add: zdiv_mono1)
  moreover have "js_round (totalDurationSeconds wl / 60) =
      (now - s_startTime s) div 60000 + (if (now - s_startTime s) mod 60000 < 30000 then 0 else 1)"
    unfolding d by (simp only: js_round_ms_minutes round_floor_minutes)
  ultimately show ?thesis using row by (simp add: updateStatsForLog_def)
qed

theorem minutes_displays_witness:
  "\<exists>wl. handleFinishWorkout EXERCISE_LIBRARY 90000 pm1_session = Inr wl \<and>
     summaryTotalMinutes 60000 pm1_session \<le> 1 \<and> recentRowMinutes wl = 1 \<and>
     totalMinutes (updateStatsForLog wl 90000 INITIAL_STATS) = totalMinutes INITIAL_STATS + 2"
proof -
  have idx: "exerciseIndex pm1_session < length (r_exercises (routine pm1_session))"
    by (simp add: pm1_session_eq PREMADE_ROUTINES_def)
  obtain wl where f: "handleFinishWorkout EXERCISE_LIBRARY 90000 pm1_session = Inr wl"
    using handleFinishWorkout_eq [OF idx] by blast
  have "s_startTime pm1_session = 0" by (simp add: pm1_session_eq)
  then show ?thesis
    using minutes_displays [OF f, of 60000 90000 INITIAL_STATS] f by simp
qed

text \<open>
  C39. The training page's premade cards agree with its start handler and the catalog: for
  a free user every premade card is locked, veiled, labelled "premium only", its button
  disabled, and the handler would refuse it; for a premium user every premade button is
  enabled, labelled "start", and starts that routine in a valid session state.
\<close>

theorem premade_cards_match_handler:
  assumes "r \<in> set (localizedPremadeRoutines loadTime lang)"
  shows "(premadeRow False r = \<lparr>pr_name = r_name r, pr_lock = True, pr_label = PremiumOnlyLabel,
            pr_disabled = True, pr_veiled = True\<rparr> \<and> handleStart False r = PremiumAlert) \<and>
         (\<not> pr_disabled (premadeRow True r) \<and> pr_label (premadeRow True r) = StartRoutineLabel \<and>
          handleStart True r = StartSession r \<and>
          (\<exists>s. sessionStart r now = Inr s \<and> session_inv s))"
proof -
  obtain r0 where r0: "r0 \<in> set (PREMADE_ROUTINES loadTime)"
      "r_exercises r = r_exercises r0" "r_isPremium r = r_isPremium r0"
    using localized_routine_from_premade assms unfolding localizedPremadeRoutines_def by blast
  note facts = premade_routine_facts [OF r0(1)]
  have prem: "r_isPremium r" using facts r0(3) by simp
  have wf: "wf_routine r" using facts r0(2) by (simp add: wf_routine_def)
  then have ne: "r_exercises r \<noteq> []" by (simp add: wf_routine_def)
  show ?thesis
    using prem sessionStart_eq [OF ne, of now] sessionStart_inv [OF wf, of now]
    by (simp add: premadeRow_def handleStart_def)
qed

theorem premade_cards_match_handler_witness:
  "PREMADE_ROUTINES 0 ! 0 \<in> set (localizedPremadeRoutines 0 ''en'') \<and>
   pr_disabled (premadeRow False (PREMADE_ROUTINES 0 ! 0)) \<and>
   (\<exists>s. sessionStart (PREMADE_ROUTINES 0 ! 0) 5 = Inr s \<and> session_inv s)"
proof -
  have m: "PREMADE_ROUTINES 0 ! 0 \<in> set (localizedPremadeRoutines 0 ''en'')"
    by (simp add: localizedPremadeRoutines_def getLocalizedPremadeRoutines_def PREMADE_ROUTINES_def)
  show ?thesis using premade_cards_match_handler [OF m, of 5] m by auto
qed

end
