(* ===== verification/BuilderView.thy ===== *)
theory BuilderView
  imports Session Routines "HOL-Library.Multiset"
begin

text \<open>
  What the routine builder (\<open>CreateRoutinePage\<close>, App.tsx lines 339--401) shows: the row
  of each selected exercise, the filter chips, and when its Save button is enabled. The
  chips are \<open>All\<close> and one per value of the string enum \<open>MuscleGroup\<close>
  (types.ts lines 2--15, \<open>Object.values\<close> in declaration order); a chip's label is the
  UI string for the group, or the enum value itself when there is none. The UI strings
  come from \<open>services/localization\<close> and are a parameter.
\<close>

section \<open>The muscle-group enum\<close>

fun muscleGroupValue :: "muscle_group \<Rightarrow> string" where
  "muscleGroupValue Ankle = ''Ankle''"
| "muscleGroupValue Calf = ''Calf''"
| "muscleGroupValue Hamstrings = ''Hamstrings''"
| "muscleGroupValue Hips = ''Hips''"
| "muscleGroupValue Thoracic = ''Thoracic Spine''"
| "muscleGroupValue Shoulder = ''Shoulder''"
| "muscleGroupValue Neck = ''Neck''"
| "muscleGroupValue Wrists = ''Wrists''"
| "muscleGroupValue LowerBack = ''Lower Back''"
| "muscleGroupValue UpperBack = ''Upper Back''"
| "muscleGroupValue Glutes = ''Glutes''"
| "muscleGroupValue FullBody = ''Full Body''"

definition muscleGroupValues :: "muscle_group list" where
  "muscleGroupValues = [Ankle, Calf, Hamstrings, Hips, Thoracic, Shoulder, Neck, Wrists,
                        LowerBack, UpperBack, Glutes, FullBody]"

section \<open>The builder's view\<close>

text \<open>The chips (lines 374--379): \<open>All\<close>, then one per group.\<close>

definition filterChips :: "library_filter list" where
  "filterChips = AllGroups # map OnlyGroup muscleGroupValues"

definition chipLabel :: "(muscle_group \<Rightarrow> string option) \<Rightarrow> library_filter \<Rightarrow> string" where
  "chipLabel groupNames c =
     (case c of AllGroups \<Rightarrow> ''All''
      | OnlyGroup g \<Rightarrow> (case groupNames g of Some n \<Rightarrow> if n = [] then muscleGroupValue g else n
                                         | None \<Rightarrow> muscleGroupValue g))"

text \<open>
  A selected exercise's row (lines 362--368): the name of the exercise \<open>library.find\<close>
  returns (\<open>undefined\<close> when none), the set count, the target and its unit.
\<close>

definition builderRow ::
  "exercise list \<Rightarrow> routine_exercise \<Rightarrow> string option \<times> nat \<times> int \<times> string" where
  "builderRow library re =
     (let ex = findExercise library (re_exerciseId re)
      in (map_option e_name ex, re_sets re, re_repsOrDuration re,
          if (case ex of Some e \<Rightarrow> e_type e = Time | None \<Rightarrow> False) then ''s'' else ''reps''))"

text \<open>The Save button (line 344) is disabled when the name or the selection is empty.\<close>

definition saveEnabled :: "string \<Rightarrow> routine_exercise list \<Rightarrow> bool" where
  "saveEnabled name selected \<longleftrightarrow> \<not> (name = [] \<or> selected = [])"

text \<open>
  The library list (lines 381--397): for each exercise the filter keeps, its name and its
  group, labelled as on the chips (\<open>t.muscleGroups[g] || g\<close>); its plus button calls
  \<open>handleAdd\<close> on that exercise.
\<close>

definition libraryRows ::
  "(muscle_group \<Rightarrow> string option) \<Rightarrow> library_filter \<Rightarrow> exercise list \<Rightarrow> (string \<times> string) list" where
  "libraryRows groupNames f library =
     map (\<lambda>e. (e_name e, chipLabel groupNames (OnlyGroup (muscleGroup e)))) (filteredLibrary f library)"

section \<open>Lemmas\<close>

lemma fold_handleAdd_map: "fold handleAdd picks prev = prev @ map (\<lambda>ex. last (handleAdd ex [])) picks"
  by (induction picks arbitrary: prev) (simp_all add: handleAdd_def)

lemma selectExercises_map: "selectExercises picks = map (\<lambda>ex. last (handleAdd ex [])) picks"
  by (simp add: selectExercises_def fold_handleAdd_map)

lemma findExercise_distinct:
  "distinct (map e_id library) \<Longrightarrow> ex \<in> set library \<Longrightarrow> findExercise library (e_id ex) = Some ex"
  by (induction library) (auto simp: findExercise_def)

lemma muscleGroupValues_complete: "g \<in> set muscleGroupValues"
  by (cases g) (simp_all add: muscleGroupValues_def)

lemma sum_list_single_hit:
  "distinct gs \<Longrightarrow> a \<in> set gs \<Longrightarrow> sum_list (map (\<lambda>g. if a = g then M else {#}) gs) = M"
proof (induction gs)
  case Nil
  then show ?case by simp
next
  case (Cons g gs)
  show ?case
  proof (cases "a = g")
    case True
    with Cons.prems have "\<forall>g' \<in> set gs. a \<noteq> g'" by auto
    then have "sum_list (map (\<lambda>g'. if a = g' then M else {#}) gs) = {#}"
      by (induction gs) auto
    with True show ?thesis by simp
  next
    case False
    with Cons show ?thesis by simp
  qed
qed

lemma filter_hit_once: "distinct gs \<Longrightarrow> a \<in> set gs \<Longrightarrow> filter (\<lambda>g. a = g) gs = [a]"
  by (induction gs) (auto simp: filter_empty_conv)

lemma mset_concat_filter_partition:
  assumes "distinct gs" "\<forall>x \<in> set xs. f x \<in> set gs"
  shows "mset (concat (map (\<lambda>g. filter (\<lambda>x. f x = g) xs) gs)) = mset xs"
  using assms(2)
proof (induction xs)
  case Nil
  then show ?case by (induction gs) simp_all
next
  case (Cons x xs)
  have "mset (concat (map (\<lambda>g. filter (\<lambda>y. f y = g) (x # xs)) gs)) =
        sum_list (map (\<lambda>g. if f x = g then {#x#} else {#}) gs) +
        mset (concat (map (\<lambda>g. filter (\<lambda>y. f y = g) xs) gs))"
    by (induction gs) (simp_all add: mset_concat add_ac)
  with Cons assms(1) show ?case by (simp add: sum_list_single_hit)
qed

text \<open>Under a group's chip every listed exercise carries that chip's label.\<close>

lemma libraryRows_group_label:
  "(n, l) \<in> set (libraryRows groupNames (OnlyGroup g) library) \<Longrightarrow> l = chipLabel groupNames (OnlyGroup g)"
  by (auto simp: libraryRows_def filteredLibrary_def)

lemma libraryRows_group_label_witness:
  "(''Cat-Cow Stretch'', ''Thoracic Spine'') \<in> set (libraryRows (\<lambda>g. None) (OnlyGroup Thoracic) EXERCISE_LIBRARY) \<and>
   ''Thoracic Spine'' = chipLabel (\<lambda>g. None) (OnlyGroup Thoracic)"
proof -
  have m: "(''Cat-Cow Stretch'', ''Thoracic Spine'') \<in> set (libraryRows (\<lambda>g. None) (OnlyGroup Thoracic) EXERCISE_LIBRARY)"
    by (simp add: libraryRows_def filteredLibrary_def EXERCISE_LIBRARY_def chipLabel_def)
  show ?thesis using m libraryRows_group_label [OF m] by simp
qed

section \<open>Properties\<close>

text \<open>
  C37. The filter chips partition the library: the \<open>All\<close> chip lists every exercise,
  every exercise appears under exactly one group chip, so the group chips together list
  the library exactly once (as a multiset), and the group chips' React keys, the enum's
  string values, are pairwise distinct.
\<close>

theorem chips_partition_library:
  "filteredLibrary (hd filterChips) library = library \<and>
   mset (concat (map (\<lambda>c. filteredLibrary c library) (tl filterChips))) = mset library \<and>
   (\<forall>e \<in> set library. length (filter (\<lambda>c. e \<in> set (filteredLibrary c library)) (tl filterChips)) = 1) \<and>
   distinct (map muscleGroupValue muscleGroupValues)"
proof -
  have d: "distinct muscleGroupValues" by (simp add: muscleGroupValues_def)
  have part: "mset (concat (map (\<lambda>g. filter (\<lambda>x. muscleGroup x = g) library) muscleGroupValues)) =
      mset library"
    using d muscleGroupValues_complete by (intro mset_concat_filter_partition) simp_all
  have one: "length (filter (\<lambda>g. muscleGroup e = g) muscleGroupValues) = 1" for e
    using d muscleGroupValues_complete [of "muscleGroup e"]
    by (simp add: filter_hit_once)
  have tl: "tl filterChips = map OnlyGroup muscleGroupValues" by (simp add: filterChips_def)
  have "mset (concat (map (\<lambda>c. filteredLibrary c library) (tl filterChips))) = mset library"
    using part by (simp add: tl filteredLibrary_def comp_def)
  moreover have "length (filter (\<lambda>c. e \<in> set (filteredLibrary c library)) (tl filterChips)) = 1"
    if "e \<in> set library" for e
  proof -
    have "filter (\<lambda>g. e \<in> set (filter (\<lambda>x. muscleGroup x = g) library)) muscleGroupValues =
          filter (\<lambda>g. muscleGroup e = g) muscleGroupValues"
      using that by (intro filter_cong) auto
    then show ?thesis using one [of e] by (simp add: tl filter_map comp_def filteredLibrary_def)
  qed
  moreover have "filteredLibrary (hd filterChips) library = library"
    by (simp add: filterChips_def filteredLibrary_def)
  moreover have "distinct (map muscleGroupValue muscleGroupValues)"
    by (simp add: muscleGroupValues_def)
  ultimately show ?thesis by blast
qed

theorem chips_partition_library_witness:
  "EXERCISE_LIBRARY ! 0 \<in> set EXERCISE_LIBRARY \<and>
   length (filter (\<lambda>c. EXERCISE_LIBRARY ! 0 \<in> set (filteredLibrary c EXERCISE_LIBRARY)) (tl filterChips)) = 1"
proof -
  have m: "EXERCISE_LIBRARY ! 0 \<in> set EXERCISE_LIBRARY" by (simp add: EXERCISE_LIBRARY_def)
  show ?thesis using chips_partition_library [of EXERCISE_LIBRARY] m by blast
qed

text \<open>
  C38. The builder shows what was added: when the library's ids are distinct and the
  exercises added come from it, the rows are, in order, each added exercise's name, its
  default set count, the target \<open>handleAdd\<close> chose, and the unit of its kind; and the
  Save button is enabled exactly when saving stores one more routine.
\<close>

theorem builder_shows_selection:
  assumes "distinct (map e_id library)" "set picks \<subseteq> set library"
  shows "map (builderRow library) (selectExercises picks) =
           map (\<lambda>ex. (Some (e_name ex), defaultSets ex, re_repsOrDuration (last (handleAdd ex [])),
                       if e_type ex = Time then ''s'' else ''reps'')) picks \<and>
         (saveEnabled name (selectExercises picks) \<longleftrightarrow>
           length (getRoutines (handleSave name (selectExercises picks) now st)) = Suc (length (getRoutines st)))"
proof -
  have row: "builderRow library (last (handleAdd ex [])) =
      (Some (e_name ex), defaultSets ex, re_repsOrDuration (last (handleAdd ex [])),
       if e_type ex = Time then ''s'' else ''reps'')" if "ex \<in> set library" for ex
    using findExercise_distinct [OF assms(1) that] by (simp add: builderRow_def handleAdd_def)
  have "map (builderRow library) (selectExercises picks) =
           map (\<lambda>ex. (Some (e_name ex), defaultSets ex, re_repsOrDuration (last (handleAdd ex [])),
                       if e_type ex = Time then ''s'' else ''reps'')) picks"
    using assms(2) row by (auto simp: selectExercises_map)
  moreover have "saveEnabled name (selectExercises picks) \<longleftrightarrow>
      length (getRoutines (handleSave name (selectExercises picks) now st)) = Suc (length (getRoutines st))"
    by (simp add: saveEnabled_def handleSave_def)
  ultimately show ?thesis by blast
qed

theorem builder_shows_selection_witness:
  "distinct (map e_id EXERCISE_LIBRARY) \<and> set [EXERCISE_LIBRARY ! 1] \<subseteq> set EXERCISE_LIBRARY \<and>
   map (builderRow EXERCISE_LIBRARY) (selectExercises [EXERCISE_LIBRARY ! 1]) =
     [(Some ''Cat-Cow Stretch'', 3, 10, ''reps'')] \<and>
   saveEnabled ''Legs'' (selectExercises [EXERCISE_LIBRARY ! 1])"
proof -
  have d: "distinct (map e_id EXERCISE_LIBRARY)" by (simp add: EXERCISE_LIBRARY_def)
  have p: "set [EXERCISE_LIBRARY ! 1] \<subseteq> set EXERCISE_LIBRARY" by (simp add: EXERCISE_LIBRARY_def)
  have f: "e_name (EXERCISE_LIBRARY ! 1) = ''Cat-Cow Stretch'' \<and> defaultSets (EXERCISE_LIBRARY ! 1) = 3 \<and>
      defaultReps (EXERCISE_LIBRARY ! 1) = Some 10 \<and> e_type (EXERCISE_LIBRARY ! 1) = Reps"
    by (simp add: EXERCISE_LIBRARY_def)
  show ?thesis
    using builder_shows_selection [OF d p, of "''Legs''" 0 freshStorage] d p f
    by (simp add: handleAdd_def js_or_num_def handleSave_def selectExercises_map saveEnabled_def)
qed

end
