(* ===== verification/Components.thy ===== *)
theory Components
  imports Pages BuilderView
begin

text \<open>
  The language context and the shared components of App.tsx (lines 47--109). The
  context carries the language, its strings, the localised library and the premade
  routines; the strings of \<open>services/localization\<close> are not among the sources and are
  left out. \<open>Button\<close>, \<open>Card\<close> and \<open>Chip\<close> compose a class name from their props; of
  their behaviour only \<open>Button\<close>'s \<open>disabled\<close> matters: a disabled \<open>button\<close> fires no
  click. The class names are the exact strings of the source; a template literal
  \<open>`${a} ${b}`\<close> is \<open>a @ '' '' @ b\<close>.
\<close>

section \<open>Language context\<close>

text \<open>The context value's type (lines 49--54), without the strings \<open>t\<close>.\<close>

record language_context =
  ctx_lang :: string
  ctx_library :: "exercise list"
  ctx_premade :: "routine list"

section \<open>Button\<close>

text \<open>The variants the \<open>variants\<close> table names (lines 68--74).\<close>

datatype button_variant = Primary | Secondary | Outline | Ghost | Danger

record button_props =
  bp_variant :: button_variant
  bp_className :: string
  bp_disabled :: bool
  bp_fullWidth :: bool

text \<open>The defaults of the props (lines 61--64).\<close>

definition defaultButtonProps :: button_props where
  "defaultButtonProps = \<lparr>bp_variant = Primary, bp_className = '''', bp_disabled = False, bp_fullWidth = False\<rparr>"

definition buttonBaseStyle :: string where
  "buttonBaseStyle =
     ''px-6 py-3 rounded-xl font-semibold transition-all duration-200 active:scale-95 flex items-center justify-center gap-2''"

fun buttonVariantStyle :: "button_variant \<Rightarrow> string" where
  "buttonVariantStyle Primary =
     ''bg-brand-500 text-white shadow-lg shadow-brand-500/20 hover:bg-brand-600 disabled:bg-brand-300''"
| "buttonVariantStyle Secondary =
     ''bg-brand-50 text-brand-700 hover:bg-brand-100 disabled:bg-slate-100 disabled:text-slate-400''"
| "buttonVariantStyle Outline =
     ''border-2 border-slate-200 text-slate-600 hover:border-brand-500 hover:text-brand-500 bg-white''"
| "buttonVariantStyle Ghost = ''text-slate-500 hover:bg-slate-100 hover:text-slate-900''"
| "buttonVariantStyle Danger = ''bg-red-50 text-red-600 hover:bg-red-100''"

text \<open>
  \<open>Button\<close> (lines 58--85): the class name of its \<open>button\<close>, and the handler a click
  runs, none when the button is disabled.
\<close>

definition Button :: "button_props \<Rightarrow> 'a \<Rightarrow> string \<times> 'a option" where
  "Button props onClick =
     (buttonBaseStyle @ '' '' @ buttonVariantStyle (bp_variant props) @ '' '' @
        (if bp_fullWidth props then ''w-full'' else '''') @ '' '' @ bp_className props,
      if bp_disabled props then None else Some onClick)"

section \<open>Card and Chip\<close>

text \<open>\<open>Card\<close> (lines 87--91) passes its click through.\<close>

definition cardClassName :: "string \<Rightarrow> string" where
  "cardClassName className = ''bg-white rounded-2xl shadow-sm border border-slate-100 p-5 '' @ className"

text \<open>\<open>Chip\<close> (lines 100--109): the class name depends on whether the chip is active.\<close>

definition chipClassName :: "bool \<Rightarrow> string" where
  "chipClassName active =
     ''px-4 py-1.5 rounded-full text-sm font-medium transition-colors whitespace-nowrap '' @
     (if active then ''bg-brand-500 text-white shadow-md shadow-brand-500/20''
      else ''bg-white text-slate-500 border border-slate-200'')"

section \<open>Uses of the components\<close>

text \<open>
  The start button of a premade card (lines 286--291): secondary for a premium user,
  ghost otherwise, full width, disabled for a free user on a premium routine.
\<close>

definition premadeButton :: "bool \<Rightarrow> routine \<Rightarrow> button_props" where
  "premadeButton userIsPremium r =
     defaultButtonProps\<lparr>bp_variant := (if userIsPremium then Secondary else Ghost),
       bp_fullWidth := True, bp_disabled := (\<not> userIsPremium \<and> r_isPremium r)\<rparr>"

text \<open>
  The builder's chip row (lines 374--379) for the current filter: each chip's label, its
  class name, and the filter its click sets.
\<close>

definition builderChips ::
  "(muscle_group \<Rightarrow> string option) \<Rightarrow> library_filter \<Rightarrow> (string \<times> string \<times> library_filter) list" where
  "builderChips groupNames f = map (\<lambda>c. (chipLabel groupNames c, chipClassName (c = f), c)) filterChips"

section \<open>Lemmas\<close>

text \<open>
  The premade card's button fires exactly when the card is not disabled, so the cards of
  \<open>premadeRow\<close> and the clicks the app shell offers agree with the component.
\<close>

lemma premadeButton_click:
  "snd (Button (premadeButton userIsPremium r) h) = (if pr_disabled (premadeRow userIsPremium r) then None else Some h)"
  by (simp add: Button_def premadeButton_def defaultButtonProps_def premadeRow_def)

lemma filterChips_distinct: "distinct filterChips"
  by (simp add: filterChips_def muscleGroupValues_def)

lemma filterChips_complete: "f \<in> set filterChips"
  by (cases f) (simp_all add: filterChips_def muscleGroupValues_complete)

text \<open>Whatever the filter, exactly one chip of the row is drawn active, the filter's own.\<close>

lemma builderChips_one_active:
  "filter (\<lambda>x. fst (snd x) = chipClassName True) (builderChips groupNames f) =
   [(chipLabel groupNames f, chipClassName True, f)]"
proof -
  have ne: "chipClassName False \<noteq> chipClassName True" by (simp add: chipClassName_def)
  then have act: "(\<lambda>c. chipClassName (c = f) = chipClassName True) = (\<lambda>c. f = c)"
    by (metis (full_types))
  have "filter (\<lambda>x. fst (snd x) = chipClassName True) (builderChips groupNames f) =
        map (\<lambda>c. (chipLabel groupNames c, chipClassName (c = f), c)) (filter (\<lambda>c. f = c) filterChips)"
    by (simp add: builderChips_def filter_map comp_def act)
  also have "filter (\<lambda>c. f = c) filterChips = [f]"
    using filter_hit_once [OF filterChips_distinct filterChips_complete] .
  finally show ?thesis by simp
qed

end
