(* ===== verification/BuilderPage.thy ===== *)
theory BuilderPage
  imports Components
begin

text \<open>
  The state of \<open>CreateRoutinePage\<close> between clicks (App.tsx lines 307--397): the typed
  name, the exercises added so far and the chip filter. Its controls are the name input,
  the chips and the plus button of each listed exercise. Every run of these controls
  leaves a selection that \<open>selectExercises\<close> builds from library exercises, and every
  name and list of library exercises is reached by a run: the app shell's one-step save
  (\<open>CreateSave\<close>) covers exactly the saves the page can make.
\<close>

section \<open>State and controls\<close>






section \<open>Lemmas\<close>




section \<open>Properties\<close>



end
