(* ===== verification/AppShell.thy ===== *)
theory AppShell
  imports BuilderPage
begin

text \<open>
  The app shell: the route table of \<open>App\<close> (App.tsx lines 840--852), \<open>MainLayout\<close> and
  its bottom \<open>Navigation\<close> (lines 796--823), the language context (lines 835--838),
  the mount of the session page (lines 405--431 and 562), and every \<open>navigate\<close> call of
  the pages. A location of the hash history is a path with the \<open>state\<close> pushed along
  with it; only the session page reads a state, the routine to run. The shell's state is
  the browser history (the entries behind, the current one, the entries ahead), the app
  root's state, and the state of the session page while it is mounted. An action is a
  control a page draws, a link of the navigation bar, a typed address, or the browser's
  back and forward buttons; \<open>shell_step\<close> is \<open>None\<close> for an action the current page does
  not offer and \<open>Inl\<close> for one whose handler or whose next render throws.
\<close>

section \<open>Routes, layout and context\<close>

datatype page = HomePage | TrainingPage | ProfilePage | CreateRoutinePage | SessionPage

text \<open>The \<open>Routes\<close> of \<open>App\<close> (lines 843--849); a path no route matches renders nothing.\<close>

definition routeOf :: "string \<Rightarrow> page option" where
  "routeOf path =
     (if path = ''/'' then Some HomePage
      else if path = ''/training'' then Some TrainingPage
      else if path = ''/profile'' then Some ProfilePage
      else if path = ''/create'' then Some CreateRoutinePage
      else if path = ''/session'' then Some SessionPage
      else None)"

text \<open>
  Every route but the session page is wrapped in \<open>MainLayout\<close> (lines 816--823), which
  draws the \<open>Navigation\<close> bar (lines 796--814) with its three links.
\<close>

definition inMainLayout :: "page \<Rightarrow> bool" where
  "inMainLayout p \<longleftrightarrow> p \<noteq> SessionPage"

definition navLinks :: "string list" where
  "navLinks = [''/'', ''/training'', ''/profile'']"

text \<open>
  The context value (lines 835--838): the library and the premade routines in the
  system language, both computed once when the app loads at instant \<open>loadTime\<close>.
\<close>

definition appContext :: "string \<Rightarrow> ms \<Rightarrow> language_context" where
  "appContext lang loadTime =
     \<lparr>ctx_lang = lang, ctx_library = localizedExercises lang,
      ctx_premade = localizedPremadeRoutines loadTime lang\<rparr>"

section \<open>Mounting the session page\<close>

datatype session_entry = RedirectToTraining | EntryThrows js_error | EntryRunning session

text \<open>
  SessionPage reads \<open>location.state?.routine\<close> (line 410). Without a routine its render
  returns \<open>null\<close> (line 562), the load-sets effect is skipped by its guard (line 433),
  and the redirect effect navigates to \<open>/training\<close> (lines 424--429). With one, the
  page starts as \<open>sessionStart\<close> says, throwing at its first render when the routine
  has no exercise.
\<close>

definition sessionPageMount :: "routine option \<Rightarrow> ms \<Rightarrow> session_entry" where
  "sessionPageMount st now =
     (case st of
        None \<Rightarrow> RedirectToTraining
      | Some r \<Rightarrow> (case sessionStart r now of Inl e \<Rightarrow> EntryThrows e | Inr s \<Rightarrow> EntryRunning s))"

section \<open>The browser history\<close>

type_synonym location = "string \<times> routine option"

record shell =
  past :: "location list"
  here :: location
  future :: "location list"
  shell_app :: app_state
  pageSession :: "session option"

definition currentPage :: "shell \<Rightarrow> page option" where
  "currentPage sh = routeOf (fst (here sh))"

text \<open>\<open>navigate(path, {state})\<close> pushes an entry and drops the entries ahead.\<close>

definition navigate :: "location \<Rightarrow> shell \<Rightarrow> shell" where
  "navigate l sh = sh\<lparr>past := here sh # past sh, here := l, future := []\<rparr>"

text \<open>\<open>navigate(-1)\<close> and the browser's back button; forward is the converse.\<close>

definition goBack :: "shell \<Rightarrow> shell" where
  "goBack sh =
     (case past sh of [] \<Rightarrow> sh | l # rest \<Rightarrow> sh\<lparr>past := rest, here := l, future := here sh # future sh\<rparr>)"

definition goForward :: "shell \<Rightarrow> shell" where
  "goForward sh =
     (case future sh of [] \<Rightarrow> sh | l # rest \<Rightarrow> sh\<lparr>past := here sh # past sh, here := l, future := rest\<rparr>)"

text \<open>
  The page at the current entry mounts afresh: a session page starts its session, or
  redirects (pushing \<open>/training\<close>) when the entry has no routine; any other page holds no
  session state.
\<close>

definition mountHere :: "ms \<Rightarrow> shell \<Rightarrow> js_error + shell" where
  "mountHere now sh =
     (if currentPage sh = Some SessionPage then
        (case sessionPageMount (snd (here sh)) now of
           RedirectToTraining \<Rightarrow> Inr (navigate (''/training'', None) (sh\<lparr>pageSession := None\<rparr>))
         | EntryThrows e \<Rightarrow> Inl e
         | EntryRunning s \<Rightarrow> Inr (sh\<lparr>pageSession := Some s\<rparr>))
      else Inr (sh\<lparr>pageSession := None\<rparr>))"

definition visit :: "ms \<Rightarrow> location \<Rightarrow> shell \<Rightarrow> js_error + shell" where
  "visit now l sh = mountHere now (navigate l sh)"

text \<open>The app opened at a typed address: one history entry, the app root mounted.\<close>

definition shellOpen :: "string \<Rightarrow> storage_state \<Rightarrow> shell" where
  "shellOpen path st =
     \<lparr>past = [], here = (path, None), future = [], shell_app = appMount st, pageSession = None\<rparr>"

section \<open>Actions\<close>

datatype shell_action =
    NavLinkClick string | TypeAddress string | BrowserBack | BrowserForward
  | HomeStartWorkout | TrainingCreate | TrainingStart routine
  | CreateClose | CreateSave string "exercise list"
  | SessionEvent event | SessionFinish | SessionClose
  | ProfileTogglePremium

text \<open>
  One action at instant \<open>now\<close>. The controls and their handlers: the home page's start
  button (line 207); the training page's create buttons (lines 239, 263) and the start
  button of each stored routine and of each premade routine whose \<open>Button\<close> is not
  disabled (\<open>handleStart\<close>, lines 225--231, where the alert leaves everything as it is);
  the builder's close button (\<open>navigate(-1)\<close>, line 342) and its save button
  (\<open>handleSave\<close>, lines 322--333, given the typed name and the library exercises added,
  in order, with its plus buttons: these are exactly the states the builder page reaches,
  by claim C17); the session page's events, its summary's finish
  button (\<open>handleFinishWorkout\<close>, lines 533--559) and its close button (line 613), which
  the overlays cover; the profile page's premium toggle (lines 708--712). Typing the
  address of the current entry changes nothing (the hash does not change); the history
  buttons are offered when there is an entry to move to.
\<close>

fun shell_step :: "string \<Rightarrow> ms \<Rightarrow> ms \<Rightarrow> shell \<Rightarrow> shell_action \<Rightarrow> (js_error + shell) option" where
  "shell_step lang loadTime now sh (NavLinkClick p) =
     (case currentPage sh of
        Some pg \<Rightarrow> if inMainLayout pg \<and> p \<in> set navLinks then Some (visit now (p, None) sh) else None
      | None \<Rightarrow> None)"
| "shell_step lang loadTime now sh (TypeAddress p) =
     (if p = fst (here sh) then Some (Inr sh) else Some (visit now (p, None) sh))"
| "shell_step lang loadTime now sh BrowserBack =
     (if past sh = [] then None else Some (mountHere now (goBack sh)))"
| "shell_step lang loadTime now sh BrowserForward =
     (if future sh = [] then None else Some (mountHere now (goForward sh)))"
| "shell_step lang loadTime now sh HomeStartWorkout =
     (if currentPage sh = Some HomePage then Some (visit now (''/training'', None) sh) else None)"
| "shell_step lang loadTime now sh TrainingCreate =
     (if currentPage sh = Some TrainingPage then Some (visit now (''/create'', None) sh) else None)"
| "shell_step lang loadTime now sh (TrainingStart r) =
     (if currentPage sh = Some TrainingPage \<and>
         (r \<in> set (getRoutines (store (shell_app sh))) \<or>
          r \<in> set (ctx_premade (appContext lang loadTime)) \<and>
            snd (Button (premadeButton (isPremium (shownStats (shell_app sh))) r) ()) \<noteq> None)
      then (case handleStart (isPremium (shownStats (shell_app sh))) r of
              PremiumAlert \<Rightarrow> Some (Inr sh)
            | StartSession r' \<Rightarrow> Some (visit now (''/session'', Some r') sh))
      else None)"
| "shell_step lang loadTime now sh CreateClose =
     (if currentPage sh = Some CreateRoutinePage
      then Some (if past sh = [] then Inr sh else mountHere now (goBack sh)) else None)"
| "shell_step lang loadTime now sh (CreateSave name picks) =
     (if currentPage sh = Some CreateRoutinePage \<and> set picks \<subseteq> set (ctx_library (appContext lang loadTime))
      then (let selected = selectExercises picks in
            if name = [] \<or> selected = [] then Some (Inr sh)
            else Some (visit now (''/training'', None)
                         (sh\<lparr>shell_app := saveNewRoutine name selected now (shell_app sh)\<rparr>)))
      else None)"
| "shell_step lang loadTime now sh (SessionEvent e) =
     (case pageSession sh of
        Some s \<Rightarrow>
          if currentPage sh = Some SessionPage \<and> ui_enabled s e
          then Some (case session_step (ctx_library (appContext lang loadTime)) s e of
                       Inl err \<Rightarrow> Inl err
                     | Inr s' \<Rightarrow> Inr (sh\<lparr>pageSession := Some s'\<rparr>))
          else None
      | None \<Rightarrow> None)"
| "shell_step lang loadTime now sh SessionFinish =
     (case pageSession sh of
        Some s \<Rightarrow>
          if currentPage sh = Some SessionPage \<and> showSummary s
          then Some (case finishWorkout (ctx_library (appContext lang loadTime)) now s (shell_app sh) of
                       Inl err \<Rightarrow> Inl err
                     | Inr a \<Rightarrow> visit now (''/'', None) (sh\<lparr>shell_app := a\<rparr>))
          else None
      | None \<Rightarrow> None)"
| "shell_step lang loadTime now sh SessionClose =
     (case pageSession sh of
        Some s \<Rightarrow>
          if currentPage sh = Some SessionPage \<and> \<not> (showRestTimer s \<or> showSummary s)
          then Some (visit now (''/training'', None) sh) else None
      | None \<Rightarrow> None)"
| "shell_step lang loadTime now sh ProfileTogglePremium =
     (if currentPage sh = Some ProfilePage
      then Some (Inr (sh\<lparr>shell_app := togglePremium (shell_app sh)\<rparr>)) else None)"


text \<open>
  The states the app reaches: opened at any address over a storage whose routines are
  well formed (as every routine this app saves is), then any sequence of actions, at any
  instants, none of which throws.
\<close>

inductive shell_reachable :: "string \<Rightarrow> ms \<Rightarrow> shell \<Rightarrow> bool" for lang loadTime where
  opened: "(\<forall>r \<in> set (getRoutines st). wf_routine r) \<Longrightarrow> mountHere now (shellOpen path st) = Inr sh \<Longrightarrow>
         shell_reachable lang loadTime sh"
| step: "shell_reachable lang loadTime sh \<Longrightarrow> shell_step lang loadTime now sh a = Some (Inr sh') \<Longrightarrow>
         shell_reachable lang loadTime sh'"

section \<open>The shell invariant\<close>

text \<open>
  Every stored routine and every routine held by a history entry is well formed, and
  the session page, when it is the current page, has a routine and holds a session in
  the session invariant.
\<close>

definition locations :: "shell \<Rightarrow> location list" where
  "locations sh = here sh # past sh @ future sh"

definition routines_wf :: "routine list \<Rightarrow> bool" where
  "routines_wf rs \<longleftrightarrow> (\<forall>r \<in> set rs. wf_routine r)"

definition shell_inv :: "shell \<Rightarrow> bool" where
  "shell_inv sh \<longleftrightarrow>
     routines_wf (getRoutines (store (shell_app sh))) \<and>
     routines_wf (List.map_filter snd (locations sh)) \<and>
     (currentPage sh = Some SessionPage \<longrightarrow>
        snd (here sh) \<noteq> None \<and> (\<exists>s. pageSession sh = Some s \<and> session_inv s))"

section \<open>Lemmas\<close>

lemma getRoutines_saveStats [simp]: "getRoutines (saveStats v st) = getRoutines st"
  by (simp add: getRoutines_def saveStats_def)

lemma getRoutines_freshStorage: "getRoutines freshStorage = []"
  by (simp add: getRoutines_def freshStorage_def)

lemma routines_wf_simps [simp]:
  "routines_wf [] = True"
  "routines_wf (r # rs) \<longleftrightarrow> wf_routine r \<and> routines_wf rs"
  "routines_wf (rs @ rs') \<longleftrightarrow> routines_wf rs \<and> routines_wf rs'"
  by (auto simp: routines_wf_def)

lemma map_filter_snd_simps [simp]:
  "List.map_filter snd ((p, None) # xs) = List.map_filter snd xs"
  "List.map_filter snd ((p, Some r) # xs) = r # List.map_filter snd xs"
  "List.map_filter snd (xs @ ys) = List.map_filter snd xs @ List.map_filter snd ys"
  by (simp_all add: map_filter_def)

lemma routines_wf_locations [simp]:
  "routines_wf (List.map_filter snd (locations (sh\<lparr>pageSession := x\<rparr>))) =
   routines_wf (List.map_filter snd (locations sh))"
  "routines_wf (List.map_filter snd (locations (sh\<lparr>shell_app := a\<rparr>))) =
   routines_wf (List.map_filter snd (locations sh))"
  by (simp_all add: locations_def)

lemma map_filter_snd_here:
  "routines_wf (List.map_filter snd (locations sh)) \<Longrightarrow> snd (here sh) = Some r \<Longrightarrow> wf_routine r"
  by (cases "here sh") (simp add: locations_def)

text \<open>Pushing an entry keeps the history well formed when the entry is.\<close>

lemma navigate_wf:
  "routines_wf (List.map_filter snd (locations sh)) \<Longrightarrow> routines_wf (List.map_filter snd [l]) \<Longrightarrow>
   routines_wf (List.map_filter snd (locations (navigate l sh)))"
  by (cases l; cases "here sh") (auto simp: locations_def navigate_def split: option.splits)

text \<open>Moving through the history permutes its entries.\<close>

lemma goBack_goForward_wf:
  "routines_wf (List.map_filter snd (locations sh)) \<Longrightarrow> routines_wf (List.map_filter snd (locations (goBack sh)))"
  "routines_wf (List.map_filter snd (locations sh)) \<Longrightarrow> routines_wf (List.map_filter snd (locations (goForward sh)))"
  by (cases "past sh"; cases "future sh"; cases "here sh";
      auto simp: locations_def goBack_def goForward_def map_filter_def)+

text \<open>A page mounts without throwing on a well-formed history, and leaves the app root alone.\<close>

lemma mountHere_inv:
  assumes st: "routines_wf (getRoutines (store (shell_app sh)))"
    and h: "routines_wf (List.map_filter snd (locations sh))"
  shows "\<exists>sh'. mountHere now sh = Inr sh' \<and> shell_inv sh' \<and> shell_app sh' = shell_app sh"
proof (cases "currentPage sh = Some SessionPage")
  case True
  show ?thesis
  proof (cases "snd (here sh)")
    case None
    have "currentPage (navigate (''/training'', None) (sh\<lparr>pageSession := None\<rparr>)) = Some TrainingPage"
      by (simp add: currentPage_def navigate_def routeOf_def)
    then show ?thesis using True None st h navigate_wf [of "sh\<lparr>pageSession := None\<rparr>"]
      by (simp add: mountHere_def sessionPageMount_def shell_inv_def navigate_def)
  next
    case (Some r)
    then have wf: "wf_routine r" using h by (rule map_filter_snd_here [rotated])
    then have "sessionStart r now = Inr (loadSets (initialSession r now))"
      by (simp add: wf_routine_def sessionStart_eq)
    then show ?thesis using True Some st h sessionStart_inv [OF wf, of now]
      by (simp add: mountHere_def sessionPageMount_def shell_inv_def)
  qed
next
  case False
  then show ?thesis using st h by (simp add: mountHere_def shell_inv_def currentPage_def)
qed

lemma visit_inv:
  assumes "shell_inv sh" "routines_wf (List.map_filter snd [l])"
  shows "\<exists>sh'. visit now l sh = Inr sh' \<and> shell_inv sh' \<and> shell_app sh' = shell_app sh"
proof -
  have "routines_wf (getRoutines (store (shell_app (navigate l sh))))"
    using assms(1) by (simp add: shell_inv_def navigate_def)
  moreover have "routines_wf (List.map_filter snd (locations (navigate l sh)))"
    using assms navigate_wf by (simp add: shell_inv_def)
  ultimately show ?thesis using mountHere_inv [of "navigate l sh" now]
    by (simp add: visit_def navigate_def)
qed

lemma visit_plain_inv:
  "shell_inv sh \<Longrightarrow> \<exists>sh'. visit now (p, None) sh = Inr sh' \<and> shell_inv sh'"
  using visit_inv [of sh "(p, None)" now] by auto

lemma history_move_inv:
  assumes "shell_inv sh"
  shows "\<exists>sh'. mountHere now (goBack sh) = Inr sh' \<and> shell_inv sh' \<and> shell_app sh' = shell_app sh"
    "\<exists>sh'. mountHere now (goForward sh) = Inr sh' \<and> shell_inv sh' \<and> shell_app sh' = shell_app sh"
proof -
  have a: "shell_app (goBack sh) = shell_app sh" "shell_app (goForward sh) = shell_app sh"
    by (simp_all add: goBack_def goForward_def split: list.splits)
  show "\<exists>sh'. mountHere now (goBack sh) = Inr sh' \<and> shell_inv sh' \<and> shell_app sh' = shell_app sh"
    using mountHere_inv [of "goBack sh" now] assms goBack_goForward_wf(1) a(1) by (simp add: shell_inv_def)
  show "\<exists>sh'. mountHere now (goForward sh) = Inr sh' \<and> shell_inv sh' \<and> shell_app sh' = shell_app sh"
    using mountHere_inv [of "goForward sh" now] assms goBack_goForward_wf(2) a(2) by (simp add: shell_inv_def)
qed

text \<open>Every exercise the builder adds from the library has a set and a non-negative target.\<close>

lemma selectExercises_wf:
  assumes "set picks \<subseteq> set (getLocalizedExercises ptTable lang)"
  shows "\<forall>re \<in> set (selectExercises picks). 0 < re_sets re \<and> 0 \<le> re_repsOrDuration re"
proof
  fix re assume "re \<in> set (selectExercises picks)"
  then obtain ex where ex: "ex \<in> set picks" and re: "re = last (handleAdd ex [])"
    using set_fold_handleAdd [of re picks "[]"] by (auto simp: selectExercises_def)
  then obtain e0 where e0: "e0 \<in> set EXERCISE_LIBRARY" "defaultSets ex = defaultSets e0"
    "defaultReps ex = defaultReps e0" "defaultDurationSeconds ex = defaultDurationSeconds e0"
    using assms localized_exercise_from_library by blast
  with library_defaults [OF e0(1)] have "0 < defaultSets ex"
    "\<forall>v. defaultReps ex = Some v \<longrightarrow> 0 \<le> v" "\<forall>v. defaultDurationSeconds ex = Some v \<longrightarrow> 0 \<le> v"
    by simp_all
  then show "0 < re_sets re \<and> 0 \<le> re_repsOrDuration re"
    unfolding re by (auto simp: handleAdd_def js_or_num_def split: option.splits)
qed

text \<open>The routines the training page can start are well formed.\<close>

lemma startable_wf:
  assumes "routines_wf (getRoutines st)"
    and "r \<in> set (getRoutines st) \<union> set (ctx_premade (appContext lang loadTime))"
  shows "wf_routine r"
proof (cases "r \<in> set (getRoutines st)")
  case True
  then show ?thesis using assms(1) by (simp add: routines_wf_def)
next
  case False
  then have "r \<in> set (getLocalizedPremadeRoutines PREMADE_TRANSLATIONS_pt loadTime lang)"
    using assms(2) by (simp add: appContext_def localizedPremadeRoutines_def)
  then obtain r0 where "r0 \<in> set (PREMADE_ROUTINES loadTime)" "r_exercises r = r_exercises r0"
    by (blast dest: localized_routine_from_premade)
  then show ?thesis using premade_routine_facts by (simp add: wf_routine_def)
qed

text \<open>Saving a builder's routine keeps the stored routines well formed.\<close>

lemma save_keeps_wf:
  assumes "routines_wf (getRoutines (store a))" "set picks \<subseteq> set (ctx_library (appContext lang loadTime))"
    "selectExercises picks \<noteq> []"
  shows "routines_wf (getRoutines (store (saveNewRoutine name (selectExercises picks) now a)))"
proof -
  have "set picks \<subseteq> set (getLocalizedExercises EXERCISE_TRANSLATIONS_pt lang)"
    using assms(2) by (simp add: appContext_def localizedExercises_def)
  from selectExercises_wf [OF this] assms(1,3) show ?thesis
    by (simp add: saveNewRoutine_def handleSave_def newRoutine_def wf_routine_def)
qed

lemma shell_inv_app:
  "shell_inv sh \<Longrightarrow> getRoutines (store a) = getRoutines (store (shell_app sh)) \<Longrightarrow>
   shell_inv (sh\<lparr>shell_app := a\<rparr>)"
  by (simp add: shell_inv_def currentPage_def)

lemma shell_inv_session:
  "shell_inv sh \<Longrightarrow> pageSession sh = Some s \<Longrightarrow> currentPage sh = Some SessionPage \<Longrightarrow> session_inv s"
  by (auto simp: shell_inv_def)

text \<open>No action of a well-formed shell throws, and every action keeps it well formed.\<close>

lemma shell_step_inv:
  assumes inv: "shell_inv sh" and st: "shell_step lang loadTime now sh a = Some res"
  shows "\<exists>sh'. res = Inr sh' \<and> shell_inv sh'"
proof (cases a)
  case (NavLinkClick p)
  obtain sh' where "visit now (p, None) sh = Inr sh'" "shell_inv sh'" using visit_plain_inv [OF inv] by blast
  then show ?thesis using NavLinkClick st [symmetric] by (cases "currentPage sh") (auto split: if_splits)
next
  case (TypeAddress p)
  obtain sh' where "visit now (p, None) sh = Inr sh'" "shell_inv sh'" using visit_plain_inv [OF inv] by blast
  then show ?thesis using TypeAddress st [symmetric] inv by (auto split: if_splits)
next
  case BrowserBack
  obtain sh' where "mountHere now (goBack sh) = Inr sh'" "shell_inv sh'" using history_move_inv(1) [OF inv] by blast
  then show ?thesis using BrowserBack st [symmetric] by (auto split: if_splits)
next
  case BrowserForward
  obtain sh' where "mountHere now (goForward sh) = Inr sh'" "shell_inv sh'" using history_move_inv(2) [OF inv] by blast
  then show ?thesis using BrowserForward st [symmetric] by (auto split: if_splits)
next
  case HomeStartWorkout
  obtain sh' where "visit now (''/training'', None) sh = Inr sh'" "shell_inv sh'" using visit_plain_inv [OF inv] by blast
  then show ?thesis using HomeStartWorkout st [symmetric] by (auto split: if_splits)
next
  case TrainingCreate
  obtain sh' where "visit now (''/create'', None) sh = Inr sh'" "shell_inv sh'" using visit_plain_inv [OF inv] by blast
  then show ?thesis using TrainingCreate st [symmetric] by (auto split: if_splits)
next
  case (TrainingStart r)
  show ?thesis
  proof (cases "r \<in> set (getRoutines (store (shell_app sh))) \<or> r \<in> set (ctx_premade (appContext lang loadTime))")
    case True
    then have "r \<in> set (getRoutines (store (shell_app sh))) \<union> set (ctx_premade (appContext lang loadTime))" by simp
    moreover have "routines_wf (getRoutines (store (shell_app sh)))" using inv by (simp add: shell_inv_def)
    ultimately have "wf_routine r" by (simp add: startable_wf)
    then obtain sh' where "visit now (''/session'', Some r) sh = Inr sh'" "shell_inv sh'"
      using visit_inv [OF inv, of "(''/session'', Some r)" now] by auto
    then show ?thesis using TrainingStart st [symmetric] inv by (auto simp: handleStart_def split: if_splits)
  next
    case False
    then show ?thesis using TrainingStart st [symmetric] by simp
  qed
next
  case CreateClose
  obtain sh' where "mountHere now (goBack sh) = Inr sh'" "shell_inv sh'" using history_move_inv(1) [OF inv] by blast
  then show ?thesis using CreateClose st [symmetric] inv by (auto split: if_splits)
next
  case (CreateSave name picks)
  show ?thesis
  proof (cases "currentPage sh = Some CreateRoutinePage \<and> set picks \<subseteq> set (ctx_library (appContext lang loadTime)) \<and>
                name \<noteq> [] \<and> selectExercises picks \<noteq> []")
    case True
    let ?sh1 = "sh\<lparr>shell_app := saveNewRoutine name (selectExercises picks) now (shell_app sh)\<rparr>"
    have "shell_inv ?sh1"
      using True inv save_keeps_wf [of "shell_app sh" picks lang loadTime name now]
      by (simp add: shell_inv_def currentPage_def)
    then obtain sh' where "visit now (''/training'', None) ?sh1 = Inr sh'" "shell_inv sh'"
      using visit_plain_inv by blast
    then show ?thesis using CreateSave st [symmetric] True by (simp add: Let_def)
  next
    case False
    then show ?thesis using CreateSave st [symmetric] inv by (auto simp: Let_def split: if_splits)
  qed
next
  case (SessionEvent e)
  then obtain s where ps: "pageSession sh = Some s" and pg: "currentPage sh = Some SessionPage"
    and en: "ui_enabled s e"
    using st [symmetric] by (auto split: option.splits if_splits)
  have si: "session_inv s" using shell_inv_session [OF inv ps pg] .
  obtain s' where ok: "session_step (ctx_library (appContext lang loadTime)) s e = Inr s'"
    using enabled_step_ok [OF si en] by blast
  have "session_inv s'" using session_step_inv [OF si ok] .
  then have "shell_inv (sh\<lparr>pageSession := Some s'\<rparr>)"
    using inv pg by (simp add: shell_inv_def currentPage_def)
  then show ?thesis using SessionEvent st [symmetric] ps pg en ok by simp
next
  case SessionFinish
  then obtain s where ps: "pageSession sh = Some s" and pg: "currentPage sh = Some SessionPage"
    and sum: "showSummary s"
    using st [symmetric] by (auto split: option.splits if_splits)
  have "exerciseIndex s < length (r_exercises (routine s))"
    using shell_inv_session [OF inv ps pg] by (simp add: session_inv_def)
  then obtain wl where wl: "handleFinishWorkout (ctx_library (appContext lang loadTime)) now s = Inr wl"
    using handleFinishWorkout_eq by blast
  let ?sh1 = "sh\<lparr>shell_app := (shell_app sh)\<lparr>store := saveLog wl now (store (shell_app sh))\<rparr>\<rparr>"
  have "shell_inv ?sh1" using shell_inv_app [OF inv] by simp
  then obtain sh' where "visit now (''/'', None) ?sh1 = Inr sh'" "shell_inv sh'"
    using visit_plain_inv by blast
  then show ?thesis using SessionFinish st [symmetric] ps pg sum by (simp add: finishWorkout_eq [OF wl])
next
  case SessionClose
  obtain sh' where "visit now (''/training'', None) sh = Inr sh'" "shell_inv sh'" using visit_plain_inv [OF inv] by blast
  then show ?thesis using SessionClose st [symmetric] by (auto split: option.splits if_splits)
next
  case ProfileTogglePremium
  have "shell_inv (sh\<lparr>shell_app := togglePremium (shell_app sh)\<rparr>)"
    using shell_inv_app [OF inv] by (simp add: togglePremium_def Let_def)
  then show ?thesis using ProfileTogglePremium st [symmetric] by (auto split: if_splits)
qed

lemma shell_reachable_inv: "shell_reachable lang loadTime sh \<Longrightarrow> shell_inv sh"
proof (induction rule: shell_reachable.induct)
  case (opened st now path sh)
  have "routines_wf (getRoutines (store (shell_app (shellOpen path st))))"
    "routines_wf (List.map_filter snd (locations (shellOpen path st)))"
    using opened(1) by (simp_all add: shellOpen_def appMount_def routines_wf_def locations_def)
  from mountHere_inv [OF this, of now] show ?case using opened(2) by simp
next
  case (step sh now a sh')
  then show ?case using shell_step_inv by blast
qed





text \<open>The state the app is in after being opened at \<open>#/session\<close> with nothing stored.\<close>

lemma open_session_reachable:
  "shell_reachable ''en'' 0
     \<lparr>past = [(''/session'', None)], here = (''/training'', None), future = [],
      shell_app = appMount freshStorage, pageSession = None\<rparr>"
  by (rule shell_reachable.opened [where st = freshStorage and now = 0 and path = "''/session''"])
     (simp_all add: getRoutines_freshStorage mountHere_def shellOpen_def currentPage_def routeOf_def
        sessionPageMount_def navigate_def)

section \<open>Properties\<close>

text \<open>
  C40. Whatever the user does in the app (its buttons and links, typed addresses, the
  browser's back and forward buttons), starting from any storage whose routines are well
  formed, no action throws; and the session page is never left showing without a
  routine, and while it shows, its session satisfies the session invariant.
\<close>

theorem app_never_throws:
  assumes "shell_reachable lang loadTime sh"
  shows "shell_step lang loadTime now sh a \<noteq> Some (Inl e) \<and>
    (currentPage sh = Some SessionPage \<longrightarrow>
       snd (here sh) \<noteq> None \<and> (\<exists>s. pageSession sh = Some s \<and> session_inv s))"
proof -
  have inv: "shell_inv sh" using assms by (rule shell_reachable_inv)
  have "shell_step lang loadTime now sh a \<noteq> Some (Inl e)"
    using shell_step_inv [OF inv, of lang loadTime now a "Inl e"] by auto
  then show ?thesis using inv by (simp add: shell_inv_def)
qed

theorem app_never_throws_witness:
  "shell_reachable ''en'' 0
     \<lparr>past = [(''/session'', None)], here = (''/training'', None), future = [],
      shell_app = appMount freshStorage, pageSession = None\<rparr> \<and>
   (\<forall>e. shell_step ''en'' 0 5
     \<lparr>past = [(''/session'', None)], here = (''/training'', None), future = [],
      shell_app = appMount freshStorage, pageSession = None\<rparr> BrowserBack \<noteq> Some (Inl e))"
  using open_session_reachable app_never_throws [OF open_session_reachable, of 5] by blast



text \<open>
  C31. The redirect of the session page pushes \<open>/training\<close> rather than replacing the entry
  without a routine. From the training page it redirected to, the browser's back button
  returns to that entry, whose mount pushes \<open>/training\<close> again: the state is the same
  but for the entries ahead, so back never leaves the training page.
\<close>

theorem back_after_redirect:
  assumes "here sh = (''/training'', None)" "past sh = (''/session'', None) # rest"
  shows "shell_step lang loadTime now sh BrowserBack = Some (Inr (sh\<lparr>future := [], pageSession := None\<rparr>))"
  using assms
  by (simp add: goBack_def mountHere_def currentPage_def routeOf_def sessionPageMount_def navigate_def)

theorem back_after_redirect_witness:
  "shell_step ''en'' 0 5
     \<lparr>past = [(''/session'', None)], here = (''/training'', None), future = [],
      shell_app = appMount freshStorage, pageSession = None\<rparr> BrowserBack =
   Some (Inr \<lparr>past = [(''/session'', None)], here = (''/training'', None), future = [],
      shell_app = appMount freshStorage, pageSession = None\<rparr>)"
  using back_after_redirect [of "\<lparr>past = [(''/session'', None)], here = (''/training'', None), future = [],
      shell_app = appMount freshStorage, pageSession = None\<rparr>" "[]" "''en''" 0 5] by simp

end
