(* ===== verification/Spec2Isabelle.thy ===== *)
theory Spec2Isabelle
  imports SessionFinish AppShell
begin

text \<open>
  \<^bold>\<open>A verification development of mobilify.\<close>
  The program is a single-page React app, \<open>src/Nova pasta/\<close>: a mobility trainer
  with a catalog of exercises, premade and user-built routines, a guided workout session,
  and a history and statistics kept in \<open>localStorage\<close>. This library models its
  logic as executable HOL functions and proves what that logic does.

  \<^bold>\<open>Parts and how they interact.\<close>
  \<^item> \<^theory_text>\<open>Prelude\<close>: the JavaScript runtime operations the code relies on
    (\<open>Math.round\<close> as \<open>js_round\<close>, \<open>n.toString()\<close> as \<open>js_toString\<close> with its parser
    and round trip, numeric \<open>||\<close> as \<open>js_or_num\<close>) and shared list lemmas.
  \<^item> \<^theory_text>\<open>Types\<close>: \<open>types.ts\<close>, one record or datatype per interface or enum.
  \<^item> \<^theory_text>\<open>Catalog\<close>: \<open>constants.ts\<close>, i.e. \<open>EXERCISE_LIBRARY\<close>, \<open>PREMADE_ROUTINES\<close>,
    \<open>INITIAL_STATS\<close>, the Portuguese tables (non-ASCII characters as code points) and
    \<open>getLocalizedExercises\<close>, \<open>getLocalizedPremadeRoutines\<close>, generic in the table and
    instantiated with the module's.
  \<^item> \<^theory_text>\<open>SetHeap\<close>: an explicit store of \<open>WorkoutSetResult\<close> objects (an address is a
    position), because the session mutates set objects in place and a committed log shares
    them with the working list.
  \<^item> \<^theory_text>\<open>Session\<close>: \<open>SessionPage\<close> of \<open>App.tsx\<close> (lines 405--701). The React state is
    the record \<open>session\<close>, the \<open>useEffect\<close> on the index is \<open>loadSets\<close>, the rest timer
    effect is \<open>restTick\<close>, and rendering with an index outside the routine is the error
    \<open>render\<close> returns. Each handler (\<open>handleToggleSet\<close>, \<open>handleUpdateValue\<close>,
    \<open>handleAddSet\<close>, \<open>handleRemoveSet\<close>, \<open>saveCurrentExerciseData\<close>,
    \<open>handleNextExercise\<close>, \<open>handlePrevExercise\<close>, \<open>handleFinishWorkout\<close>) is one
    definition returning \<open>js_error + session\<close>. The buttons are the \<open>event\<close> datatype,
    \<open>session_step\<close> dispatches one, \<open>session_run\<close>/\<open>startAndRun\<close> run a sequence, and
    \<open>ui_enabled\<close> says which buttons the rendered page offers.
  \<^item> \<^theory_text>\<open>SessionInv\<close>: the invariant \<open>session_inv\<close> (well-formed routine, index in
    range, committed logs matching the routine, distinct present set addresses,
    non-negative values) and the inductive \<open>reachable\<close> of states a started session
    reaches.
  \<^item> \<^theory_text>\<open>SessionProps\<close>: the behaviour of every handler and the properties C1, C3--C12, C14--C16.
  \<^item> \<^theory_text>\<open>SessionPhase\<close>: the design's phase machine (\<open>InProgress\<close>, \<open>Resting\<close>,
    \<open>Reviewing\<close>) as the inductive \<open>spec_step\<close>, the page's phase read off its overlay
    flags, the states reached through offered buttons (\<open>ui_reachable\<close>), and the
    refinement C30.
  \<^item> \<^theory_text>\<open>SessionNumbering\<close>: the data model's set numbering (\<open>setNumber\<close> is the
    1-based position) as an invariant of the working list and of every committed log,
    proved for every reachable state.
  \<^item> \<^theory_text>\<open>SessionFinish\<close>: the design's \<open>finish()\<close> over the committed map
    (\<open>spec_finish_exercises\<close>) and its equivalence with the code (C34), conformance of every
    saved log to the data model (C35), and that the page can always reach a finished log
    through offered buttons (\<open>ui_run\<close>, C36).
  \<^item> \<^theory_text>\<open>Pages\<close>: what \<open>HomePage\<close> and \<open>ProfilePage\<close> display
    (\<open>homeView\<close>, \<open>profileView\<close>): the five most recent logs, the coach tip (its
    loading text, then the settled \<open>getAITip\<close>), the minutes of a recent workout, the
    streak, the counters and the premium-gated chart data (C32, C33); and what the training
    page displays (\<open>trainingView\<close>): its lists, the create tile, and the premade cards'
    lock, label and disabled button (C39).
  \<^item> \<^theory_text>\<open>Storage\<close>: \<open>services/storageService.ts\<close>. The three keys are options; the
    module object \<open>INITIAL_STATS\<close> is part of the state (\<open>initialStatsObj\<close>), because
    \<open>getStats\<close> hands it out and \<open>saveLog\<close> mutates what \<open>getStats\<close> returned.
  \<^item> \<^theory_text>\<open>Routines\<close>: \<open>CreateRoutinePage\<close> (\<open>handleAdd\<close>, \<open>handleSave\<close>,
    the library filter) and \<open>TrainingPage\<close> (\<open>handleStart\<close>, the create tile).
  \<^item> \<^theory_text>\<open>BuilderView\<close>: what the builder shows: the row of each selected
    exercise, the filter chips (one per value of the \<open>MuscleGroup\<close> enum, with its string
    value as fallback label) and the Save button's enabling (C37, C38).
  \<^item> \<^theory_text>\<open>AppModel\<close>: the \<open>App\<close> root's statistics state (\<open>appMount\<close>,
    \<open>shownStats\<close>), finishing a workout through \<open>Storage.saveLog\<close> (\<open>finishWorkout\<close>),
    the profile's \<open>togglePremium\<close>.
  \<^item> \<^theory_text>\<open>TipProvider\<close>: \<open>services/geminiService.ts\<close>. The text-generation
    service is a parameter (a function from the prompt to the outcome of the awaited
    call); \<open>getAITip\<close> and \<open>getDetailedExerciseAdvice\<close> are modelled with their prompts,
    \<open>String.prototype.trim\<close> and every fallback text (C28, C29).
  \<^item> \<^theory_text>\<open>Components\<close>: the language context's value
    (\<open>language_context\<close>) and the shared components \<open>Button\<close>, \<open>Card\<close> and \<open>Chip\<close>:
    the class names they compose, and \<open>Button\<close>'s click, none when disabled; the premade
    card's button and the builder's chip row as uses of them, with exactly one chip
    active whatever the filter.
  \<^item> \<^theory_text>\<open>BuilderPage\<close>: \<open>CreateRoutinePage\<close>'s state between clicks
    (\<open>builder_state\<close>: name, selection, filter) and its controls (\<open>builder_step\<close>,
    \<open>builder_run\<close>); the selections it reaches are exactly those \<open>selectExercises\<close>
    builds from library exercises, which justifies the shell's one-step save (C17).
  \<^item> \<^theory_text>\<open>AppShell\<close>: the app as a whole. Its state (\<open>shell\<close>) is the
    hash history (entries behind, current, ahead; each a path with the routine pushed as
    its \<open>state\<close>), the root's state and the mounted session. \<open>routeOf\<close> is the route
    table of \<open>App\<close>, \<open>inMainLayout\<close> and \<open>navLinks\<close> are \<open>MainLayout\<close> and its
    \<open>Navigation\<close> bar, \<open>appContext\<close> the language context, \<open>sessionPageMount\<close> the
    session page's mount with and without \<open>location.state\<close>. \<open>shell_step\<close> performs one
    action: a control of a page (calling the handlers of the theories above), a
    navigation link, a typed address, or the back and forward buttons; react-router's
    \<open>navigate\<close> pushes an entry and a page mounts afresh when its entry becomes current.
    \<open>shell_reachable\<close> is the inductive set of states the app reaches (C40);
    \<open>shell_run\<close> runs a sequence of actions.
  \<^item> This theory: the properties that span the session, storage and the pages,
    C18--C27.

  \<^bold>\<open>What is proved.\<close> The session invariant holds in every reachable state (C2), and no
  button the page offers throws there (C3). Next walks through the routine and commits
  each exercise (C1). Committing refines a finite-map update of the spec's
  \<open>workoutData\<close> (C4). Each handler is proved correct on each of its branches
  (C5--C12). Every offered button
  moves the page along a transition of the design's phase machine (C30). Finishing agrees
  with the design's \<open>finish()\<close> (C34), every saved log conforms to the data model (C35),
  and the user can always reach a finished log in at most two presses (C36). The behaviours of the
  code that differ from its documentation are proved as they are: retreat reloads the
  planned sets, edits made after revisiting an exercise never reach the saved log,
  committed logs alias the working objects, and the summary over-counts (C12, C14--C16). Across components,
  this theory proves how a workout updates the stored history and statistics (C18,
  C19), the stale statistics the root keeps and the workout the premium toggle discards
  (C20, C21), that storage keeps only non-empty routines and that built and premade
  routines start valid sessions (C22--C24), the premium gating and the unenforced
  routine limit (C25, C26), and what routine ids are (C27). The pages prove the home page
  after a workout (C32) and the disagreeing minute roundings of summary, history and
  statistics (C33). The builder's chips partition the library and its rows show what was
  added, with Save enabled exactly when saving stores a routine (C37, C38). The training
  page's premade cards agree with its start handler and the catalog (C39). For the whole
  app, no action of any reachable state throws, and the session page never shows without
  a routine and always holds a session in the invariant (C40); opening the session page
  without a routine redirects with a push, so the back button cannot leave the training
  page it lands on (C31). From every reachable state the home page is at most four
  offered actions away, without saving anything (C13). The builder page, click by click,
  reaches exactly the saves the shell's one-step save takes (C17).

  \<^bold>\<open>Choices.\<close> \<open>JSON.stringify\<close>/\<open>JSON.parse\<close> is the identity on the model's
  values (strings, finite numbers, booleans, \<open>null\<close>), so a stored blob is kept as the
  value. One handler reads one \<open>Date.now()\<close> instant, a parameter. No loop of the code
  is unbounded: every function is total (\<open>fun\<close> by structural recursion), and the
  timer's countdown is iterated explicitly (\<open>restTick ^^ n\<close>), so no fuel is needed.
  Durations are exact rationals and \<open>Math.round\<close> is \<open>\<lfloor>x + 1/2\<rfloor>\<close>.

  \<^bold>\<open>Not modelled.\<close> The language model behind \<open>services/geminiService.ts\<close> (its
  answers are a parameter); \<open>services/localization\<close>, imported but absent from the
  sources and unspecified: the language \<open>getSystemLanguage\<close> returns is a parameter, and
  the UI strings \<open>t\<close> are left out of the context and of the views; the markup of the
  pages (element nesting, icons, \<open>SectionHeader\<close>, which only places its title and
  action), which has no behaviour; which navigation tab is highlighted (react-router's
  \<open>NavLink\<close>); the date formatting of \<open>toLocaleDateString\<close>. Nothing else of the
  sources is left out: every function, handler, effect and control of them is a
  definition of this library.
\<close>

section \<open>Cross-component definitions\<close>

text \<open>Every routine in storage has a name and at least one exercise.\<close>

definition stored_routines_ok :: "storage_state \<Rightarrow> bool" where
  "stored_routines_ok st \<longleftrightarrow> (\<forall>r \<in> set (getRoutines st). r_name r \<noteq> [] \<and> r_exercises r \<noteq> [])"

section \<open>Shared lemmas\<close>

text \<open>An exercise id resolves in the localised library exactly when it is a library id.\<close>

lemma findExercise_localized:
  "findExercise (getLocalizedExercises ptTable lang) i = None \<longleftrightarrow> i \<notin> set (map e_id EXERCISE_LIBRARY)"
proof -
  have "findExercise (getLocalizedExercises ptTable lang) i = None \<longleftrightarrow>
        i \<notin> set (map e_id (getLocalizedExercises ptTable lang))"
    by (auto simp: findExercise_def find_None_iff)
  then show ?thesis by (simp only: getLocalizedExercises_keeps(1))
qed

lemma premade_localized_premium:
  "\<forall>r \<in> set (getLocalizedPremadeRoutines ptR loadTime lang). r_isPremium r"
  using localized_routine_from_premade premade_routine_facts by metis

lemma fresh_mount_stats:
  "getLogs (store (appMount freshStorage)) = []"
  "currentStats (store (appMount freshStorage)) = INITIAL_STATS"
  "appStats (appMount freshStorage) = InitialStatsObj"
  by (simp_all add: appMount_def freshStorage_def getLogs_def currentStats_def getStats_def stats_val_def)

lemma pm1_session_finishes: "\<exists>wl. handleFinishWorkout library now pm1_session = Inr wl"
proof -
  have "exerciseIndex pm1_session < length (r_exercises (routine pm1_session))"
    using pm1_session_inv by (simp add: session_inv_def)
  then show ?thesis using handleFinishWorkout_eq by blast
qed

section \<open>Persistence and statistics\<close>

text \<open>
  C18. Saving two workout logs appends both to the stored history and updates the
  stored statistics by two workouts, the rounded minutes of each, two streak days, and
  the instant of the second save as the last workout date.
\<close>

theorem stats_after_two_workouts:
  "getLogs (saveLog w2 t2 (saveLog w1 t1 st)) = getLogs st @ [w1, w2] \<and>
   currentStats (saveLog w2 t2 (saveLog w1 t1 st)) =
     (currentStats st)\<lparr>totalWorkouts := totalWorkouts (currentStats st) + 2,
        totalMinutes := totalMinutes (currentStats st) + js_round (totalDurationSeconds w1 / 60)
                        + js_round (totalDurationSeconds w2 / 60),
        lastWorkoutDate := Some t2, streakDays := streakDays (currentStats st) + 2\<rparr>"
  by (simp add: updateStatsForLog_def)

text \<open>
  C19. Finishing a session in a valid state always produces a log, stores it after the
  earlier ones, adds one workout and the session's duration rounded to whole minutes to
  the stored statistics, and records the finishing instant; the statistics reference
  held by the app root is left as it was.
\<close>

theorem finish_records_workout:
  assumes "session_inv s"
  shows "\<exists>a' wl. handleFinishWorkout library now s = Inr wl \<and> finishWorkout library now s a = Inr a' \<and>
    getLogs (store a') = getLogs (store a) @ [wl] \<and>
    totalWorkouts (currentStats (store a')) = totalWorkouts (currentStats (store a)) + 1 \<and>
    totalMinutes (currentStats (store a')) =
      totalMinutes (currentStats (store a)) + (now - s_startTime s + 30000) div 60000 \<and>
    lastWorkoutDate (currentStats (store a')) = Some now \<and> appStats a' = appStats a"
proof -
  have idx: "exerciseIndex s < length (r_exercises (routine s))"
    using assms by (simp add: session_inv_def)
  obtain wl where f: "handleFinishWorkout library now s = Inr wl"
    and d: "totalDurationSeconds wl = of_int (now - s_startTime s) / 1000"
    using handleFinishWorkout_eq [OF idx, of library now] by auto
  have m: "js_round (totalDurationSeconds wl / 60) = (now - s_startTime s + 30000) div 60000"
    unfolding d by (rule js_round_ms_minutes)
  show ?thesis
    using f finishWorkout_eq [OF f, of a] m by (simp add: updateStatsForLog_def)
qed

theorem finish_records_workout_witness:
  "session_inv pm1_session \<and>
   (\<exists>a' wl. handleFinishWorkout EXERCISE_LIBRARY 90000 pm1_session = Inr wl \<and>
     finishWorkout EXERCISE_LIBRARY 90000 pm1_session (appMount freshStorage) = Inr a' \<and>
     getLogs (store a') = [wl] \<and> totalWorkouts (currentStats (store a')) = 1 \<and>
     totalMinutes (currentStats (store a')) = 2 \<and>
     lastWorkoutDate (currentStats (store a')) = Some 90000 \<and>
     appStats a' = InitialStatsObj)"
  using pm1_session_inv
    finish_records_workout [OF pm1_session_inv, of EXERCISE_LIBRARY 90000 "appMount freshStorage"]
  by (simp add: fresh_mount_stats INITIAL_STATS_def pm1_session_eq)

text \<open>
  C20. When statistics are stored, the premium toggle after a workout overwrites them
  with the copy the app root read at mount: the workout counted by \<open>saveLog\<close> is lost
  from the stored statistics.
\<close>

theorem premium_toggle_discards_workout:
  assumes "ls_stats (ls st) = Some v" "handleFinishWorkout library now s = Inr wl"
  shows "\<exists>a'. finishWorkout library now s (appMount st) = Inr a' \<and>
     totalWorkouts (currentStats (store a')) = totalWorkouts v + 1 \<and>
     currentStats (store (togglePremium a')) = v\<lparr>isPremium := \<not> isPremium v\<rparr>"
proof -
  have cs: "currentStats st = v" using assms(1) by (simp add: currentStats_def getStats_def stats_val_def)
  have shown: "shownStats ((appMount st)\<lparr>store := saveLog wl now st\<rparr>) = v"
    using assms(1) by (simp add: appMount_def shownStats_def getStats_def stats_val_def)
  show ?thesis
    using finishWorkout_eq [OF assms(2), of "appMount st"] shown cs
    by (simp add: appMount_def updateStatsForLog_def)
qed

theorem premium_toggle_discards_workout_witness:
  "ls_stats (ls (saveStats INITIAL_STATS freshStorage)) = Some INITIAL_STATS \<and>
   (\<exists>wl. handleFinishWorkout EXERCISE_LIBRARY 90000 pm1_session = Inr wl \<and>
     (\<exists>a'. finishWorkout EXERCISE_LIBRARY 90000 pm1_session (appMount (saveStats INITIAL_STATS freshStorage)) = Inr a' \<and>
        totalWorkouts (currentStats (store a')) = 1 \<and>
        currentStats (store (togglePremium a')) = INITIAL_STATS\<lparr>isPremium := True\<rparr>))"
proof -
  obtain wl where f: "handleFinishWorkout EXERCISE_LIBRARY 90000 pm1_session = Inr wl"
    using pm1_session_finishes by blast
  show ?thesis
    using premium_toggle_discards_workout [OF ls_stats_saveStats [of INITIAL_STATS freshStorage] f] f
    by (simp add: INITIAL_STATS_def)
qed

text \<open>
  C21. On a fresh install the app root holds the shared \<open>INITIAL_STATS\<close> object, which
  the first \<open>saveLog\<close> mutates, so the first workout shows; after that the stats are
  stored as a copy and the root's view stays at one workout while storage counts two.
\<close>

theorem fresh_install_stats_view:
  assumes "handleFinishWorkout library t1 s1 = Inr w1" "handleFinishWorkout library t2 s2 = Inr w2"
  shows "\<exists>a1 a2. finishWorkout library t1 s1 (appMount freshStorage) = Inr a1 \<and>
     finishWorkout library t2 s2 a1 = Inr a2 \<and>
     shownStats a1 = currentStats (store a1) \<and> totalWorkouts (shownStats a1) = 1 \<and>
     shownStats a2 = shownStats a1 \<and> totalWorkouts (currentStats (store a2)) = 2"
proof -
  let ?a1 = "(appMount freshStorage)\<lparr>store := saveLog w1 t1 freshStorage\<rparr>"
  let ?a2 = "?a1\<lparr>store := saveLog w2 t2 (saveLog w1 t1 freshStorage)\<rparr>"
  have f1: "finishWorkout library t1 s1 (appMount freshStorage) = Inr ?a1"
    using finishWorkout_eq [OF assms(1)] by (simp add: appMount_def)
  have f2: "finishWorkout library t2 s2 ?a1 = Inr ?a2"
    using finishWorkout_eq [OF assms(2)] by simp
  have ref: "appStats ?a1 = InitialStatsObj"
    by (simp add: fresh_mount_stats)
  have "shownStats ?a1 = updateStatsForLog w1 t1 INITIAL_STATS"
    using ref by (simp add: shownStats_def stats_val_def initialStatsObj_saveLog freshStorage_def)
  moreover have "shownStats ?a2 = updateStatsForLog w1 t1 INITIAL_STATS"
    using ref by (simp add: shownStats_def stats_val_def initialStatsObj_saveLog freshStorage_def ls_stats_saveLog)
  moreover have "currentStats freshStorage = INITIAL_STATS"
    by (simp add: currentStats_def freshStorage_def getStats_def stats_val_def)
  ultimately show ?thesis
    using f1 f2 by (simp add: updateStatsForLog_def INITIAL_STATS_def)
qed

theorem fresh_install_stats_view_witness:
  "\<exists>w1 w2. handleFinishWorkout EXERCISE_LIBRARY 60000 pm1_session = Inr w1 \<and>
     handleFinishWorkout EXERCISE_LIBRARY 120000 pm1_session = Inr w2 \<and>
     (\<exists>a1 a2. finishWorkout EXERCISE_LIBRARY 60000 pm1_session (appMount freshStorage) = Inr a1 \<and>
        finishWorkout EXERCISE_LIBRARY 120000 pm1_session a1 = Inr a2 \<and>
        totalWorkouts (shownStats a2) = 1 \<and> totalWorkouts (currentStats (store a2)) = 2)"
proof -
  obtain w1 where f1: "handleFinishWorkout EXERCISE_LIBRARY 60000 pm1_session = Inr w1"
    using pm1_session_finishes by blast
  obtain w2 where f2: "handleFinishWorkout EXERCISE_LIBRARY 120000 pm1_session = Inr w2"
    using pm1_session_finishes by blast
  show ?thesis using fresh_install_stats_view [OF f1 f2] f1 f2 by auto
qed

section \<open>Routines: builder, storage and training page\<close>

text \<open>
  C22. Storage only ever holds routines with a name and at least one exercise: saving
  from the builder, saving a log and saving statistics all keep that true.
\<close>

theorem stored_routines_nonempty:
  assumes "stored_routines_ok st"
  shows "stored_routines_ok (handleSave name selected now st) \<and> stored_routines_ok (saveLog wl t st) \<and>
    stored_routines_ok (saveStats v st)"
proof -
  have "stored_routines_ok (handleSave name selected now st)"
    using assms by (auto simp: stored_routines_ok_def handleSave_def newRoutine_def)
  moreover have "getRoutines (saveStats v st) = getRoutines st"
    by (simp add: getRoutines_def saveStats_def)
  ultimately show ?thesis using assms by (simp add: stored_routines_ok_def)
qed

theorem stored_routines_nonempty_witness:
  "stored_routines_ok freshStorage \<and>
   stored_routines_ok (handleSave ''Legs'' (r_exercises (PREMADE_ROUTINES 0 ! 0)) 5 freshStorage)"
proof -
  have ok: "stored_routines_ok freshStorage"
    by (simp add: stored_routines_ok_def getRoutines_freshStorage)
  show ?thesis using stored_routines_nonempty [OF ok] ok by blast
qed

text \<open>
  C23. A routine built from a non-empty choice of library exercises and a non-empty
  name is stored, is well formed, and starts a session in a valid state.
\<close>

theorem built_routines_runnable:
  assumes "set picks \<subseteq> set (getLocalizedExercises ptTable lang)" "picks \<noteq> []" "name \<noteq> []"
  shows "getRoutines (handleSave name (selectExercises picks) now st) =
           getRoutines st @ [newRoutine name (selectExercises picks) now] \<and>
         wf_routine (newRoutine name (selectExercises picks) now) \<and>
         (\<exists>s. sessionStart (newRoutine name (selectExercises picks) now) t = Inr s \<and> session_inv s)"
proof -
  have ne: "selectExercises picks \<noteq> []" using assms(2) by (rule selectExercises_nonempty)
  have wf: "wf_routine (newRoutine name (selectExercises picks) now)"
    using selectExercises_wf [OF assms(1)] ne by (simp add: wf_routine_def newRoutine_def)
  then have "r_exercises (newRoutine name (selectExercises picks) now) \<noteq> []"
    by (simp add: wf_routine_def)
  then show ?thesis
    using wf sessionStart_eq sessionStart_inv [OF wf] ne assms(3) by (simp add: handleSave_def)
qed

theorem built_routines_runnable_witness:
  "set [EXERCISE_LIBRARY ! 0] \<subseteq> set (getLocalizedExercises Map.empty ''en'') \<and>
   wf_routine (newRoutine ''Legs'' (selectExercises [EXERCISE_LIBRARY ! 0]) 7) \<and>
   (\<exists>s. sessionStart (newRoutine ''Legs'' (selectExercises [EXERCISE_LIBRARY ! 0]) 7) 0 = Inr s \<and> session_inv s)"
proof -
  have sub: "set [EXERCISE_LIBRARY ! 0] \<subseteq> set (getLocalizedExercises Map.empty ''en'')"
    by (simp add: getLocalizedExercises_def EXERCISE_LIBRARY_def)
  show ?thesis
    using built_routines_runnable [OF sub, where name = "''Legs''" and now = 7 and st = freshStorage and t = 0]
      sub by simp
qed

text \<open>
  C24. Every premade routine, in every language, is premium, well formed, and names
  only exercises the localised library resolves.
\<close>

theorem premade_routines_runnable:
  "\<forall>r \<in> set (getLocalizedPremadeRoutines ptR loadTime lang). wf_routine r \<and> r_isPremium r \<and>
     (\<forall>re \<in> set (r_exercises r). findExercise (getLocalizedExercises ptE lang) (re_exerciseId re) \<noteq> None)"
proof
  fix r assume "r \<in> set (getLocalizedPremadeRoutines ptR loadTime lang)"
  then obtain r0 where r0: "r0 \<in> set (PREMADE_ROUTINES loadTime)"
      "r_exercises r = r_exercises r0" "r_isPremium r = r_isPremium r0"
    by (blast dest: localized_routine_from_premade)
  from premade_routine_facts [OF r0(1)] r0(2,3)
  show "wf_routine r \<and> r_isPremium r \<and>
     (\<forall>re \<in> set (r_exercises r). findExercise (getLocalizedExercises ptE lang) (re_exerciseId re) \<noteq> None)"
    by (simp add: wf_routine_def findExercise_localized)
qed

theorem premade_routines_runnable_witness:
  "PREMADE_ROUTINES 0 ! 1 \<in> set (getLocalizedPremadeRoutines Map.empty 0 ''en'') \<and>
   wf_routine (PREMADE_ROUTINES 0 ! 1) \<and> r_isPremium (PREMADE_ROUTINES 0 ! 1)"
proof -
  have m: "PREMADE_ROUTINES 0 ! 1 \<in> set (getLocalizedPremadeRoutines Map.empty 0 ''en'')"
    by (simp add: getLocalizedPremadeRoutines_def PREMADE_ROUTINES_def)
  show ?thesis
    using premade_routines_runnable [where ptR = Map.empty and loadTime = 0 and lang = "''en''"] m by blast
qed

text \<open>
  C25. The training page's start handler starts exactly the routine chosen, and does so
  exactly when the user is premium or the routine is not; otherwise it raises the premium
  alert. So a premium user starts every premade routine, a free user starts none of them,
  and every routine the builder saves starts for every user.
\<close>

theorem premium_gating:
  "(handleStart userIsPremium r = StartSession r \<longleftrightarrow> userIsPremium \<or> \<not> r_isPremium r) \<and>
   (handleStart userIsPremium r \<noteq> StartSession r \<longrightarrow> handleStart userIsPremium r = PremiumAlert) \<and>
   (\<forall>r'. handleStart userIsPremium r = StartSession r' \<longrightarrow> r' = r) \<and>
   (\<forall>r \<in> set (getLocalizedPremadeRoutines ptR loadTime lang).
      handleStart True r = StartSession r \<and> handleStart False r = PremiumAlert) \<and>
   handleStart userIsPremium (newRoutine name selected now) = StartSession (newRoutine name selected now)"
  using premade_localized_premium [of ptR loadTime lang] by (auto simp: handleStart_def newRoutine_def)

theorem premium_gating_witness:
  "PREMADE_ROUTINES 0 ! 0 \<in> set (getLocalizedPremadeRoutines Map.empty 0 ''en'') \<and>
   handleStart True (PREMADE_ROUTINES 0 ! 0) = StartSession (PREMADE_ROUTINES 0 ! 0) \<and>
   handleStart False (PREMADE_ROUTINES 0 ! 0) = PremiumAlert \<and>
   handleStart False (newRoutine ''Legs'' [] 7) = StartSession (newRoutine ''Legs'' [] 7)"
proof -
  have m: "PREMADE_ROUTINES 0 ! 0 \<in> set (getLocalizedPremadeRoutines Map.empty 0 ''en'')"
    by (simp add: getLocalizedPremadeRoutines_def PREMADE_ROUTINES_def)
  show ?thesis
    using premium_gating [where userIsPremium = False and r = "PREMADE_ROUTINES 0 ! 0"
        and ptR = Map.empty and loadTime = 0 and lang = "''en''" and name = "''Legs''"
        and selected = "[]" and now = 7] m
    by blast
qed

text \<open>
  C26. The limit of three routines for a free user is only the hidden tile: with three
  stored routines the tile is gone, but the header's button still reaches the builder and
  saving a fourth routine succeeds.
\<close>

theorem routine_limit_not_enforced:
  assumes "length (getRoutines st) = 3" "name \<noteq> []" "selected \<noteq> []"
  shows "\<not> showCreateTile False (getRoutines st) \<and> length (getRoutines (handleSave name selected now st)) = 4"
  using assms by (simp add: showCreateTile_def handleSave_def)

theorem routine_limit_not_enforced_witness:
  "length (getRoutines (saveRoutine (PREMADE_ROUTINES 0 ! 0) (saveRoutine (PREMADE_ROUTINES 0 ! 0)
      (saveRoutine (PREMADE_ROUTINES 0 ! 0) freshStorage)))) = 3 \<and>
   length (getRoutines (handleSave ''Legs'' (r_exercises (PREMADE_ROUTINES 0 ! 0)) 9
      (saveRoutine (PREMADE_ROUTINES 0 ! 0) (saveRoutine (PREMADE_ROUTINES 0 ! 0)
        (saveRoutine (PREMADE_ROUTINES 0 ! 0) freshStorage))))) = 4"
proof -
  have three: "length (getRoutines (saveRoutine (PREMADE_ROUTINES 0 ! 0) (saveRoutine (PREMADE_ROUTINES 0 ! 0)
      (saveRoutine (PREMADE_ROUTINES 0 ! 0) freshStorage)))) = 3"
    using getRoutines_freshStorage by simp
  have ne: "r_exercises (PREMADE_ROUTINES 0 ! 0) \<noteq> []" by (simp add: PREMADE_ROUTINES_def)
  show ?thesis using routine_limit_not_enforced [OF three _ ne, where name = "''Legs''" and now = 9] three
    by simp
qed

text \<open>
  C27. A routine's id is the decimal text of the creation instant: it reads back as that
  instant, and two routines get the same id exactly when saved in the same millisecond.
\<close>

theorem routine_ids_are_timestamps:
  assumes "0 \<le> t1" "0 \<le> t2"
  shows "int (parse_decimal (r_id (newRoutine n1 s1 t1))) = t1 \<and>
    (r_id (newRoutine n1 s1 t1) = r_id (newRoutine n2 s2 t2) \<longleftrightarrow> t1 = t2)"
  using assms by (auto simp: newRoutine_def js_toString_nonneg decimal_inj)

theorem routine_ids_are_timestamps_witness:
  "int (parse_decimal (r_id (newRoutine ''A'' [] 1700000000000))) = 1700000000000 \<and>
   r_id (newRoutine ''A'' [] 1700000000000) = r_id (newRoutine ''B'' [] 1700000000000)"
proof -
  have t: "0 \<le> (1700000000000::int)" by simp
  show ?thesis using routine_ids_are_timestamps [OF t t, of "''A''" "[]" "''B''" "[]"] by blast
qed

end
